theory Spec2Isabelle
  imports Main "HOL-Library.AList"
begin

section \<open>Python values as they reach the tool facade\<close>

text \<open>
  Every payload handled by \<^verbatim>\<open>mcp_server.py\<close> is the result of \<^verbatim>\<open>res.json()\<close>:
  \<^verbatim>\<open>None\<close>, a bool, an int, a float, a str, a list or a dict with str keys. A dict is an
  association list in insertion order; the lists built by the JSON decoder and by the code
  have distinct keys. A str is the list of the bytes of its UTF-8 encoding.

  An exception is a value of type \<open>error\<close>; a computation that may raise returns
  \<open>error + 'a\<close> with \<open>Inl\<close> for the exception.
\<close>

datatype error =
    AttributeError | KeyError | TypeError | ValueError | ZeroDivisionError | OverflowError
  | MemoryError | IndexError | TransportError | JSONDecodeError

text \<open>
  A binary64 float: \<open>Fin m e\<close> is the number \<open>m * 2 ^ e\<close>. The sign of zero is not
  tracked.
\<close>

datatype pyfloat = Fin int int | PInf | NInf | NaN

datatype json =
    JNull
  | JBool bool
  | JInt int
  | JFloat pyfloat
  | JStr string
  | JArr "json list"
  | JObj "(string \<times> json) list"

definition ebind :: "error + 'a \<Rightarrow> ('a \<Rightarrow> error + 'b) \<Rightarrow> error + 'b" where
  "ebind m f = (case m of Inl e \<Rightarrow> Inl e | Inr v \<Rightarrow> f v)"

subsection \<open>Floating point\<close>

text \<open>\<^verbatim>\<open>int.bit_length\<close> of a positive int (0 for the others).\<close>

function bit_length :: "int \<Rightarrow> nat" where
  "bit_length n = (if n \<le> 0 then 0 else Suc (bit_length (n div 2)))"
  by pat_completeness auto
termination
  by (relation "measure nat") auto

declare bit_length.simps [simp del]

text \<open>The integer nearest to \<open>n / d\<close> for \<open>d > 0\<close>, a tie going to the even one.\<close>

definition round_half_even :: "int \<Rightarrow> int \<Rightarrow> int" where
  "round_half_even n d =
     (let f = n div d; r = n mod d
      in if 2 * r < d then f
         else if d < 2 * r then f + 1
         else if even f then f else f + 1)"

text \<open>
  The binary64 value nearest to \<open>n / d\<close> (for \<open>d > 0\<close>), ties to even: 53 significant
  bits, the quantum never below \<open>2 ^ -1074\<close>, infinity from \<open>2 ^ 1024\<close> on.
\<close>

definition to_double :: "int \<Rightarrow> int \<Rightarrow> pyfloat" where
  "to_double n d =
     (if n = 0 then Fin 0 0
      else
        let a = \<bar>n\<bar>;
            k = int (bit_length a) - int (bit_length d);
            e = (if d * 2 ^ nat k \<le> a * 2 ^ nat (- k) then k else k - 1);
            q = max (e - 52) (- 1074);
            r = round_half_even (a * 2 ^ nat (- q)) (d * 2 ^ nat q)
        in if 1024 < int (bit_length r) + q then (if n < 0 then NInf else PInf)
           else Fin (sgn n * r) q)"

text \<open>Numerator and denominator of a finite float.\<close>

definition fnum :: "int \<Rightarrow> int \<Rightarrow> int" where
  "fnum m e = m * 2 ^ nat e"

definition fden :: "int \<Rightarrow> int" where
  "fden e = 2 ^ nat (- e)"

definition fzero :: "pyfloat \<Rightarrow> bool" where
  "fzero x = (case x of Fin m e \<Rightarrow> m = 0 | _ \<Rightarrow> False)"

text \<open>The sign of a float that is not NaN: -1, 0 or 1.\<close>

definition fsgn :: "pyfloat \<Rightarrow> int" where
  "fsgn x = (case x of Fin m e \<Rightarrow> sgn m | PInf \<Rightarrow> 1 | NInf \<Rightarrow> - 1 | NaN \<Rightarrow> 0)"

fun fsub :: "pyfloat \<Rightarrow> pyfloat \<Rightarrow> pyfloat" where
  "fsub NaN y = NaN"
| "fsub x NaN = NaN"
| "fsub PInf PInf = NaN"
| "fsub NInf NInf = NaN"
| "fsub PInf y = PInf"
| "fsub NInf y = NInf"
| "fsub x PInf = NInf"
| "fsub x NInf = PInf"
| "fsub (Fin m1 e1) (Fin m2 e2) =
     to_double (fnum m1 e1 * fden e2 - fnum m2 e2 * fden e1) (fden e1 * fden e2)"

definition fmul :: "pyfloat \<Rightarrow> pyfloat \<Rightarrow> pyfloat" where
  "fmul x y =
     (case (x, y) of
        (Fin m1 e1, Fin m2 e2) \<Rightarrow> to_double (fnum m1 e1 * fnum m2 e2) (fden e1 * fden e2)
      | _ \<Rightarrow>
        if x = NaN \<or> y = NaN \<or> fzero x \<or> fzero y then NaN
        else if fsgn x * fsgn y < 0 then NInf else PInf)"

text \<open>Float division; the caller has excluded a zero divisor.\<close>

definition fdiv :: "pyfloat \<Rightarrow> pyfloat \<Rightarrow> pyfloat" where
  "fdiv x y =
     (case (x, y) of
        (Fin m1 e1, Fin m2 e2) \<Rightarrow>
          to_double (sgn m2 * fnum m1 e1 * fden e2) (\<bar>fnum m2 e2\<bar> * fden e1)
      | (Fin m1 e1, _) \<Rightarrow> if y = NaN then NaN else Fin 0 0
      | (_, Fin m2 e2) \<Rightarrow> if x = NaN then NaN else if fsgn x * fsgn y < 0 then NInf else PInf
      | _ \<Rightarrow> NaN)"

text \<open>\<^verbatim>\<open>x > y\<close> on floats; a comparison with NaN is false.\<close>

definition fgt :: "pyfloat \<Rightarrow> pyfloat \<Rightarrow> bool" where
  "fgt x y =
     (case (x, y) of
        (Fin m1 e1, Fin m2 e2) \<Rightarrow> fnum m2 e2 * fden e1 < fnum m1 e1 * fden e2
      | (NaN, _) \<Rightarrow> False
      | (_, NaN) \<Rightarrow> False
      | (PInf, _) \<Rightarrow> y \<noteq> PInf
      | (_, NInf) \<Rightarrow> x \<noteq> NInf
      | _ \<Rightarrow> False)"

definition feq :: "pyfloat \<Rightarrow> pyfloat \<Rightarrow> bool" where
  "feq x y =
     (case (x, y) of
        (Fin m1 e1, Fin m2 e2) \<Rightarrow> fnum m1 e1 * fden e2 = fnum m2 e2 * fden e1
      | (PInf, PInf) \<Rightarrow> True
      | (NInf, NInf) \<Rightarrow> True
      | _ \<Rightarrow> False)"

text \<open>\<^verbatim>\<open>float(i)\<close> for an int, as the mixed arithmetic of Python converts it.\<close>

definition float_of_int :: "int \<Rightarrow> error + pyfloat" where
  "float_of_int i = (case to_double i 1 of Fin m e \<Rightarrow> Inr (Fin m e) | _ \<Rightarrow> Inl OverflowError)"

subsection \<open>Numbers\<close>

datatype pynum = NInt int | NFlt pyfloat

text \<open>The numeric reading of a value: a bool is the int 0 or 1.\<close>

definition as_num :: "json \<Rightarrow> pynum option" where
  "as_num v =
     (case v of
        JBool b \<Rightarrow> Some (NInt (if b then 1 else 0))
      | JInt i \<Rightarrow> Some (NInt i)
      | JFloat x \<Rightarrow> Some (NFlt x)
      | _ \<Rightarrow> None)"

definition num_to_float :: "pynum \<Rightarrow> error + pyfloat" where
  "num_to_float n = (case n of NInt i \<Rightarrow> float_of_int i | NFlt x \<Rightarrow> Inr x)"

text \<open>Python compares an int with a float by their exact values.\<close>

definition num_eq :: "pynum \<Rightarrow> pynum \<Rightarrow> bool" where
  "num_eq a b =
     (case (a, b) of
        (NInt i, NInt j) \<Rightarrow> i = j
      | (NFlt x, NFlt y) \<Rightarrow> feq x y
      | (NInt i, NFlt y) \<Rightarrow> feq (Fin i 0) y
      | (NFlt x, NInt j) \<Rightarrow> feq x (Fin j 0))"

definition num_gt :: "pynum \<Rightarrow> pynum \<Rightarrow> bool" where
  "num_gt a b =
     (case (a, b) of
        (NInt i, NInt j) \<Rightarrow> j < i
      | (NFlt x, NFlt y) \<Rightarrow> fgt x y
      | (NInt i, NFlt y) \<Rightarrow> fgt (Fin i 0) y
      | (NFlt x, NInt j) \<Rightarrow> fgt x (Fin j 0))"

subsection \<open>Operators and built-ins\<close>

text \<open>\<^verbatim>\<open>bool(v)\<close>, the test of \<^verbatim>\<open>if v\<close>, \<^verbatim>\<open>not v\<close>, \<^verbatim>\<open>a or b\<close> and \<^verbatim>\<open>a and b\<close>.\<close>

definition truthy :: "json \<Rightarrow> bool" where
  "truthy v =
     (case v of
        JNull \<Rightarrow> False
      | JBool b \<Rightarrow> b
      | JInt i \<Rightarrow> i \<noteq> 0
      | JFloat x \<Rightarrow> \<not> fzero x
      | JStr s \<Rightarrow> s \<noteq> []
      | JArr xs \<Rightarrow> xs \<noteq> []
      | JObj kvs \<Rightarrow> kvs \<noteq> [])"

text \<open>\<^verbatim>\<open>d.get(k, dflt)\<close>: only a dict has the method.\<close>

definition dget :: "(string \<times> json) list \<Rightarrow> string \<Rightarrow> json \<Rightarrow> json" where
  "dget kvs k dflt = (case map_of kvs k of None \<Rightarrow> dflt | Some v \<Rightarrow> v)"

definition py_get :: "json \<Rightarrow> string \<Rightarrow> json \<Rightarrow> error + json" where
  "py_get d k dflt = (case d of JObj kvs \<Rightarrow> Inr (dget kvs k dflt) | _ \<Rightarrow> Inl AttributeError)"

text \<open>\<^verbatim>\<open>a or b\<close>, where evaluating \<open>b\<close> cannot raise.\<close>

definition py_or :: "json \<Rightarrow> json \<Rightarrow> json" where
  "py_or a b = (if truthy a then a else b)"

text \<open>A loop that builds a list and stops at the first exception.\<close>

fun mapE :: "('a \<Rightarrow> error + 'b) \<Rightarrow> 'a list \<Rightarrow> error + 'b list" where
  "mapE f [] = Inr []"
| "mapE f (x # xs) =
     (case f x of
        Inl e \<Rightarrow> Inl e
      | Inr y \<Rightarrow> (case mapE f xs of Inl e \<Rightarrow> Inl e | Inr ys \<Rightarrow> Inr (y # ys)))"

text \<open>\<^verbatim>\<open>d[k]\<close> with a str key.\<close>

definition py_item :: "json \<Rightarrow> string \<Rightarrow> error + json" where
  "py_item d k =
     (case d of
        JObj kvs \<Rightarrow> (case map_of kvs k of None \<Rightarrow> Inl KeyError | Some v \<Rightarrow> Inr v)
      | _ \<Rightarrow> Inl TypeError)"

text \<open>
  \<^verbatim>\<open>a == b\<close>: numbers by value, lists element by element, dicts key by key.

  Where Python compares the elements of two lists, the values of two dicts, or a key with
  the keys of a dict, an object equals itself before \<^verbatim>\<open>==\<close> is asked: \<open>py_same\<close>. The one
  value that \<^verbatim>\<open>==\<close> does not relate to itself is NaN, and the JSON decoder returns one and
  the same float object for every \<^verbatim>\<open>NaN\<close> it reads; so NaN is the same as NaN there, while
  \<^verbatim>\<open>nan == nan\<close> itself is false.
\<close>

fun py_eq :: "json \<Rightarrow> json \<Rightarrow> bool"
  and py_same :: "json \<Rightarrow> json \<Rightarrow> bool"
  and py_eq_list :: "json list \<Rightarrow> json list \<Rightarrow> bool"
  and py_eq_dict :: "(string \<times> json) list \<Rightarrow> (string \<times> json) list \<Rightarrow> bool" where
  "py_eq (JArr xs) (JArr ys) = py_eq_list xs ys"
| "py_eq (JObj xs) (JObj ys) = (length xs = length ys \<and> py_eq_dict xs ys)"
| "py_eq (JStr s) (JStr t) = (s = t)"
| "py_eq JNull JNull = True"
| "py_eq a b = (case (as_num a, as_num b) of (Some x, Some y) \<Rightarrow> num_eq x y | _ \<Rightarrow> False)"
| "py_same a b = ((a = JFloat NaN \<and> b = JFloat NaN) \<or> py_eq a b)"
| "py_eq_list [] [] = True"
| "py_eq_list (x # xs) (y # ys) = (py_same x y \<and> py_eq_list xs ys)"
| "py_eq_list _ _ = False"
| "py_eq_dict [] ys = True"
| "py_eq_dict ((k, v) # xs) ys =
     (case map_of ys k of None \<Rightarrow> False | Some w \<Rightarrow> py_same v w \<and> py_eq_dict xs ys)"

declare py_same.simps [simp del]

text \<open>Strings compare by code point, which is the order of their UTF-8 bytes.\<close>

fun str_gt :: "string \<Rightarrow> string \<Rightarrow> bool" where
  "str_gt [] t = False"
| "str_gt (c # s) [] = True"
| "str_gt (c # s) (d # t) = (if c = d then str_gt s t else (of_char d :: int) < of_char c)"

text \<open>
  \<^verbatim>\<open>a > b\<close>. Two lists are compared at the first position where their elements are not
  the same.
\<close>

fun py_gt :: "json \<Rightarrow> json \<Rightarrow> error + bool"
  and py_gt_list :: "json list \<Rightarrow> json list \<Rightarrow> error + bool" where
  "py_gt (JStr s) (JStr t) = Inr (str_gt s t)"
| "py_gt (JArr xs) (JArr ys) = py_gt_list xs ys"
| "py_gt a b =
     (case (as_num a, as_num b) of (Some x, Some y) \<Rightarrow> Inr (num_gt x y) | _ \<Rightarrow> Inl TypeError)"
| "py_gt_list [] ys = Inr False"
| "py_gt_list (x # xs) [] = Inr True"
| "py_gt_list (x # xs) (y # ys) = (if py_same x y then py_gt_list xs ys else py_gt x y)"

text \<open>\<^verbatim>\<open>a - b\<close>.\<close>

definition py_sub :: "json \<Rightarrow> json \<Rightarrow> error + json" where
  "py_sub a b =
     (case (as_num a, as_num b) of
        (Some (NInt i), Some (NInt j)) \<Rightarrow> Inr (JInt (i - j))
      | (Some x, Some y) \<Rightarrow>
          ebind (num_to_float x) (\<lambda>fx. ebind (num_to_float y) (\<lambda>fy. Inr (JFloat (fsub fx fy))))
      | _ \<Rightarrow> Inl TypeError)"

text \<open>\<^verbatim>\<open>a / b\<close>: true division, always a float.\<close>

definition py_truediv :: "json \<Rightarrow> json \<Rightarrow> error + json" where
  "py_truediv a b =
     (case (as_num a, as_num b) of
        (Some (NInt i), Some (NInt j)) \<Rightarrow>
          if j = 0 then Inl ZeroDivisionError
          else (case to_double (sgn j * i) \<bar>j\<bar> of
                  Fin m e \<Rightarrow> Inr (JFloat (Fin m e))
                | _ \<Rightarrow> Inl OverflowError)
      | (Some x, Some y) \<Rightarrow>
          ebind (num_to_float x) (\<lambda>fx. ebind (num_to_float y) (\<lambda>fy.
            if fzero fy then Inl ZeroDivisionError else Inr (JFloat (fdiv fx fy))))
      | _ \<Rightarrow> Inl TypeError)"

text \<open>
  A str is a sequence of code points: in UTF-8 each is one byte that is not a continuation
  byte (\<open>0x80\<close> to \<open>0xBF\<close>), followed by its continuation bytes.
\<close>

definition is_cont :: "char \<Rightarrow> bool" where
  "is_cont c = (128 \<le> (of_char c :: int) \<and> (of_char c :: int) < 192)"

function utf8_chars :: "string \<Rightarrow> string list" where
  "utf8_chars [] = []"
| "utf8_chars (c # s) = (c # takeWhile is_cont s) # utf8_chars (dropWhile is_cont s)"
  by pat_completeness auto
termination
  by (relation "measure length") (auto simp: length_dropWhile_le less_Suc_eq_le)

text \<open>
  A str or a list repeated \<open>n\<close> times. The count must fit the index type of CPython on a
  64-bit machine, or \<^verbatim>\<open>OverflowError\<close> is raised, whatever the sequence; a count below 1
  gives the empty sequence; a result longer than the largest index raises \<^verbatim>\<open>OverflowError\<close>
  for a str and \<^verbatim>\<open>MemoryError\<close> for a list. Below that length the model has all the
  memory it asks for: how much a machine can give is not part of the program.
\<close>

definition index_max :: int where
  "index_max = 2 ^ 63 - 1"

definition repeat_count :: "error \<Rightarrow> int \<Rightarrow> int \<Rightarrow> error + nat" where
  "repeat_count too_long len n =
     (if n < - index_max - 1 \<or> index_max < n then Inl OverflowError
      else if n \<le> 0 \<or> len = 0 then Inr 0
      else if index_max div len < n then Inl too_long
      else Inr (nat n))"

definition py_repeat :: "json \<Rightarrow> int \<Rightarrow> error + json" where
  "py_repeat v n =
     (case v of
        JStr s \<Rightarrow>
          ebind (repeat_count OverflowError (int (length (utf8_chars s))) n) (\<lambda>k.
            Inr (JStr (concat (replicate k s))))
      | JArr xs \<Rightarrow>
          ebind (repeat_count MemoryError (int (length xs)) n) (\<lambda>k.
            Inr (JArr (concat (replicate k xs))))
      | _ \<Rightarrow> Inl TypeError)"

text \<open>\<^verbatim>\<open>a * b\<close>: numbers, or a str or list repeated by an int.\<close>

definition py_mul :: "json \<Rightarrow> json \<Rightarrow> error + json" where
  "py_mul a b =
     (case (as_num a, as_num b) of
        (Some (NInt i), Some (NInt j)) \<Rightarrow> Inr (JInt (i * j))
      | (Some x, Some y) \<Rightarrow>
          ebind (num_to_float x) (\<lambda>fx. ebind (num_to_float y) (\<lambda>fy. Inr (JFloat (fmul fx fy))))
      | (Some (NInt i), None) \<Rightarrow> py_repeat b i
      | (None, Some (NInt j)) \<Rightarrow> py_repeat a j
      | _ \<Rightarrow> Inl TypeError)"

text \<open>\<^verbatim>\<open>round(x)\<close> with one argument: an int, the nearest one, a tie going to the even one.\<close>

definition py_round :: "json \<Rightarrow> error + int" where
  "py_round v =
     (case as_num v of
        Some (NInt i) \<Rightarrow> Inr i
      | Some (NFlt (Fin m e)) \<Rightarrow> Inr (round_half_even (fnum m e) (fden e))
      | Some (NFlt NaN) \<Rightarrow> Inl ValueError
      | Some (NFlt _) \<Rightarrow> Inl OverflowError
      | None \<Rightarrow> Inl TypeError)"

text \<open>\<^verbatim>\<open>len(v)\<close>.\<close>

definition py_len :: "json \<Rightarrow> error + nat" where
  "py_len v =
     (case v of
        JStr s \<Rightarrow> Inr (length (utf8_chars s))
      | JArr xs \<Rightarrow> Inr (length xs)
      | JObj kvs \<Rightarrow> Inr (length kvs)
      | _ \<Rightarrow> Inl TypeError)"

text \<open>The elements that \<^verbatim>\<open>for x in v\<close> visits: a dict gives its keys, a str its characters.\<close>

definition py_iter :: "json \<Rightarrow> error + json list" where
  "py_iter v =
     (case v of
        JArr xs \<Rightarrow> Inr xs
      | JObj kvs \<Rightarrow> Inr (map (\<lambda>kv. JStr (fst kv)) kvs)
      | JStr s \<Rightarrow> Inr (map JStr (utf8_chars s))
      | _ \<Rightarrow> Inl TypeError)"

text \<open>\<^verbatim>\<open>v[:3]\<close>. A dict raises (TypeError up to Python 3.11, KeyError from 3.12).\<close>

definition py_slice3 :: "json \<Rightarrow> error + json" where
  "py_slice3 v =
     (case v of
        JArr xs \<Rightarrow> Inr (JArr (take 3 xs))
      | JStr s \<Rightarrow> Inr (JStr (concat (take 3 (utf8_chars s))))
      | _ \<Rightarrow> Inl TypeError)"

subsection \<open>Formatting\<close>

text \<open>\<^verbatim>\<open>str(i)\<close> for an int.\<close>

fun digits :: "nat \<Rightarrow> string" where
  "digits n = (if n < 10 then [''0123456789'' ! n] else digits (n div 10) @ [''0123456789'' ! (n mod 10)])"

declare digits.simps [simp del]

definition str_int :: "int \<Rightarrow> string" where
  "str_int i = (if i < 0 then CHR ''-'' # digits (nat (- i)) else digits (nat i))"

text \<open>
  \<^verbatim>\<open>str(v)\<close>, as an f-string applies it. The text of a float, a list or a dict is
  Python's \<^verbatim>\<open>repr\<close>, which is not part of the program: it is the parameter \<open>repr\<close>.
\<close>

definition py_str :: "(json \<Rightarrow> string) \<Rightarrow> json \<Rightarrow> string" where
  "py_str repr v =
     (case v of
        JStr s \<Rightarrow> s
      | JNull \<Rightarrow> ''None''
      | JBool b \<Rightarrow> (if b then ''True'' else ''False'')
      | JInt i \<Rightarrow> str_int i
      | _ \<Rightarrow> repr v)"

text \<open>Digits in groups of three from the right, for the format \<^verbatim>\<open>{x:,}\<close>.\<close>

fun group3 :: "nat \<Rightarrow> string" where
  "group3 n =
     (if n < 1000 then digits n
      else group3 (n div 1000) @ '','' @
           [''0123456789'' ! (n mod 1000 div 100), ''0123456789'' ! (n mod 100 div 10),
            ''0123456789'' ! (n mod 10)])"

declare group3.simps [simp del]

text \<open>
  \<^verbatim>\<open>format(v, ',')\<close>: an int is grouped, a str raises ValueError, \<^verbatim>\<open>None\<close>, a list and
  a dict raise TypeError; the text of a float is the parameter \<open>fcomma\<close>.
\<close>

definition py_format_comma :: "(pyfloat \<Rightarrow> string) \<Rightarrow> json \<Rightarrow> error + string" where
  "py_format_comma fcomma v =
     (case as_num v of
        Some (NInt i) \<Rightarrow> Inr (if i < 0 then CHR ''-'' # group3 (nat (- i)) else group3 (nat i))
      | Some (NFlt x) \<Rightarrow> Inr (fcomma x)
      | None \<Rightarrow> (case v of JStr s \<Rightarrow> Inl ValueError | _ \<Rightarrow> Inl TypeError))"

subsection \<open>Strings and bytes\<close>

text \<open>The code points that \<^verbatim>\<open>str.strip()\<close> removes, each in UTF-8.\<close>

definition whitespace :: "string list" where
  "whitespace =
     [[CHR 0x09], [CHR 0x0A], [CHR 0x0B], [CHR 0x0C], [CHR 0x0D],
      [CHR 0x1C], [CHR 0x1D], [CHR 0x1E], [CHR 0x1F], [CHR 0x20],
      [CHR 0xC2, CHR 0x85], [CHR 0xC2, CHR 0xA0], [CHR 0xE1, CHR 0x9A, CHR 0x80],
      [CHR 0xE2, CHR 0x80, CHR 0x80], [CHR 0xE2, CHR 0x80, CHR 0x81],
      [CHR 0xE2, CHR 0x80, CHR 0x82], [CHR 0xE2, CHR 0x80, CHR 0x83],
      [CHR 0xE2, CHR 0x80, CHR 0x84], [CHR 0xE2, CHR 0x80, CHR 0x85],
      [CHR 0xE2, CHR 0x80, CHR 0x86], [CHR 0xE2, CHR 0x80, CHR 0x87],
      [CHR 0xE2, CHR 0x80, CHR 0x88], [CHR 0xE2, CHR 0x80, CHR 0x89],
      [CHR 0xE2, CHR 0x80, CHR 0x8A], [CHR 0xE2, CHR 0x80, CHR 0xA8],
      [CHR 0xE2, CHR 0x80, CHR 0xA9], [CHR 0xE2, CHR 0x80, CHR 0xAF],
      [CHR 0xE2, CHR 0x81, CHR 0x9F], [CHR 0xE3, CHR 0x80, CHR 0x80]]"

definition is_space :: "string \<Rightarrow> bool" where
  "is_space cp = (cp \<in> set whitespace)"

text \<open>\<^verbatim>\<open>s.strip()\<close>.\<close>

definition py_strip :: "string \<Rightarrow> string" where
  "py_strip s = concat (rev (dropWhile is_space (rev (dropWhile is_space (utf8_chars s)))))"

text \<open>\<^verbatim>\<open>s.startswith(p)\<close>.\<close>

definition startswith :: "string \<Rightarrow> string \<Rightarrow> bool" where
  "startswith s p = (take (length p) s = p)"

text \<open>\<^verbatim>\<open>base64.b64encode(bs).decode("utf-8")\<close>.\<close>

definition b64_alphabet :: string where
  "b64_alphabet = ''ABCDEFGHIJKLMNOPQRSTUVWXYZabcdefghijklmnopqrstuvwxyz0123456789+/''"

fun b64encode :: "char list \<Rightarrow> string" where
  "b64encode [] = []"
| "b64encode [a] =
     (let n = (of_char a :: int) * 65536
      in [b64_alphabet ! nat (n div 262144), b64_alphabet ! nat (n div 4096 mod 64),
          CHR ''='', CHR ''=''])"
| "b64encode [a, b] =
     (let n = (of_char a :: int) * 65536 + of_char b * 256
      in [b64_alphabet ! nat (n div 262144), b64_alphabet ! nat (n div 4096 mod 64),
          b64_alphabet ! nat (n div 64 mod 64), CHR ''=''])"
| "b64encode (a # b # c # bs) =
     (let n = (of_char a :: int) * 65536 + of_char b * 256 + of_char c
      in [b64_alphabet ! nat (n div 262144), b64_alphabet ! nat (n div 4096 mod 64),
          b64_alphabet ! nat (n div 64 mod 64), b64_alphabet ! nat (n mod 64)] @ b64encode bs)"

section \<open>The remote API\<close>

text \<open>
  The remote commerce API and the image hosts are outside the program. A request is what
  the program hands to \<^verbatim>\<open>httpx\<close>; the remote side is a state machine \<open>srv\<close> that
  answers a request with a response, or with a transport failure, and moves to a new state.
  A \<open>world\<close> is the remote state together with the requests sent so far, in order.
\<close>

datatype http_method = GET | POST | PUT | DELETE

record request =
  rmethod :: http_method
  url :: string
  params :: "(string \<times> json) list"
  body :: "json option"
  headers :: "(string \<times> string) list"

text \<open>
  \<open>decoded\<close> is what \<^verbatim>\<open>res.json()\<close> returns, \<open>None\<close> when the body is not JSON;
  \<open>resp_headers\<close> has the header names in lower case, as \<^verbatim>\<open>res.headers.get\<close> looks
  them up.
\<close>

record response =
  status_code :: int
  resp_headers :: "(string \<times> string) list"
  content :: "char list"
  decoded :: "json option"

type_synonym 's server = "'s \<Rightarrow> request \<Rightarrow> 's \<times> (error + response)"

record 's world =
  remote :: 's
  sent :: "request list"

text \<open>\<^verbatim>\<open>await client.get(...)\<close>, \<^verbatim>\<open>client.post(...)\<close>: one request, recorded and answered.\<close>

definition send :: "'s server \<Rightarrow> request \<Rightarrow> 's world \<Rightarrow> (error + response) \<times> 's world" where
  "send srv rq w =
     (let (s', r) = srv (remote w) rq
      in (r, \<lparr>remote = s', sent = sent w @ [rq]\<rparr>))"

text \<open>\<^verbatim>\<open>res.json()\<close>.\<close>

definition res_json :: "response \<Rightarrow> error + json" where
  "res_json res = (case decoded res of None \<Rightarrow> Inl JSONDecodeError | Some j \<Rightarrow> Inr j)"

text \<open>A request followed by \<^verbatim>\<open>res.json()\<close>, either of which may raise.\<close>

definition send_json :: "'s server \<Rightarrow> request \<Rightarrow> 's world \<Rightarrow> (error + json) \<times> 's world" where
  "send_json srv rq w =
     (case send srv rq w of
        (Inl e, w') \<Rightarrow> (Inl e, w')
      | (Inr res, w') \<Rightarrow> (res_json res, w'))"

definition BASE_URL :: string where
  "BASE_URL = ''http://localhost:5000/api''"

text \<open>\<^verbatim>\<open>_get_headers()\<close>, with the module's \<^verbatim>\<open>_auth_token\<close> as the argument.\<close>

definition get_headers :: "string option \<Rightarrow> (string \<times> string) list" where
  "get_headers auth_token =
     (case auth_token of
        None \<Rightarrow> [(''Content-Type'', ''application/json'')]
      | Some t \<Rightarrow>
          if t = [] then [(''Content-Type'', ''application/json'')]
          else [(''Content-Type'', ''application/json''), (''Authorization'', ''Bearer '' @ t)])"

section \<open>Image attachment\<close>

record image_content =
  itype :: string
  data :: string
  mimeType :: string

text \<open>
  The declared type of \<^verbatim>\<open>_fetch_image_as_content\<close>: the \<^verbatim>\<open>content-type\<close> header, or
  \<^verbatim>\<open>image/jpeg\<close> when there is none, cut at the first semicolon and stripped.
\<close>

definition declared_content_type :: "response \<Rightarrow> string" where
  "declared_content_type res =
     (let content_type =
            (case map_of (resp_headers res) ''content-type'' of
               None \<Rightarrow> ''image/jpeg'' | Some h \<Rightarrow> h)
      in if CHR '';'' \<in> set content_type
         then py_strip (takeWhile (\<lambda>c. c \<noteq> CHR '';'') content_type)
         else content_type)"

text \<open>
  The part of \<^verbatim>\<open>_fetch_image_as_content\<close> after the request: status, declared type,
  size limit, encoding. A declared type that is not an image type is replaced by
  \<^verbatim>\<open>image/jpeg\<close>.
\<close>

definition image_of_response :: "response \<Rightarrow> image_content option" where
  "image_of_response res =
     (if status_code res \<noteq> 200 then None
      else
        let content_type = declared_content_type res;
            content_type =
              (if \<not> startswith content_type ''image/'' then ''image/jpeg'' else content_type)
        in if 1048576 < int (length (content res)) then None
           else Some \<lparr>itype = ''image'', data = b64encode (content res), mimeType = content_type\<rparr>)"

text \<open>The request of \<^verbatim>\<open>client.get(image_url, follow_redirects=True)\<close>.\<close>

definition image_request :: "string \<Rightarrow> request" where
  "image_request u = \<lparr>rmethod = GET, url = u, params = [], body = None, headers = []\<rparr>"

text \<open>
  \<^verbatim>\<open>_fetch_image_as_content(image_url)\<close>. A falsy URL sends nothing. Every exception of
  the body is caught and gives \<^verbatim>\<open>None\<close>: a URL that is not a str makes \<^verbatim>\<open>client.get\<close>
  raise before anything is sent.
\<close>

definition fetch_image_as_content :: "'s server \<Rightarrow> json \<Rightarrow> 's world \<Rightarrow> image_content option \<times> 's world" where
  "fetch_image_as_content srv image_url w =
     (if \<not> truthy image_url then (None, w)
      else
        case image_url of
          JStr u \<Rightarrow>
            (case send srv (image_request u) w of
               (Inl e, w') \<Rightarrow> (None, w')
             | (Inr res, w') \<Rightarrow> (image_of_response res, w'))
        | _ \<Rightarrow> (None, w))"

section \<open>Product discovery\<close>

text \<open>A tool returns a dict, or a list of images followed by the dict.\<close>

datatype tool_result = Plain json | WithImages "image_content list" json

definition json_of :: "tool_result \<Rightarrow> json" where
  "json_of r = (case r of Plain j \<Rightarrow> j | WithImages imgs j \<Rightarrow> j)"

definition images_of :: "tool_result \<Rightarrow> image_content list" where
  "images_of r = (case r of Plain j \<Rightarrow> [] | WithImages imgs j \<Rightarrow> imgs)"

text \<open>\<^verbatim>\<open>round(((mrp - price) / mrp) * 100)\<close>, the expression of all three call sites.\<close>

definition percent_off :: "json \<Rightarrow> json \<Rightarrow> error + int" where
  "percent_off mrp price =
     ebind (py_sub mrp price) (\<lambda>d.
     ebind (py_truediv d mrp) (\<lambda>q.
     ebind (py_mul q (JInt 100)) py_round))"

text \<open>
  The discount of \<^verbatim>\<open>search_products\<close> and \<^verbatim>\<open>_get_recommendation_from_history\<close>:
  the test reads the fields with \<^verbatim>\<open>.get(..., 0)\<close>, the formula with \<^verbatim>\<open>p['mrp']\<close>.
\<close>

definition discount_get :: "json \<Rightarrow> error + int" where
  "discount_get p =
     ebind (py_get p ''mrp'' (JInt 0)) (\<lambda>m0.
     ebind (py_get p ''price'' (JInt 0)) (\<lambda>p0.
     ebind (py_gt m0 p0) (\<lambda>g.
       if g then
         ebind (py_item p ''mrp'') (\<lambda>mrp.
         ebind (py_item p ''price'') (\<lambda>price. percent_off mrp price))
       else Inr 0)))"

text \<open>The discount of the \<^verbatim>\<open>add_to_cart\<close> proposal: test and formula read \<^verbatim>\<open>product['mrp']\<close>.\<close>

definition discount_item :: "json \<Rightarrow> error + int" where
  "discount_item product =
     ebind (py_item product ''mrp'') (\<lambda>mrp.
     ebind (py_item product ''price'') (\<lambda>price.
     ebind (py_gt mrp price) (\<lambda>g.
       if g then percent_off mrp price else Inr 0)))"

text \<open>One pass of the loop \<^verbatim>\<open>for p in products\<close> of \<^verbatim>\<open>search_products\<close>.\<close>

definition format_product :: "json \<Rightarrow> error + json" where
  "format_product p =
     ebind (discount_get p) (\<lambda>discount.
       case p of
         JObj kvs \<Rightarrow>
           ebind (py_gt (dget kvs ''stock'' (JInt 0)) (JInt 0)) (\<lambda>in_stock.
             Inr (JObj
               [(''id'', py_or (dget kvs ''_id'' JNull) (dget kvs ''id'' JNull)),
                (''name'', dget kvs ''name'' JNull),
                (''price'', dget kvs ''price'' JNull),
                (''mrp'', dget kvs ''mrp'' JNull),
                (''discount_percent'', JInt discount),
                (''unit'', dget kvs ''unit'' JNull),
                (''rating'', dget kvs ''rating'' JNull),
                (''review_count'', dget kvs ''reviewCount'' (JInt 0)),
                (''estimated_delivery_mins'', dget kvs ''estimatedDeliveryMins'' (JInt 15)),
                (''in_stock'', JBool in_stock),
                (''dietary'', dget kvs ''dietaryPreference'' (JStr ''veg'')),
                (''brand'', dget kvs ''brand'' (JStr [])),
                (''image_url'', dget kvs ''image'' JNull)]))
       | _ \<Rightarrow> Inl AttributeError)"

text \<open>
  The loop \<^verbatim>\<open>for product in top_products\<close> of the discovery tools: one image fetch per
  product, an absent image skipped.
\<close>

fun fetch_images :: "'s server \<Rightarrow> json list \<Rightarrow> 's world \<Rightarrow> (error + image_content list) \<times> 's world" where
  "fetch_images srv [] w = (Inr [], w)"
| "fetch_images srv (product # rest) w =
     (case py_get product ''image'' JNull of
        Inl e \<Rightarrow> (Inl e, w)
      | Inr image_url \<Rightarrow>
          (case fetch_image_as_content srv image_url w of
             (image_content, w') \<Rightarrow>
               (case fetch_images srv rest w' of
                  (Inl e, w'') \<Rightarrow> (Inl e, w'')
                | (Inr images, w'') \<Rightarrow>
                    (Inr ((case image_content of None \<Rightarrow> [] | Some i \<Rightarrow> [i]) @ images), w''))))"

text \<open>
  \<^verbatim>\<open>products[:3]\<close>, the image loop and the choice of the return value, as each discovery
  tool ends.
\<close>

definition with_images :: "'s server \<Rightarrow> json \<Rightarrow> json \<Rightarrow> 's world \<Rightarrow> (error + tool_result) \<times> 's world" where
  "with_images srv products result w =
     (case ebind (py_slice3 products) py_iter of
        Inl e \<Rightarrow> (Inl e, w)
      | Inr top_products \<Rightarrow>
          (case fetch_images srv top_products w of
             (Inl e, w') \<Rightarrow> (Inl e, w')
           | (Inr images, w') \<Rightarrow>
               (if images \<noteq> [] then (Inr (WithImages images result), w')
                else (Inr (Plain result), w'))))"

text \<open>\<^verbatim>\<open>data["data"]["formatted_products"] = formatted_products\<close>.\<close>

definition set_formatted_products :: "json \<Rightarrow> json list \<Rightarrow> error + json" where
  "set_formatted_products d formatted_products =
     (case d of
        JObj kvs \<Rightarrow>
          (case map_of kvs ''data'' of
             None \<Rightarrow> Inl KeyError
           | Some (JObj inner) \<Rightarrow>
               Inr (JObj (AList.update ''data''
                  (JObj (AList.update ''formatted_products'' (JArr formatted_products) inner)) kvs))
           | Some _ \<Rightarrow> Inl TypeError)
      | _ \<Rightarrow> Inl TypeError)"

text \<open>The body of \<^verbatim>\<open>if data.get("success")\<close> in \<^verbatim>\<open>search_products\<close>, up to the images.\<close>

definition search_reshape :: "json \<Rightarrow> error + (json \<times> json)" where
  "search_reshape d =
     ebind (py_item d ''data'') (\<lambda>inner.
     ebind (py_get inner ''products'' (JArr [])) (\<lambda>products.
     ebind (py_iter products) (\<lambda>ps.
     ebind (mapE format_product ps) (\<lambda>formatted_products.
     ebind (set_formatted_products d formatted_products) (\<lambda>d'. Inr (products, d'))))))"

definition search_request :: "string \<Rightarrow> int \<Rightarrow> int \<Rightarrow> request" where
  "search_request query page limit =
     \<lparr>rmethod = GET, url = BASE_URL @ ''/products/search'',
      params = [(''q'', JStr query), (''page'', JInt page), (''limit'', JInt limit)],
      body = None, headers = []\<rparr>"

definition search_products ::
  "'s server \<Rightarrow> string \<Rightarrow> int \<Rightarrow> int \<Rightarrow> bool \<Rightarrow> 's world \<Rightarrow> (error + tool_result) \<times> 's world" where
  "search_products srv query page limit show_images w =
     (case send_json srv (search_request query page limit) w of
        (Inl e, w1) \<Rightarrow> (Inl e, w1)
      | (Inr d, w1) \<Rightarrow>
          (case py_get d ''success'' JNull of
             Inl e \<Rightarrow> (Inl e, w1)
           | Inr ok \<Rightarrow>
               if truthy ok then
                 (case search_reshape d of
                    Inl e \<Rightarrow> (Inl e, w1)
                  | Inr (products, d') \<Rightarrow>
                      if show_images then with_images srv products d' w1
                      else (Inr (Plain d'), w1))
               else (Inr (Plain d), w1)))"

text \<open>
  The body that \<^verbatim>\<open>get_products_by_category\<close>, \<^verbatim>\<open>filter_products\<close> and
  \<^verbatim>\<open>get_featured_products\<close> have in common once their request is built: the payload is
  returned as it came, with the images of its first three products in front when
  \<^verbatim>\<open>show_images and data.get("success")\<close> holds and there is at least one image.
\<close>

definition listing :: "'s server \<Rightarrow> request \<Rightarrow> bool \<Rightarrow> 's world \<Rightarrow> (error + tool_result) \<times> 's world" where
  "listing srv rq show_images w =
     (case send_json srv rq w of
        (Inl e, w1) \<Rightarrow> (Inl e, w1)
      | (Inr d, w1) \<Rightarrow>
          if show_images then
            (case py_get d ''success'' JNull of
               Inl e \<Rightarrow> (Inl e, w1)
             | Inr ok \<Rightarrow>
                 if truthy ok then
                   (case ebind (py_item d ''data'') (\<lambda>inner. py_get inner ''products'' (JArr [])) of
                      Inl e \<Rightarrow> (Inl e, w1)
                    | Inr products \<Rightarrow> with_images srv products d w1)
                 else (Inr (Plain d), w1))
          else (Inr (Plain d), w1))"

definition category_request :: "string \<Rightarrow> int \<Rightarrow> int \<Rightarrow> request" where
  "category_request category_id page limit =
     \<lparr>rmethod = GET, url = BASE_URL @ ''/products/category/'' @ category_id,
      params = [(''page'', JInt page), (''limit'', JInt limit)],
      body = None, headers = []\<rparr>"

definition get_products_by_category ::
  "'s server \<Rightarrow> string \<Rightarrow> int \<Rightarrow> int \<Rightarrow> bool \<Rightarrow> 's world \<Rightarrow> (error + tool_result) \<times> 's world" where
  "get_products_by_category srv category_id page limit show_images w =
     listing srv (category_request category_id page limit) show_images w"

text \<open>
  The \<^verbatim>\<open>params\<close> of \<^verbatim>\<open>filter_products\<close>: three keys always, the others in the order of
  the \<^verbatim>\<open>if\<close> statements. A str argument is left out when it is \<^verbatim>\<open>None\<close> or empty, a
  price when it is \<^verbatim>\<open>None\<close>.
\<close>

definition filter_params ::
  "string option \<Rightarrow> pyfloat option \<Rightarrow> pyfloat option \<Rightarrow> string option \<Rightarrow> string option
     \<Rightarrow> bool \<Rightarrow> string \<Rightarrow> int \<Rightarrow> int \<Rightarrow> (string \<times> json) list" where
  "filter_params category min_price max_price dietary brand in_stock sort_by page limit =
     [(''page'', JInt page), (''limit'', JInt limit), (''sortBy'', JStr sort_by)]
     @ (case category of Some c \<Rightarrow> if c \<noteq> [] then [(''category'', JStr c)] else [] | None \<Rightarrow> [])
     @ (case min_price of Some x \<Rightarrow> [(''minPrice'', JFloat x)] | None \<Rightarrow> [])
     @ (case max_price of Some x \<Rightarrow> [(''maxPrice'', JFloat x)] | None \<Rightarrow> [])
     @ (case dietary of Some t \<Rightarrow> if t \<noteq> [] then [(''dietary'', JStr t)] else [] | None \<Rightarrow> [])
     @ (case brand of Some b \<Rightarrow> if b \<noteq> [] then [(''brand'', JStr b)] else [] | None \<Rightarrow> [])
     @ (if in_stock then [(''inStock'', JStr ''true'')] else [])"

definition filter_request :: "(string \<times> json) list \<Rightarrow> request" where
  "filter_request ps =
     \<lparr>rmethod = GET, url = BASE_URL @ ''/products/filter'', params = ps,
      body = None, headers = []\<rparr>"

definition filter_products ::
  "'s server \<Rightarrow> string option \<Rightarrow> pyfloat option \<Rightarrow> pyfloat option \<Rightarrow> string option
     \<Rightarrow> string option \<Rightarrow> bool \<Rightarrow> string \<Rightarrow> int \<Rightarrow> int \<Rightarrow> bool \<Rightarrow> 's world
     \<Rightarrow> (error + tool_result) \<times> 's world" where
  "filter_products srv category min_price max_price dietary brand in_stock sort_by page limit
       show_images w =
     listing srv
       (filter_request
          (filter_params category min_price max_price dietary brand in_stock sort_by page limit))
       show_images w"

definition featured_request :: "int \<Rightarrow> request" where
  "featured_request limit =
     \<lparr>rmethod = GET, url = BASE_URL @ ''/products/featured'', params = [(''limit'', JInt limit)],
      body = None, headers = []\<rparr>"

definition get_featured_products ::
  "'s server \<Rightarrow> int \<Rightarrow> bool \<Rightarrow> 's world \<Rightarrow> (error + tool_result) \<times> 's world" where
  "get_featured_products srv limit show_images w =
     listing srv (featured_request limit) show_images w"

text \<open>
  The request for one product, sent by \<^verbatim>\<open>get_product_details\<close>, \<^verbatim>\<open>show_product_image\<close>,
  \<^verbatim>\<open>add_to_cart\<close> and the recommendation deriver.
\<close>

definition product_request :: "string \<Rightarrow> request" where
  "product_request product_id =
     \<lparr>rmethod = GET, url = BASE_URL @ ''/products/'' @ product_id, params = [],
      body = None, headers = []\<rparr>"

text \<open>\<^verbatim>\<open>data["data"]["product"].get('image')\<close>.\<close>

definition product_image_url :: "json \<Rightarrow> error + json" where
  "product_image_url d =
     ebind (py_item d ''data'') (\<lambda>inner.
     ebind (py_item inner ''product'') (\<lambda>product.
       py_get product ''image'' JNull))"

definition get_product_details ::
  "'s server \<Rightarrow> string \<Rightarrow> bool \<Rightarrow> 's world \<Rightarrow> (error + tool_result) \<times> 's world" where
  "get_product_details srv product_id show_image w =
     (case send_json srv (product_request product_id) w of
        (Inl e, w1) \<Rightarrow> (Inl e, w1)
      | (Inr d, w1) \<Rightarrow>
          if show_image then
            (case py_get d ''success'' JNull of
               Inl e \<Rightarrow> (Inl e, w1)
             | Inr ok \<Rightarrow>
                 if truthy ok then
                   (case product_image_url d of
                      Inl e \<Rightarrow> (Inl e, w1)
                    | Inr image_url \<Rightarrow>
                        (case fetch_image_as_content srv image_url w1 of
                           (Some image_content, w2) \<Rightarrow> (Inr (WithImages [image_content] d), w2)
                         | (None, w2) \<Rightarrow> (Inr (Plain d), w2)))
                 else (Inr (Plain d), w1))
          else (Inr (Plain d), w1))"

text \<open>
  \<^verbatim>\<open>show_product_image\<close> returns the image alone, or a dict that reports an error: the
  product payload is not part of what it returns.
\<close>

datatype image_result = ImageAlone image_content | ErrorDict json

definition show_product_image ::
  "'s server \<Rightarrow> string \<Rightarrow> 's world \<Rightarrow> (error + image_result) \<times> 's world" where
  "show_product_image srv product_id w =
     (case send_json srv (product_request product_id) w of
        (Inl e, w1) \<Rightarrow> (Inl e, w1)
      | (Inr d, w1) \<Rightarrow>
          (case py_get d ''success'' JNull of
             Inl e \<Rightarrow> (Inl e, w1)
           | Inr ok \<Rightarrow>
               if truthy ok then
                 (case product_image_url d of
                    Inl e \<Rightarrow> (Inl e, w1)
                  | Inr image_url \<Rightarrow>
                      (case fetch_image_as_content srv image_url w1 of
                         (Some image_content, w2) \<Rightarrow> (Inr (ImageAlone image_content), w2)
                       | (None, w2) \<Rightarrow>
                           (Inr (ErrorDict (JObj
                              [(''error'', JStr ''Could not load product image''),
                               (''image_url'', image_url)])), w2)))
               else (Inr (ErrorDict (JObj [(''error'', JStr ''Product not found'')])), w1)))"

section \<open>The recommendation deriver\<close>

text \<open>
  An entry of \<^verbatim>\<open>co_purchased\<close>: the dict with the keys \<^verbatim>\<open>count\<close>, \<^verbatim>\<open>name\<close>,
  \<^verbatim>\<open>price\<close>, \<^verbatim>\<open>image\<close> and \<^verbatim>\<open>unit\<close>. \<^verbatim>\<open>co_purchased\<close> itself is a dict keyed by
  product identifiers, in insertion order.
\<close>

record snapshot =
  cp_count :: nat
  cp_name :: json
  cp_price :: json
  cp_image :: json
  cp_unit :: json

type_synonym co_purchased = "(json \<times> snapshot) list"

text \<open>\<^verbatim>\<open>item.get(k1) or item.get("product", {}).get(k2)\<close>.\<close>

definition item_or :: "json \<Rightarrow> string \<Rightarrow> string \<Rightarrow> error + json" where
  "item_or item k1 k2 =
     ebind (py_get item k1 JNull) (\<lambda>a.
       if truthy a then Inr a
       else ebind (py_get item ''product'' (JObj [])) (\<lambda>p. py_get p k2 JNull))"

text \<open>
  The generator under \<^verbatim>\<open>any\<close>: it stops at the first item that matches, and the second
  comparison is not evaluated when the first holds.
\<close>

fun order_has_product :: "string \<Rightarrow> json list \<Rightarrow> error + bool" where
  "order_has_product added_product_id [] = Inr False"
| "order_has_product added_product_id (item # items) =
     ebind (py_get item ''productId'' JNull) (\<lambda>a.
       if py_eq a (JStr added_product_id) then Inr True
       else
         ebind (py_get item ''product'' (JObj [])) (\<lambda>p.
         ebind (py_get p ''_id'' JNull) (\<lambda>b.
           if py_eq b (JStr added_product_id) then Inr True
           else order_has_product added_product_id items)))"

text \<open>A list or a dict cannot be a dict key.\<close>

definition hashable :: "json \<Rightarrow> bool" where
  "hashable v = (case v of JArr xs \<Rightarrow> False | JObj kvs \<Rightarrow> False | _ \<Rightarrow> True)"

text \<open>
  \<^verbatim>\<open>k in co_purchased\<close>: a key is found when it is the same object as \<open>k\<close> or equals it.
  Every NaN identifier of the payload is the decoder's one NaN object, so all of them share
  one entry.
\<close>

fun has_key :: "json \<Rightarrow> co_purchased \<Rightarrow> bool" where
  "has_key k [] = False"
| "has_key k ((k', v) # cp) = (py_same k' k \<or> has_key k cp)"

text \<open>\<^verbatim>\<open>co_purchased[k]["count"] += 1\<close> for a key that is present.\<close>

fun bump :: "json \<Rightarrow> co_purchased \<Rightarrow> co_purchased" where
  "bump k [] = []"
| "bump k ((k', v) # cp) =
     (if py_same k' k then (k', v\<lparr>cp_count := cp_count v + 1\<rparr>) # cp else (k', v) # bump k cp)"

text \<open>
  One pass of the loop \<^verbatim>\<open>for item in items\<close>. A new key is entered with count 0 and
  incremented at once, which leaves count 1.
\<close>

definition record_item :: "string \<Rightarrow> json \<Rightarrow> co_purchased \<Rightarrow> error + co_purchased" where
  "record_item added_product_id item cp =
     ebind (item_or item ''productId'' ''_id'') (\<lambda>item_product_id.
       if py_eq item_product_id (JStr added_product_id) then Inr cp
       else if \<not> hashable item_product_id then Inl TypeError
       else if \<not> has_key item_product_id cp then
         ebind (item_or item ''name'' ''name'') (\<lambda>name.
         ebind (item_or item ''price'' ''price'') (\<lambda>price.
         ebind (item_or item ''image'' ''image'') (\<lambda>image.
         ebind (item_or item ''unit'' ''unit'') (\<lambda>unit.
           Inr (cp @ [(item_product_id,
                  \<lparr>cp_count = 0 + 1, cp_name = name, cp_price = price,
                   cp_image = image, cp_unit = unit\<rparr>)])))))
       else Inr (bump item_product_id cp))"

text \<open>A loop that threads a value and stops at the first exception.\<close>

fun foldE :: "('a \<Rightarrow> 'b \<Rightarrow> error + 'b) \<Rightarrow> 'a list \<Rightarrow> 'b \<Rightarrow> error + 'b" where
  "foldE f [] acc = Inr acc"
| "foldE f (x # xs) acc = (case f x acc of Inl e \<Rightarrow> Inl e | Inr acc' \<Rightarrow> foldE f xs acc')"

text \<open>One pass of the loop \<^verbatim>\<open>for order in orders\<close>.\<close>

definition scan_order :: "string \<Rightarrow> json \<Rightarrow> co_purchased \<Rightarrow> error + co_purchased" where
  "scan_order added_product_id order cp =
     ebind (py_get order ''items'' (JArr [])) (\<lambda>items.
     ebind (py_iter items) (\<lambda>its.
     ebind (order_has_product added_product_id its) (\<lambda>has.
       if has then foldE (record_item added_product_id) its cp else Inr cp)))"

text \<open>
  \<^verbatim>\<open>sorted(co_purchased.items(), key=lambda x: x[1]["count"], reverse=True)\<close>: Python's
  sort is stable, also with \<^verbatim>\<open>reverse=True\<close>, so entries of equal count keep their
  insertion order.
\<close>

definition sorted_products :: "co_purchased \<Rightarrow> co_purchased" where
  "sorted_products cp = sort_key (\<lambda>kv. - int (cp_count (snd kv))) cp"

text \<open>
  From the decoded order history to \<^verbatim>\<open>sorted_products[0]\<close>; \<open>Inr None\<close> is an early
  \<^verbatim>\<open>return None\<close>.
\<close>

definition select_top :: "string \<Rightarrow> json \<Rightarrow> error + (json \<times> snapshot) option" where
  "select_top added_product_id d =
     ebind (py_get d ''success'' JNull) (\<lambda>ok.
       if \<not> truthy ok then Inr None
       else
         ebind (py_item d ''data'') (\<lambda>inner.
         ebind (py_get inner ''orders'' (JArr [])) (\<lambda>orders.
           if \<not> truthy orders then Inr None
           else
             ebind (py_iter orders) (\<lambda>os.
             ebind (foldE (scan_order added_product_id) os []) (\<lambda>cp.
               if cp = [] then Inr None
               else (case sorted_products cp of
                       [] \<Rightarrow> Inl IndexError
                     | entry # rest \<Rightarrow> Inr (Some entry)))))))"

definition teaser :: "(json \<Rightarrow> string) \<Rightarrow> json \<Rightarrow> string" where
  "teaser repr added_product_name =
     [CHR 0xC3, CHR 0xB0, CHR 0xC5, CHR 0xB8, CHR 0xE2, CHR 0x80, CHR 0xBA, CHR 0xE2, CHR 0x80, CHR 0x99] @ '' Customers who bought **'' @ py_str repr added_product_name @ ''** also frequently bought:''"

definition prompt_for :: "(json \<Rightarrow> string) \<Rightarrow> json \<Rightarrow> json \<Rightarrow> string" where
  "prompt_for repr name price =
     ''Would you like to add **'' @ py_str repr name @ ''** ('' @ [CHR 0xC3, CHR 0xA2, CHR 0xE2, CHR 0x80, CHR 0x9A, CHR 0xC2, CHR 0xB9] @ py_str repr price @
     '') to your cart as well?''"

text \<open>The value returned once the selected product has been fetched again.\<close>

definition recommendation_of :: "(json \<Rightarrow> string) \<Rightarrow> json \<Rightarrow> json \<Rightarrow> snapshot \<Rightarrow> json \<Rightarrow> error + json" where
  "recommendation_of repr added_product_name top_product_id top_product_data product_data =
     ebind (py_get product_data ''success'' JNull) (\<lambda>ok.
       if truthy ok then
         ebind (py_item product_data ''data'') (\<lambda>inner.
         ebind (py_item inner ''product'') (\<lambda>product.
         ebind (discount_get product) (\<lambda>discount.
           case product of
             JObj kvs \<Rightarrow>
               ebind (py_gt (dget kvs ''stock'' (JInt 0)) (JInt 0)) (\<lambda>in_stock.
                 Inr (JObj
                   [(''type'', JStr ''frequently_bought_together''),
                    (''message'', JStr (teaser repr added_product_name)),
                    (''product'', JObj
                       [(''id'', top_product_id),
                        (''name'', dget kvs ''name'' JNull),
                        (''price'', dget kvs ''price'' JNull),
                        (''mrp'', dget kvs ''mrp'' JNull),
                        (''discount_percent'', JInt discount),
                        (''unit'', dget kvs ''unit'' JNull),
                        (''image'', dget kvs ''image'' JNull),
                        (''in_stock'', JBool in_stock),
                        (''estimated_delivery_mins'',
                           dget kvs ''estimatedDeliveryMins'' (JInt 15))]),
                    (''times_bought_together'', JInt (int (cp_count top_product_data))),
                    (''prompt'', JStr (prompt_for repr (dget kvs ''name'' JNull)
                                        (dget kvs ''price'' JNull)))]))
           | _ \<Rightarrow> Inl AttributeError)))
       else
         Inr (JObj
           [(''type'', JStr ''frequently_bought_together''),
            (''message'', JStr (teaser repr added_product_name)),
            (''product'', JObj
               [(''id'', top_product_id),
                (''name'', cp_name top_product_data),
                (''price'', cp_price top_product_data),
                (''unit'', cp_unit top_product_data),
                (''image'', cp_image top_product_data)]),
            (''times_bought_together'', JInt (int (cp_count top_product_data))),
            (''prompt'', JStr (prompt_for repr (cp_name top_product_data)
                                (cp_price top_product_data)))]))"

text \<open>
  The request for the order history. The live refresh sends the request for one product
  that \<^verbatim>\<open>get_product_details\<close> sends.
\<close>

definition orders_request :: "string option \<Rightarrow> request" where
  "orders_request auth_token =
     \<lparr>rmethod = GET, url = BASE_URL @ ''/orders'',
      params = [(''page'', JInt 1), (''limit'', JInt 50)],
      body = None, headers = get_headers auth_token\<rparr>"

text \<open>The body of the \<^verbatim>\<open>try\<close> block of \<^verbatim>\<open>_get_recommendation_from_history\<close>.\<close>

definition recommendation_body ::
  "'s server \<Rightarrow> (json \<Rightarrow> string) \<Rightarrow> string option \<Rightarrow> string \<Rightarrow> json \<Rightarrow> 's world
     \<Rightarrow> (error + json option) \<times> 's world" where
  "recommendation_body srv repr auth_token added_product_id added_product_name w =
     (case send_json srv (orders_request auth_token) w of
        (Inl e, w1) \<Rightarrow> (Inl e, w1)
      | (Inr d, w1) \<Rightarrow>
          (case select_top added_product_id d of
             Inl e \<Rightarrow> (Inl e, w1)
           | Inr None \<Rightarrow> (Inr None, w1)
           | Inr (Some (top_product_id, top_product_data)) \<Rightarrow>
               (case send_json srv (product_request (py_str repr top_product_id)) w1 of
                  (Inl e, w2) \<Rightarrow> (Inl e, w2)
                | (Inr product_data, w2) \<Rightarrow>
                    (case recommendation_of repr added_product_name top_product_id
                            top_product_data product_data of
                       Inl e \<Rightarrow> (Inl e, w2)
                     | Inr r \<Rightarrow> (Inr (Some r), w2)))))"

text \<open>
  \<^verbatim>\<open>_get_recommendation_from_history\<close>: \<^verbatim>\<open>except Exception\<close> turns every exception
  of the body into \<^verbatim>\<open>None\<close>.
\<close>

definition get_recommendation_from_history ::
  "'s server \<Rightarrow> (json \<Rightarrow> string) \<Rightarrow> string option \<Rightarrow> string \<Rightarrow> json \<Rightarrow> 's world
     \<Rightarrow> json option \<times> 's world" where
  "get_recommendation_from_history srv repr auth_token added_product_id added_product_name w =
     (case recommendation_body srv repr auth_token added_product_id added_product_name w of
        (Inl e, w') \<Rightarrow> (None, w')
      | (Inr r, w') \<Rightarrow> (r, w'))"

section \<open>Cart view\<close>

text \<open>
  The loop over \<^verbatim>\<open>addresses\<close>: the first address with a truthy \<^verbatim>\<open>isDefault\<close> is
  reshaped and the loop ends. \<open>JNull\<close> is \<^verbatim>\<open>None\<close>: no default address.
\<close>

fun first_default :: "json list \<Rightarrow> error + json" where
  "first_default [] = Inr JNull"
| "first_default (addr # addrs) =
     ebind (py_get addr ''isDefault'' JNull) (\<lambda>is_default.
       if truthy is_default then
         (case addr of
            JObj kvs \<Rightarrow>
              Inr (JObj
                [(''id'', py_or (dget kvs ''_id'' JNull) (dget kvs ''id'' JNull)),
                 (''name'', dget kvs ''name'' JNull),
                 (''phone'', dget kvs ''phone'' JNull),
                 (''address_line1'', dget kvs ''addressLine1'' JNull),
                 (''address_line2'', dget kvs ''addressLine2'' JNull),
                 (''landmark'', dget kvs ''landmark'' JNull),
                 (''city'', dget kvs ''city'' JNull),
                 (''state'', dget kvs ''state'' JNull),
                 (''pincode'', dget kvs ''pincode'' JNull),
                 (''type'', dget kvs ''type'' JNull),
                 (''is_serviceable'', dget kvs ''isServiceable'' (JBool True))])
          | _ \<Rightarrow> Inl AttributeError)
       else first_default addrs)"

definition find_default_address :: "json \<Rightarrow> error + json" where
  "find_default_address address_data =
     ebind (py_get address_data ''success'' JNull) (\<lambda>ok.
       if truthy ok then
         ebind (py_item address_data ''data'') (\<lambda>inner.
         ebind (py_get inner ''addresses'' (JArr [])) (\<lambda>addresses.
         ebind (py_iter addresses) first_default))
       else Inr JNull)"

text \<open>One pass of the loop \<^verbatim>\<open>for item in cart_items\<close>.\<close>

definition format_item :: "json \<Rightarrow> error + json" where
  "format_item item =
     (case item of
        JObj kvs \<Rightarrow>
          ebind (py_mul (dget kvs ''price'' (JInt 0)) (dget kvs ''quantity'' (JInt 1))) (\<lambda>total.
            Inr (JObj
              [(''product_id'', dget kvs ''productId'' JNull),
               (''name'', dget kvs ''name'' JNull),
               (''quantity'', dget kvs ''quantity'' JNull),
               (''price_per_unit'', dget kvs ''price'' JNull),
               (''total_price'', total),
               (''unit'', dget kvs ''unit'' JNull),
               (''image'', dget kvs ''image'' JNull)]))
      | _ \<Rightarrow> Inl AttributeError)"

text \<open>\<^verbatim>\<open>max_delivery_mins = 15  # Default\<close>; the variable is not assigned again.\<close>

definition max_delivery_mins :: int where
  "max_delivery_mins = 15"

text \<open>The four messages of \<^verbatim>\<open>view_cart\<close>, with the bytes of the source file.\<close>

definition no_address_message :: string where
  "no_address_message =
     [CHR 0xC3, CHR 0xA2, CHR 0xC5, CHR 0xA1, CHR 0xC2, CHR 0xA0, CHR 0xC3, CHR 0xAF, CHR 0xC2, CHR 0xB8] @ '' No delivery address set. Please add an address before checkout.''"

definition unserviceable_message :: string where
  "unserviceable_message =
     [CHR 0xC3, CHR 0xA2, CHR 0xC5, CHR 0xA1, CHR 0xC2, CHR 0xA0, CHR 0xC3, CHR 0xAF, CHR 0xC2, CHR 0xB8] @ '' Delivery not available at selected address.''"

definition empty_cart_message :: string where
  "empty_cart_message = [CHR 0xC3, CHR 0xB0, CHR 0xC5, CHR 0xB8, CHR 0xE2, CHR 0x80, CHR 0xBA, CHR 0xE2, CHR 0x80, CHR 0x99] @ '' Your cart is empty.''"

definition ready_prefix :: string where
  "ready_prefix = [CHR 0xC3, CHR 0xA2, CHR 0xC5, CHR 0x93, CHR 0xE2, CHR 0x80, CHR 0xA6] @ '' Ready for checkout! Delivery to ''"

definition ready_message :: "(json \<Rightarrow> string) \<Rightarrow> json \<Rightarrow> string" where
  "ready_message repr city =
     ready_prefix @ py_str repr city @ '' in ~'' @ str_int max_delivery_mins @ '' mins.''"

text \<open>The chain \<^verbatim>\<open>if\<close> / \<^verbatim>\<open>elif\<close> / \<^verbatim>\<open>else\<close> that chooses the message.\<close>

definition cart_message :: "(json \<Rightarrow> string) \<Rightarrow> json \<Rightarrow> nat \<Rightarrow> error + string" where
  "cart_message repr default_address n_items =
     (if \<not> truthy default_address then
        Inr no_address_message
      else
        ebind (py_get default_address ''is_serviceable'' JNull) (\<lambda>serviceable.
          if \<not> truthy serviceable then
            Inr unserviceable_message
          else if n_items = 0 then
            Inr empty_cart_message
          else
            ebind (py_item default_address ''city'') (\<lambda>city.
              Inr (ready_message repr city))))"

text \<open>\<^verbatim>\<open>view_cart\<close> after its two requests: the response built from both payloads.\<close>

definition enhanced_response :: "(json \<Rightarrow> string) \<Rightarrow> json \<Rightarrow> json \<Rightarrow> error + json" where
  "enhanced_response repr cart_data address_data =
     ebind (find_default_address address_data) (\<lambda>default_address.
     ebind (py_item cart_data ''data'') (\<lambda>cd.
     ebind (py_item cd ''cart'') (\<lambda>cart.
     ebind (py_get cart ''items'' (JArr [])) (\<lambda>cart_items.
     ebind (py_iter cart_items) (\<lambda>its.
     ebind (mapE format_item its) (\<lambda>formatted_items.
     ebind (py_len cart_items) (\<lambda>n.
     ebind (py_get cart ''totalItems'' (JInt (int n))) (\<lambda>total_items.
     ebind (py_get cd ''bill'' (JObj [])) (\<lambda>bill.
     ebind (py_item cd ''bill'') (\<lambda>bill'.
     ebind (py_get bill' ''freeDeliveryThreshold'' (JInt 199)) (\<lambda>threshold.
     ebind (py_get bill' ''amountToFreeDelivery'' (JInt 0)) (\<lambda>amount.
     ebind (cart_message repr default_address n) (\<lambda>message.
       Inr (JObj
         [(''success'', JBool True),
          (''data'', JObj
             [(''cart'', JObj
                 [(''items'', JArr formatted_items),
                  (''total_items'', total_items),
                  (''item_count'', JInt (int n))]),
              (''bill'', bill),
              (''delivery'', JObj
                 [(''estimated_mins'', JInt max_delivery_mins),
                  (''estimated_time'', JStr (''~'' @ str_int max_delivery_mins @ '' minutes'')),
                  (''free_delivery_threshold'', threshold),
                  (''amount_to_free_delivery'', amount)]),
              (''selected_address'', default_address),
              (''has_address'', JBool (default_address \<noteq> JNull)),
              (''ready_for_checkout'', JBool (default_address \<noteq> JNull \<and> 0 < n)),
              (''message'', JStr message)])]))))))))))))))"

definition view_cart ::
  "'s server \<Rightarrow> (json \<Rightarrow> string) \<Rightarrow> string option \<Rightarrow> 's world \<Rightarrow> (error + json) \<times> 's world" where
  "view_cart srv repr auth_token w =
     (case send_json srv
             \<lparr>rmethod = GET, url = BASE_URL @ ''/cart'', params = [], body = None,
              headers = get_headers auth_token\<rparr> w of
        (Inl e, w1) \<Rightarrow> (Inl e, w1)
      | (Inr cart_data, w1) \<Rightarrow>
          (case py_get cart_data ''success'' JNull of
             Inl e \<Rightarrow> (Inl e, w1)
           | Inr ok \<Rightarrow>
               if \<not> truthy ok then (Inr cart_data, w1)
               else
                 (case send_json srv
                         \<lparr>rmethod = GET, url = BASE_URL @ ''/addresses'', params = [],
                          body = None, headers = get_headers auth_token\<rparr> w1 of
                    (Inl e, w2) \<Rightarrow> (Inl e, w2)
                  | (Inr address_data, w2) \<Rightarrow>
                      (enhanced_response repr cart_data address_data, w2))))"

section \<open>Adding to the cart\<close>

text \<open>The f-string \<^verbatim>\<open>message\<close> of the proposal; its fields are read from left to right.\<close>

definition proposal_message ::
  "(json \<Rightarrow> string) \<Rightarrow> (pyfloat \<Rightarrow> string) \<Rightarrow> json \<Rightarrow> int \<Rightarrow> int \<Rightarrow> error + string" where
  "proposal_message repr fcomma product discount quantity =
     ebind (py_item product ''name'') (\<lambda>name.
     ebind (py_item product ''unit'') (\<lambda>unit.
     ebind (py_item product ''price'') (\<lambda>price.
     ebind (py_item product ''mrp'') (\<lambda>mrp.
     ebind (py_item product ''rating'') (\<lambda>rating.
     ebind (py_get product ''reviewCount'' (JInt 0)) (\<lambda>review_count.
     ebind (py_format_comma fcomma review_count) (\<lambda>reviews.
     ebind (py_get product ''estimatedDeliveryMins'' (JInt 15)) (\<lambda>mins.
       Inr (''**'' @ py_str repr name @ ''** ('' @ py_str repr unit @
            '')'' @ [CHR 0x0A, CHR 0x0A, CHR 0xC3, CHR 0xB0, CHR 0xC5, CHR 0xB8, CHR 0xE2, CHR 0x80, CHR 0x99, CHR 0xC2, CHR 0xB0] @ '' Price: '' @ [CHR 0xC3, CHR 0xA2, CHR 0xE2, CHR 0x80, CHR 0x9A, CHR 0xC2, CHR 0xB9] @ py_str repr price @
            '' (MRP: '' @ [CHR 0xC3, CHR 0xA2, CHR 0xE2, CHR 0x80, CHR 0x9A, CHR 0xC2, CHR 0xB9] @ py_str repr mrp @ '', '' @ str_int discount @
            ''% off)'' @ [CHR 0x0A, CHR 0xC3, CHR 0xA2, CHR 0xC2, CHR 0xAD] @ '' Rating: '' @ py_str repr rating @ ''/5 ('' @ reviews @
            '' reviews)'' @ [CHR 0x0A, CHR 0xC3, CHR 0xB0, CHR 0xC5, CHR 0xB8, CHR 0xC5, CHR 0xA1, CHR 0xC5, CHR 0xA1] @ '' Delivery: ~'' @ py_str repr mins @
            '' minutes'' @ [CHR 0x0A, CHR 0x0A] @ ''Shall I add '' @ str_int quantity @
            '' item(s) to your cart? (Say '' @ [CHR 0x27] @ ''Yes'' @ [CHR 0x27] @ '' to confirm)'')))))))))"

text \<open>The branch \<^verbatim>\<open>if not confirmed\<close>, up to the image fetch.\<close>

definition proposal_inputs :: "json \<Rightarrow> error + (json \<times> int \<times> json)" where
  "proposal_inputs d =
     ebind (py_item d ''data'') (\<lambda>inner.
     ebind (py_item inner ''product'') (\<lambda>product.
     ebind (discount_item product) (\<lambda>discount.
     ebind (py_get product ''image'' JNull) (\<lambda>image_url.
       Inr (product, discount, image_url)))))"

text \<open>
  The dict of the proposal, built after the image fetch: the message and the product as
  fetched.
\<close>

definition proposal ::
  "(json \<Rightarrow> string) \<Rightarrow> (pyfloat \<Rightarrow> string) \<Rightarrow> string \<Rightarrow> int \<Rightarrow> json \<Rightarrow> int \<Rightarrow> error + json" where
  "proposal repr fcomma product_id quantity product discount =
     ebind (proposal_message repr fcomma product discount quantity) (\<lambda>message.
       Inr (JObj
         [(''awaiting_confirmation'', JBool True),
          (''message'', JStr message),
          (''product_id'', JStr product_id),
          (''product'', product)]))"

definition add_item_request :: "string option \<Rightarrow> string \<Rightarrow> int \<Rightarrow> request" where
  "add_item_request auth_token product_id quantity =
     \<lparr>rmethod = POST, url = BASE_URL @ ''/cart/items'', params = [],
      body = Some (JObj [(''productId'', JStr product_id), (''quantity'', JInt quantity)]),
      headers = get_headers auth_token\<rparr>"

text \<open>
  The \<^verbatim>\<open>try\<close> block that sets \<^verbatim>\<open>product_name\<close> in the confirmed branch, applied to the
  outcome of the product request: \<^verbatim>\<open>None\<close> when the product lookup reports no success,
  \<^verbatim>\<open>"this item"\<close> when anything raised.
\<close>

definition product_name_of :: "error + json \<Rightarrow> json" where
  "product_name_of r =
     (case ebind r (\<lambda>product_data.
             ebind (py_get product_data ''success'' JNull) (\<lambda>ok.
               if truthy ok then
                 ebind (py_item product_data ''data'') (\<lambda>inner.
                 ebind (py_item inner ''product'') (\<lambda>product.
                   py_get product ''name'' (JStr ''this item'')))
               else Inr JNull)) of
        Inl e \<Rightarrow> JStr ''this item''
      | Inr product_name \<Rightarrow> product_name)"

text \<open>The assignments to \<^verbatim>\<open>result\<close> after the recommendation has been computed.\<close>

definition attach_recommendation :: "(string \<times> json) list \<Rightarrow> json option \<Rightarrow> json" where
  "attach_recommendation result recommendation =
     (case recommendation of
        Some r \<Rightarrow>
          if truthy r then
            JObj (AList.update ''has_recommendation'' (JBool True)
                   (AList.update ''recommendation'' r result))
          else JObj (AList.update ''has_recommendation'' (JBool False) result)
      | None \<Rightarrow> JObj (AList.update ''has_recommendation'' (JBool False) result))"

definition add_to_cart ::
  "'s server \<Rightarrow> (json \<Rightarrow> string) \<Rightarrow> (pyfloat \<Rightarrow> string) \<Rightarrow> string option
     \<Rightarrow> string \<Rightarrow> int \<Rightarrow> bool \<Rightarrow> 's world \<Rightarrow> (error + tool_result) \<times> 's world" where
  "add_to_cart srv repr fcomma auth_token product_id quantity confirmed w =
     (if \<not> confirmed then
        (case send_json srv (product_request product_id) w of
           (Inl e, w1) \<Rightarrow> (Inl e, w1)
         | (Inr d, w1) \<Rightarrow>
             (case py_get d ''success'' JNull of
                Inl e \<Rightarrow> (Inl e, w1)
              | Inr ok \<Rightarrow>
                  if truthy ok then
                    (case proposal_inputs d of
                       Inl e \<Rightarrow> (Inl e, w1)
                     | Inr (product, discount, image_url) \<Rightarrow>
                         (case fetch_image_as_content srv image_url w1 of
                            (image_content, w2) \<Rightarrow>
                              (case proposal repr fcomma product_id quantity product discount of
                                 Inl e \<Rightarrow> (Inl e, w2)
                               | Inr p \<Rightarrow>
                                   (case image_content of
                                      Some img \<Rightarrow> (Inr (WithImages [img] p), w2)
                                    | None \<Rightarrow> (Inr (Plain p), w2)))))
                  else (Inr (Plain d), w1)))
      else
        (case send_json srv (product_request product_id) w of
           (r, w1) \<Rightarrow>
             let product_name = product_name_of r
             in (case send_json srv (add_item_request auth_token product_id quantity) w1 of
                   (Inl e, w2) \<Rightarrow> (Inl e, w2)
                 | (Inr result, w2) \<Rightarrow>
                     (case result of
                        JObj kvs \<Rightarrow>
                          if truthy (dget kvs ''success'' JNull) \<and> truthy product_name then
                            (case get_recommendation_from_history srv repr auth_token
                                    product_id product_name w2 of
                               (recommendation, w3) \<Rightarrow>
                                 (Inr (Plain (attach_recommendation kvs recommendation)), w3))
                          else (Inr (Plain result), w2)
                      | _ \<Rightarrow> (Inl AttributeError, w2)))))"

section \<open>Reading results, and scripted remotes for the examples\<close>

text \<open>\<^verbatim>\<open>v[k1][k2]...\<close>: a field of a nested result.\<close>

fun py_path :: "json \<Rightarrow> string list \<Rightarrow> error + json" where
  "py_path v [] = Inr v"
| "py_path v (k # ks) = ebind (py_item v k) (\<lambda>u. py_path u ks)"

text \<open>A response with status 200 whose body decodes to \<open>j\<close>.\<close>

definition json_response :: "json \<Rightarrow> response" where
  "json_response j =
     \<lparr>status_code = 200, resp_headers = [(''content-type'', ''application/json'')],
      content = [], decoded = Some j\<rparr>"

text \<open>
  A remote that answers from a table of method and URL; a request that is not in the table
  fails in transport. Its state counts the requests that were not GET.
\<close>

definition scripted :: "((http_method \<times> string) \<times> response) list \<Rightarrow> nat server" where
  "scripted table n rq =
     (if rmethod rq = GET then n else Suc n,
      case map_of table (rmethod rq, url rq) of
        None \<Rightarrow> Inl TransportError
      | Some res \<Rightarrow> Inr res)"

definition start :: "nat world" where
  "start = \<lparr>remote = 0, sent = []\<rparr>"

text \<open>A \<open>repr\<close> for the examples, which format no float, list or dict.\<close>

definition no_repr :: "json \<Rightarrow> string" where
  "no_repr v = []"

text \<open>A cart with one line, and one default address in Pune that is serviceable or not.\<close>

definition one_item_cart :: json where
  "one_item_cart =
     JObj [(''success'', JBool True),
           (''data'', JObj
              [(''cart'', JObj
                  [(''items'', JArr
                      [JObj [(''productId'', JStr ''p1''), (''name'', JStr ''Milk''),
                             (''quantity'', JInt 2), (''price'', JInt 30)]])]),
               (''bill'', JObj [])])]"

definition pune_address :: "bool \<Rightarrow> json" where
  "pune_address serviceable =
     JObj [(''success'', JBool True),
           (''data'', JObj
              [(''addresses'', JArr
                  [JObj [(''_id'', JStr ''a1''), (''isDefault'', JBool True),
                         (''city'', JStr ''Pune''),
                         (''isServiceable'', JBool serviceable)]])])]"

definition cart_server :: "bool \<Rightarrow> nat server" where
  "cart_server serviceable =
     scripted
       [((GET, ''http://localhost:5000/api/cart''), json_response one_item_cart),
        ((GET, ''http://localhost:5000/api/addresses''),
         json_response (pune_address serviceable))]"



definition detail_response :: "(string \<times> json) list \<Rightarrow> json" where
  "detail_response kvs =
     JObj [(''success'', JBool True), (''data'', JObj [(''product'', JObj kvs)])]"

text \<open>
  An image host that answers with an HTML page of 13 bytes, declared as
  \<^verbatim>\<open>text/html; charset=utf-8\<close>, and one that answers with a payload of 1048577 zero
  bytes declared as \<^verbatim>\<open>image/png\<close>.
\<close>

definition html_response :: response where
  "html_response =
     \<lparr>status_code = 200, resp_headers = [(''content-type'', ''text/html; charset=utf-8'')],
      content = ''<html></html>'', decoded = None\<rparr>"

definition big_payload :: "char list" where
  "big_payload = replicate 1048577 (CHR 0x00)"

definition big_response :: response where
  "big_response =
     \<lparr>status_code = 200, resp_headers = [(''content-type'', ''image/png'')],
      content = big_payload, decoded = None\<rparr>"

definition html_server :: "nat server" where
  "html_server = scripted [((GET, ''http://img.example/page''), html_response)]"

definition big_server :: "nat server" where
  "big_server = scripted [((GET, ''http://img.example/big.png''), big_response)]"

text \<open>
  A small shop. Product A (bread) was ordered three times together with B (butter) and once
  together with C (jam); a fourth order holds C alone. The butter line of the first order
  has the price 70, that of the later orders 80.
\<close>

definition product_A :: "(string \<times> json) list" where
  "product_A =
     [(''_id'', JStr ''A''), (''name'', JStr ''Bread''), (''price'', JInt 30), (''mrp'', JInt 40),
      (''unit'', JStr ''1 pc''), (''rating'', JInt 4),
      (''image'', JStr ''http://img.example/page'')]"

definition product_B :: "(string \<times> json) list" where
  "product_B =
     [(''_id'', JStr ''B''), (''name'', JStr ''Butter''), (''price'', JInt 75),
      (''mrp'', JInt 100), (''unit'', JStr ''100 g''), (''stock'', JInt 5)]"

definition line :: "string \<Rightarrow> string \<Rightarrow> int \<Rightarrow> json" where
  "line product_id name price =
     JObj [(''productId'', JStr product_id), (''name'', JStr name), (''price'', JInt price),
           (''unit'', JStr ''1 pc'')]"

definition order_of :: "json list \<Rightarrow> json" where
  "order_of items = JObj [(''_id'', JStr ''o''), (''items'', JArr items)]"

definition orders_of_A :: "json list" where
  "orders_of_A =
     [order_of [line ''A'' ''Bread'' 30, line ''B'' ''Butter'' 70],
      order_of [line ''A'' ''Bread'' 30, line ''C'' ''Jam'' 55, line ''B'' ''Butter'' 80],
      order_of [line ''B'' ''Butter'' 80, line ''A'' ''Bread'' 30],
      order_of [line ''C'' ''Jam'' 55]]"

definition order_history :: json where
  "order_history = JObj [(''success'', JBool True), (''data'', JObj [(''orders'', JArr orders_of_A)])]"

definition shop :: "((http_method \<times> string) \<times> response) list" where
  "shop =
     [((GET, ''http://localhost:5000/api/products/A''), json_response (detail_response product_A)),
      ((GET, ''http://localhost:5000/api/products/B''), json_response (detail_response product_B)),
      ((POST, ''http://localhost:5000/api/cart/items''),
       json_response (JObj [(''success'', JBool True), (''message'', JStr ''Item added'')])),
      ((GET, ''http://localhost:5000/api/orders''), json_response order_history),
      ((GET, ''http://localhost:5000/api/products/search''),
       json_response
         (JObj [(''success'', JBool True),
                (''data'', JObj [(''products'', JArr [JObj product_A])])])),
      ((GET, ''http://img.example/page''), html_response)]"

definition shop_server :: "nat server" where
  "shop_server = scripted shop"

text \<open>A text for the floats of the format \<^verbatim>\<open>{x:,}\<close>, which the examples do not use.\<close>

definition no_fcomma :: "pyfloat \<Rightarrow> string" where
  "no_fcomma x = []"

section \<open>Requests and remote state\<close>

text \<open>A request that can change remote state: every method but GET.\<close>

definition mutating :: "request \<Rightarrow> bool" where
  "mutating rq = (rmethod rq \<noteq> GET)"

text \<open>The requests sent between two worlds.\<close>

definition new_requests :: "'s world \<Rightarrow> 's world \<Rightarrow> request list" where
  "new_requests w w' = drop (length (sent w)) (sent w')"

text \<open>A remote on which a GET request is a read: it leaves the state as it was.\<close>

definition gets_are_reads :: "'s server \<Rightarrow> bool" where
  "gets_are_reads srv = (\<forall>s rq. rmethod rq = GET \<longrightarrow> fst (srv s rq) = s)"

text \<open>
  From \<open>w\<close> to \<open>w'\<close> only GET requests were sent (and the remote state is the same, when
  GET requests are reads).
\<close>

definition only_gets :: "'s server \<Rightarrow> 's world \<Rightarrow> 's world \<Rightarrow> bool" where
  "only_gets srv w w' =
     (take (length (sent w)) (sent w') = sent w
      \<and> filter mutating (new_requests w w') = []
      \<and> (gets_are_reads srv \<longrightarrow> remote w' = remote w))"

text \<open>
  Variants of the shop: one whose lookup of product A reports no success, one whose order
  history is not JSON, one whose lookup of product B reports no success.
\<close>

definition not_found :: json where
  "not_found = JObj [(''success'', JBool False), (''message'', JStr ''Product not found'')]"

definition broken_response :: response where
  "broken_response = \<lparr>status_code = 500, resp_headers = [], content = ''oops'', decoded = None\<rparr>"

definition no_lookup_server :: "nat server" where
  "no_lookup_server =
     scripted (((GET, ''http://localhost:5000/api/products/A''), json_response not_found) # shop)"

definition broken_history_server :: "nat server" where
  "broken_history_server =
     scripted (((GET, ''http://localhost:5000/api/orders''), broken_response) # shop)"

definition no_refresh_server :: "nat server" where
  "no_refresh_server =
     scripted (((GET, ''http://localhost:5000/api/products/B''), json_response not_found) # shop)"

section \<open>Co-occurrence in the words of the specification\<close>

text \<open>
  The line items of an order, and the orders that are retained: those in which the code
  finds the product just added.
\<close>

definition order_items :: "json \<Rightarrow> json list" where
  "order_items order =
     (case ebind (py_get order ''items'' (JArr [])) py_iter of Inr its \<Rightarrow> its | Inl e \<Rightarrow> [])"

definition retained :: "string \<Rightarrow> json \<Rightarrow> bool" where
  "retained added_product_id order =
     (order_has_product added_product_id (order_items order) = Inr True)"

text \<open>The product identifier of a line item, and one of its display attributes.\<close>

definition item_id :: "json \<Rightarrow> json" where
  "item_id item = (case item_or item ''productId'' ''_id'' of Inr k \<Rightarrow> k | Inl e \<Rightarrow> JNull)"

definition item_attr :: "json \<Rightarrow> string \<Rightarrow> json" where
  "item_attr item f = (case item_or item f f of Inr v \<Rightarrow> v | Inl e \<Rightarrow> JNull)"

text \<open>
  The co-occurring line items, in the order of iteration: the line items of the retained
  orders whose product differs from the one just added.
\<close>

definition co_items :: "string \<Rightarrow> json list \<Rightarrow> json list" where
  "co_items added_product_id orders =
     filter (\<lambda>item. \<not> py_eq (item_id item) (JStr added_product_id))
       (concat (map order_items (filter (retained added_product_id) orders)))"

definition co_ids :: "string \<Rightarrow> json list \<Rightarrow> json list" where
  "co_ids added_product_id orders = map item_id (co_items added_product_id orders)"

text \<open>The orders of a history payload.\<close>

definition history_orders :: "json \<Rightarrow> json list" where
  "history_orders d =
     (case ebind (py_item d ''data'') (\<lambda>inner.
           ebind (py_get inner ''orders'' (JArr [])) py_iter) of
        Inr os \<Rightarrow> os
      | Inl e \<Rightarrow> [])"

text \<open>The position at which an identifier is first encountered.\<close>

definition first_pos :: "'a \<Rightarrow> 'a list \<Rightarrow> nat" where
  "first_pos k ks = length (takeWhile (\<lambda>x. x \<noteq> k) ks)"

text \<open>An identifier as the remote API gives it: a str, or absent.\<close>

definition plain_key :: "json \<Rightarrow> bool" where
  "plain_key k = (case k of JStr s \<Rightarrow> True | JNull \<Rightarrow> True | _ \<Rightarrow> False)"

text \<open>What one co-occurring line item contributes, and what it does to the table.\<close>

definition entry :: "json \<Rightarrow> json \<times> snapshot" where
  "entry item =
     (item_id item,
      \<lparr>cp_count = 1, cp_name = item_attr item ''name'', cp_price = item_attr item ''price'',
       cp_image = item_attr item ''image'', cp_unit = item_attr item ''unit''\<rparr>)"

definition step :: "co_purchased \<Rightarrow> json \<times> snapshot \<Rightarrow> co_purchased" where
  "step cp e = (if has_key (fst e) cp then bump (fst e) cp else cp @ [e])"

text \<open>
  The question that closes the message of a proposal (line 683 of the source), and the whole
  message for two pieces of product A of the shop.
\<close>

definition confirmation_question :: "int \<Rightarrow> string" where
  "confirmation_question quantity =
     ''Shall I add '' @ str_int quantity @ '' item(s) to your cart? (Say '' @ [CHR 0x27] @ ''Yes'' @ [CHR 0x27] @ '' to confirm)''"

definition bread_message :: string where
  "bread_message =
     ''**Bread** (1 pc)'' @ [CHR 0x0A, CHR 0x0A, CHR 0xC3, CHR 0xB0, CHR 0xC5, CHR 0xB8, CHR 0xE2, CHR 0x80, CHR 0x99, CHR 0xC2, CHR 0xB0] @ '' Price: '' @ [CHR 0xC3, CHR 0xA2, CHR 0xE2, CHR 0x80, CHR 0x9A, CHR 0xC2, CHR 0xB9] @ ''30 (MRP: '' @ [CHR 0xC3, CHR 0xA2, CHR 0xE2, CHR 0x80, CHR 0x9A, CHR 0xC2, CHR 0xB9] @ ''40, 25% off)'' @ [CHR 0x0A, CHR 0xC3, CHR 0xA2, CHR 0xC2, CHR 0xAD] @ '' Rating: 4/5 (0 reviews)'' @ [CHR 0x0A, CHR 0xC3, CHR 0xB0, CHR 0xC5, CHR 0xB8, CHR 0xC5, CHR 0xA1, CHR 0xC5, CHR 0xA1] @ '' Delivery: ~15 minutes'' @ [CHR 0x0A, CHR 0x0A] @ ''Shall I add 2 item(s) to your cart? (Say '' @ [CHR 0x27] @ ''Yes'' @ [CHR 0x27] @ '' to confirm)''"

section \<open>Image attachment in the words of the specification\<close>

text \<open>
  One fetch per image URL, in order, each with the outcome of
  \<^verbatim>\<open>_fetch_image_as_content\<close>; and the image elements of a result: the outcomes that are
  images, in that order. A failed fetch leaves nothing behind.
\<close>

fun fetch_each :: "'s server \<Rightarrow> json list \<Rightarrow> 's world \<Rightarrow> image_content option list \<times> 's world" where
  "fetch_each srv [] w = ([], w)"
| "fetch_each srv (u # us) w =
     (case fetch_image_as_content srv u w of
        (outcome, w1) \<Rightarrow>
          (case fetch_each srv us w1 of (outcomes, w2) \<Rightarrow> (outcome # outcomes, w2)))"

fun attached :: "image_content option list \<Rightarrow> image_content list" where
  "attached [] = []"
| "attached (None # outcomes) = attached outcomes"
| "attached (Some i # outcomes) = i # attached outcomes"

text \<open>
  The products of a listing payload, the product of a detail payload, the image URL of a
  product, and whether a payload reports success.
\<close>

definition products_of :: "json \<Rightarrow> json list" where
  "products_of d = (case py_path d [''data'', ''products''] of Inr (JArr ps) \<Rightarrow> ps | _ \<Rightarrow> [])"

definition product_of :: "json \<Rightarrow> json" where
  "product_of d = (case py_path d [''data'', ''product''] of Inr p \<Rightarrow> p | Inl e \<Rightarrow> JNull)"

definition image_url_of :: "json \<Rightarrow> json" where
  "image_url_of p =
     (case p of
        JObj kvs \<Rightarrow> (case map_of kvs ''image'' of Some u \<Rightarrow> u | None \<Rightarrow> JNull)
      | _ \<Rightarrow> JNull)"

definition reports_success :: "json \<Rightarrow> bool" where
  "reports_success d = (case py_get d ''success'' JNull of Inr ok \<Rightarrow> truthy ok | Inl e \<Rightarrow> False)"

text \<open>The images that a listing tool puts in front of the payload \<open>d\<close>, fetched from \<open>w\<close>.\<close>

definition top_images :: "'s server \<Rightarrow> json \<Rightarrow> 's world \<Rightarrow> image_content list" where
  "top_images srv d w = attached (fst (fetch_each srv (map image_url_of (take 3 (products_of d))) w))"

text \<open>The image that a detail tool puts in front of the payload \<open>d\<close>, if there is one.\<close>

definition product_image :: "'s server \<Rightarrow> json \<Rightarrow> 's world \<Rightarrow> image_content list" where
  "product_image srv d w = attached (fst (fetch_each srv [image_url_of (product_of d)] w))"

text \<open>
  A listing of the catalog with four products: the image host answers 404 for the image of
  the first, does not answer for the image of the second, and serves three bytes declared
  as \<^verbatim>\<open>image/png\<close> for the image of the third and the fourth.
\<close>

definition missing_response :: response where
  "missing_response =
     \<lparr>status_code = 404, resp_headers = [(''content-type'', ''image/png'')],
      content = ''no such file'', decoded = None\<rparr>"

definition png_response :: response where
  "png_response =
     \<lparr>status_code = 200, resp_headers = [(''content-type'', ''image/png'')],
      content = ''PNG'', decoded = None\<rparr>"

definition catalog :: json where
  "catalog =
     JObj [(''success'', JBool True),
           (''data'', JObj [(''products'', JArr
              [JObj [(''_id'', JStr ''X''), (''image'', JStr ''http://img.example/missing.png'')],
               JObj [(''_id'', JStr ''Y''), (''image'', JStr ''http://img.example/gone'')],
               JObj [(''_id'', JStr ''Z''), (''image'', JStr ''http://img.example/z.png'')],
               JObj [(''_id'', JStr ''W''), (''image'', JStr ''http://img.example/z.png'')]])])]"

definition catalog_server :: "nat server" where
  "catalog_server =
     scripted
       [((GET, ''http://localhost:5000/api/products/featured''), json_response catalog),
        ((GET, ''http://img.example/missing.png''), missing_response),
        ((GET, ''http://img.example/z.png''), png_response)]"

section \<open>Properties\<close>

subsection \<open>Helpers\<close>

lemma ebindE:
  assumes "ebind m f = Inr y"
  obtains v where "m = Inr v" and "f v = Inr y"
  using assms by (cases m) (auto simp: ebind_def)

lemma str_int_15: "str_int 15 = ''15''"
  by code_simp

subsection \<open>Cart view\<close>

lemma cart_message_cases:
  assumes "cart_message repr default_address n = Inr msg"
  shows "msg = no_address_message \<or> msg = unserviceable_message \<or> msg = empty_cart_message \<or>
         (\<exists>city. msg = ready_message repr city)"
  using assms unfolding cart_message_def
  by (auto split: if_splits elim!: ebindE)

text \<open>The response that \<^verbatim>\<open>view_cart\<close> builds, field by field.\<close>

lemma enhanced_response_shape:
  assumes "enhanced_response repr cart_data address_data = Inr r"
  obtains default_address formatted_items total_items n bill threshold amount msg where
    "r = JObj
       [(''success'', JBool True),
        (''data'', JObj
           [(''cart'', JObj
               [(''items'', JArr formatted_items),
                (''total_items'', total_items),
                (''item_count'', JInt (int n))]),
            (''bill'', bill),
            (''delivery'', JObj
               [(''estimated_mins'', JInt 15),
                (''estimated_time'', JStr ''~15 minutes''),
                (''free_delivery_threshold'', threshold),
                (''amount_to_free_delivery'', amount)]),
            (''selected_address'', default_address),
            (''has_address'', JBool (default_address \<noteq> JNull)),
            (''ready_for_checkout'', JBool (default_address \<noteq> JNull \<and> 0 < n)),
            (''message'', JStr msg)])]"
    and "cart_message repr default_address n = Inr msg"
proof -
  from assms obtain default_address formatted_items total_items n bill threshold amount msg where
    r: "r = JObj
       [(''success'', JBool True),
        (''data'', JObj
           [(''cart'', JObj
               [(''items'', JArr formatted_items),
                (''total_items'', total_items),
                (''item_count'', JInt (int n))]),
            (''bill'', bill),
            (''delivery'', JObj
               [(''estimated_mins'', JInt max_delivery_mins),
                (''estimated_time'', JStr (''~'' @ str_int max_delivery_mins @ '' minutes'')),
                (''free_delivery_threshold'', threshold),
                (''amount_to_free_delivery'', amount)]),
            (''selected_address'', default_address),
            (''has_address'', JBool (default_address \<noteq> JNull)),
            (''ready_for_checkout'', JBool (default_address \<noteq> JNull \<and> 0 < n)),
            (''message'', JStr msg)])]"
    and m: "cart_message repr default_address n = Inr msg"
    unfolding enhanced_response_def
    by (elim ebindE) (simp only: sum.inject, blast)
  from r m that show thesis
    by (simp add: max_delivery_mins_def str_int_15)
qed

text \<open>
  \<^verbatim>\<open>view_cart\<close> returns either the cart payload of a failed cart request, unchanged, or
  the response it builds.
\<close>

lemma view_cart_cases:
  assumes "view_cart srv repr auth_token w = (Inr r, w')"
  obtains (upstream) ok where "py_get r ''success'' JNull = Inr ok" and "\<not> truthy ok"
  | (built) cart_data address_data where "enhanced_response repr cart_data address_data = Inr r"
  using assms unfolding view_cart_def
  by (auto split: prod.splits sum.splits if_splits)

text \<open>
  C10. Whatever the cart and the addresses are, a response built by \<^verbatim>\<open>view_cart\<close> gives
  the delivery estimate as the constant 15: \<^verbatim>\<open>delivery.estimated_mins\<close> is 15,
  \<^verbatim>\<open>delivery.estimated_time\<close> is \<^verbatim>\<open>~15 minutes\<close>, and the message is one of the three
  fixed messages or the ready-for-checkout message, which ends in \<^verbatim>\<open>in ~15 mins.\<close> The
  hypothesis on \<^verbatim>\<open>success\<close> excludes the payload of a failed cart request, which
  \<^verbatim>\<open>view_cart\<close> returns unchanged.
\<close>

theorem view_cart_delivery_estimate:
  assumes "view_cart srv repr auth_token w = (Inr r, w')"
    and "py_get r ''success'' JNull = Inr ok"
    and "truthy ok"
  shows "py_path r [''data'', ''delivery'', ''estimated_mins''] = Inr (JInt 15)
       \<and> py_path r [''data'', ''delivery'', ''estimated_time''] = Inr (JStr ''~15 minutes'')
       \<and> (\<exists>msg. py_path r [''data'', ''message''] = Inr (JStr msg) \<and>
             (msg = no_address_message \<or> msg = unserviceable_message \<or>
              msg = empty_cart_message \<or>
              (\<exists>city. msg = ready_prefix @ py_str repr city @ '' in ~15 mins.'')))"
  using assms(1)
proof (cases rule: view_cart_cases)
  case (upstream ok')
  with assms(2,3) show ?thesis by simp
next
  case (built cart_data address_data)
  then obtain default_address formatted_items total_items n bill threshold amount msg where
    r: "r = JObj
       [(''success'', JBool True),
        (''data'', JObj
           [(''cart'', JObj
               [(''items'', JArr formatted_items),
                (''total_items'', total_items),
                (''item_count'', JInt (int n))]),
            (''bill'', bill),
            (''delivery'', JObj
               [(''estimated_mins'', JInt 15),
                (''estimated_time'', JStr ''~15 minutes''),
                (''free_delivery_threshold'', threshold),
                (''amount_to_free_delivery'', amount)]),
            (''selected_address'', default_address),
            (''has_address'', JBool (default_address \<noteq> JNull)),
            (''ready_for_checkout'', JBool (default_address \<noteq> JNull \<and> 0 < n)),
            (''message'', JStr msg)])]"
    and m: "cart_message repr default_address n = Inr msg"
    by (rule enhanced_response_shape)
  have mins: "py_path r [''data'', ''delivery'', ''estimated_mins''] = Inr (JInt 15)"
    unfolding r by (simp add: py_item_def ebind_def)
  have time: "py_path r [''data'', ''delivery'', ''estimated_time''] = Inr (JStr ''~15 minutes'')"
    unfolding r by (simp add: py_item_def ebind_def)
  have message: "py_path r [''data'', ''message''] = Inr (JStr msg)"
    unfolding r by (simp add: py_item_def ebind_def)
  have "msg = no_address_message \<or> msg = unserviceable_message \<or> msg = empty_cart_message \<or>
        (\<exists>city. msg = ready_prefix @ py_str repr city @ '' in ~15 mins.'')"
    using cart_message_cases [OF m]
    by (auto simp: ready_message_def max_delivery_mins_def str_int_15)
  with mins time message show ?thesis by blast
qed

theorem view_cart_delivery_estimate_witness:
  "\<exists>r w'. view_cart (cart_server True) no_repr None start = (Inr r, w')
     \<and> py_get r ''success'' JNull = Inr (JBool True)
     \<and> truthy (JBool True)
     \<and> py_path r [''data'', ''delivery'', ''estimated_mins''] = Inr (JInt 15)
     \<and> py_path r [''data'', ''delivery'', ''estimated_time''] = Inr (JStr ''~15 minutes'')
     \<and> py_path r [''data'', ''message''] =
           Inr (JStr (ready_prefix @ ''Pune'' @ '' in ~15 mins.''))"
proof -
  have "case view_cart (cart_server True) no_repr None start of
          (Inr r, w') \<Rightarrow>
            py_get r ''success'' JNull = Inr (JBool True) \<and>
            py_path r [''data'', ''message''] =
              Inr (JStr (ready_prefix @ ''Pune'' @ '' in ~15 mins.''))
        | (Inl e, w') \<Rightarrow> False"
    by code_simp
  then obtain r w' where run: "view_cart (cart_server True) no_repr None start = (Inr r, w')"
    and ok: "py_get r ''success'' JNull = Inr (JBool True)"
    and msg: "py_path r [''data'', ''message''] =
                Inr (JStr (ready_prefix @ ''Pune'' @ '' in ~15 mins.''))"
    by (auto split: prod.splits sum.splits)
  have t: "truthy (JBool True)"
    by (simp add: truthy_def)
  from view_cart_delivery_estimate [OF run ok t] run ok t msg show ?thesis
    by blast
qed

text \<open>
  C1. The flag \<^verbatim>\<open>ready_for_checkout\<close> is computed as
  \<^verbatim>\<open>default_address is not None and len(cart_items) > 0\<close>, without the serviceability that
  the message chain of the same function tests. With one line in the cart and a default
  address whose \<^verbatim>\<open>isServiceable\<close> is false, the response carries
  \<^verbatim>\<open>ready_for_checkout = True\<close> next to the message that delivery is not available.
\<close>

theorem view_cart_ready_with_unserviceable_address:
  "\<exists>r w'. view_cart (cart_server False) no_repr None start = (Inr r, w')
     \<and> py_path r [''data'', ''cart'', ''item_count''] = Inr (JInt 1)
     \<and> py_path r [''data'', ''selected_address'', ''is_serviceable''] = Inr (JBool False)
     \<and> py_path r [''data'', ''ready_for_checkout''] = Inr (JBool True)
     \<and> py_path r [''data'', ''message''] = Inr (JStr unserviceable_message)"
proof -
  have "case view_cart (cart_server False) no_repr None start of
          (Inr r, w') \<Rightarrow>
            py_path r [''data'', ''cart'', ''item_count''] = Inr (JInt 1) \<and>
            py_path r [''data'', ''selected_address'', ''is_serviceable''] = Inr (JBool False) \<and>
            py_path r [''data'', ''ready_for_checkout''] = Inr (JBool True) \<and>
            py_path r [''data'', ''message''] = Inr (JStr unserviceable_message)
        | (Inl e, w') \<Rightarrow> False"
    by code_simp
  then show ?thesis
    by (auto split: prod.splits sum.splits)
qed

subsection \<open>Discount percent\<close>

lemma ebind_Inr [simp]: "ebind (Inr v) f = f v"
  by (simp add: ebind_def)

lemma ebind_Inl [simp]: "ebind (Inl e) f = Inl e"
  by (simp add: ebind_def)

lemma py_item_JObj [simp]:
  "py_item (JObj kvs) k = (case map_of kvs k of None \<Rightarrow> Inl KeyError | Some v \<Rightarrow> Inr v)"
  by (simp add: py_item_def)

lemma py_get_JObj [simp]: "py_get (JObj kvs) k dflt = Inr (dget kvs k dflt)"
  by (simp add: py_get_def)









subsection \<open>Image attachment\<close>

lemma image_of_response_oversized:
  assumes "1048576 < int (length (content res))"
  shows "image_of_response res = None"
  using assms by (simp add: image_of_response_def Let_def)

lemma image_of_response_relabelled:
  assumes "status_code res = 200" and "int (length (content res)) \<le> 1048576"
    and "\<not> startswith (declared_content_type res) ''image/''"
  shows "image_of_response res =
           Some \<lparr>itype = ''image'', data = b64encode (content res), mimeType = ''image/jpeg''\<rparr>"
  using assms by (simp add: image_of_response_def Let_def)

lemma fetch_image_of_response:
  assumes "send srv (image_request u) w = (Inr res, w')" and "u \<noteq> []"
  shows "fetch_image_as_content srv (JStr u) w = (image_of_response res, w')"
  using assms by (simp add: fetch_image_as_content_def truthy_def)

text \<open>Whatever the image fetches give, a discovery tool returns the dict it was given.\<close>

lemma with_images_json:
  assumes "with_images srv products d w = (Inr r, w')"
  shows "json_of r = d"
  using assms unfolding with_images_def
  by (auto split: sum.splits prod.splits if_splits simp: json_of_def)

lemma search_products_json:
  assumes "search_products srv query page limit True w = (Inr r, w2)"
  shows "\<exists>w1. search_products srv query page limit False w = (Inr (Plain (json_of r)), w1)"
  using assms unfolding search_products_def
  by (auto split: sum.splits prod.splits if_splits simp: json_of_def dest: with_images_json)

lemma add_to_cart_proposal_json:
  assumes "add_to_cart srv repr fcomma auth_token product_id quantity False w = (Inr r, w2)"
    and "send_json srv (product_request product_id) w = (Inr d, w1)"
    and "py_get d ''success'' JNull = Inr ok" and "truthy ok"
  shows "\<exists>product discount image_url.
           proposal_inputs d = Inr (product, discount, image_url) \<and>
           proposal repr fcomma product_id quantity product discount = Inr (json_of r)"
  using assms unfolding add_to_cart_def
  by (auto split: sum.splits prod.splits option.splits simp: json_of_def)

lemma length_big_payload: "int (length big_payload) = 1048577"
  unfolding big_payload_def length_replicate by simp

lemma send_big_server:
  "send big_server (image_request ''http://img.example/big.png'') start =
     (Inr big_response, \<lparr>remote = 0, sent = [image_request ''http://img.example/big.png'']\<rparr>)"
  by (simp add: send_def big_server_def scripted_def image_request_def start_def)

lemma format_product_JObj:
  assumes "format_product p = Inr fp"
  shows "\<exists>kvs. p = JObj kvs"
  using assms by (cases p) (simp_all add: format_product_def discount_get_def py_get_def)

lemma mapE_Inr_all:
  assumes "mapE f xs = Inr ys"
  shows "\<forall>x\<in>set xs. \<exists>y. f x = Inr y"
  using assms
  by (induction xs arbitrary: ys) (auto split: sum.splits)

lemma fetch_images_total:
  assumes "\<forall>p\<in>set ps. \<exists>kvs. p = JObj kvs"
  shows "\<exists>images w'. fetch_images srv ps w = (Inr images, w')"
  using assms
proof (induction ps arbitrary: w)
  case Nil
  then show ?case by simp
next
  case (Cons p ps)
  then obtain kvs where p: "p = JObj kvs" by auto
  obtain img w1 where f: "fetch_image_as_content srv (dget kvs ''image'' JNull) w = (img, w1)"
    by (cases "fetch_image_as_content srv (dget kvs ''image'' JNull) w")
  from Cons obtain images w2 where "fetch_images srv ps w1 = (Inr images, w2)"
    by fastforce
  with p f show ?case by (simp add: py_get_def)
qed

lemma with_images_total:
  assumes "\<forall>p\<in>set ps. \<exists>kvs. p = JObj kvs"
  shows "\<exists>r w'. with_images srv (JArr ps) d w = (Inr r, w') \<and> json_of r = d"
proof -
  have "\<forall>p\<in>set (take 3 ps). \<exists>kvs. p = JObj kvs"
    using assms by (auto dest: in_set_takeD)
  from fetch_images_total [OF this] obtain images w' where
    "fetch_images srv (take 3 ps) w = (Inr images, w')" by blast
  then show ?thesis
    by (simp add: with_images_def py_slice3_def py_iter_def json_of_def)
qed

lemma map_of_update_other:
  assumes "k \<noteq> k'"
  shows "map_of (AList.update k v kvs) k' = map_of kvs k'"
  using assms by (simp add: update_conv')

lemma search_reshape_products:
  assumes "search_reshape d = Inr (products, d')"
    and "py_path d' [''data'', ''products''] = Inr (JArr ps)"
  shows "products = JArr ps \<and> (\<forall>p\<in>set ps. \<exists>kvs. p = JObj kvs)"
proof -
  from assms(1) obtain inner its fps where
    i: "py_item d ''data'' = Inr inner"
    and p: "py_get inner ''products'' (JArr []) = Inr products"
    and it: "py_iter products = Inr its"
    and m: "mapE format_product its = Inr fps"
    and s: "set_formatted_products d fps = Inr d'"
    unfolding search_reshape_def by (elim ebindE) auto
  from s obtain kvs ikvs where d: "d = JObj kvs" and ik: "map_of kvs ''data'' = Some (JObj ikvs)"
    and d': "d' = JObj (AList.update ''data''
                  (JObj (AList.update ''formatted_products'' (JArr fps) ikvs)) kvs)"
    by (auto simp: set_formatted_products_def split: json.splits option.splits)
  from i d ik have inner: "inner = JObj ikvs" by simp
  from assms(2) d' have "map_of (AList.update ''formatted_products'' (JArr fps) ikvs) ''products'' = Some (JArr ps)"
    by (auto simp: update_conv' split: option.splits)
  then have "map_of ikvs ''products'' = Some (JArr ps)"
    by (simp add: update_conv')
  with p inner have pr: "products = JArr ps" by (simp add: dget_def)
  with it have "its = ps" by (simp add: py_iter_def)
  with m have "\<forall>p\<in>set ps. \<exists>kvs. p = JObj kvs"
    by (auto dest!: mapE_Inr_all dest: format_product_JObj)
  with pr show ?thesis by blast
qed

lemma search_products_images_total:
  assumes run: "search_products srv query page limit False w = (Inr (Plain d'), w1)"
    and ps: "py_path d' [''data'', ''products''] = Inr (JArr ps)"
  shows "\<exists>r w2. search_products srv query page limit True w = (Inr r, w2) \<and> json_of r = d'"
proof -
  obtain r0 w0 where sj: "send_json srv (search_request query page limit) w = (r0, w0)"
    by (cases "send_json srv (search_request query page limit) w")
  with run obtain d ok where r0: "r0 = Inr d" and ok: "py_get d ''success'' JNull = Inr ok"
    unfolding search_products_def by (auto split: sum.splits)
  show ?thesis
  proof (cases "truthy ok")
    case False
    with run sj r0 ok have "d' = d"
      unfolding search_products_def by simp
    with False sj r0 ok show ?thesis
      unfolding search_products_def by (simp add: json_of_def)
  next
    case True
    with run sj r0 ok obtain products where re: "search_reshape d = Inr (products, d')"
      and w1: "w1 = w0"
      unfolding search_products_def by (auto split: sum.splits)
    from search_reshape_products [OF re ps] have pr: "products = JArr ps"
      and objs: "\<forall>p\<in>set ps. \<exists>kvs. p = JObj kvs" by blast+
    from with_images_total [OF objs] obtain r w2 where
      "with_images srv (JArr ps) d' w0 = (Inr r, w2)" and "json_of r = d'" by blast
    with True sj r0 ok re pr show ?thesis
      unfolding search_products_def by simp
  qed
qed

lemma add_to_cart_proposal_returned:
  assumes "send_json srv (product_request product_id) w = (Inr d, w1)"
    and "py_get d ''success'' JNull = Inr ok" and "truthy ok"
    and "proposal_inputs d = Inr (product, discount, image_url)"
    and "proposal repr fcomma product_id quantity product discount = Inr p"
  shows "\<exists>r w2. add_to_cart srv repr fcomma auth_token product_id quantity False w = (Inr r, w2)
           \<and> json_of r = p"
proof -
  obtain img w2 where "fetch_image_as_content srv image_url w1 = (img, w2)"
    by (cases "fetch_image_as_content srv image_url w1")
  with assms show ?thesis
    unfolding add_to_cart_def by (cases img) (simp_all add: json_of_def)
qed

lemma fetch_images_attached:
  assumes "fetch_images srv ps w = (Inr images, w')"
  shows "images = attached (fst (fetch_each srv (map image_url_of ps) w))
       \<and> w' = snd (fetch_each srv (map image_url_of ps) w)"
  using assms
proof (induction ps arbitrary: w images w')
  case Nil
  then show ?case by simp
next
  case (Cons p ps)
  from Cons.prems obtain kvs where p: "p = JObj kvs"
    by (cases p) (simp_all add: py_get_def)
  then have u: "image_url_of p = dget kvs ''image'' JNull"
    by (simp add: image_url_of_def dget_def)
  obtain img w1 where f: "fetch_image_as_content srv (dget kvs ''image'' JNull) w = (img, w1)"
    by (cases "fetch_image_as_content srv (dget kvs ''image'' JNull) w")
  with Cons.prems p obtain rest where r: "fetch_images srv ps w1 = (Inr rest, w')"
    and i: "images = (case img of None \<Rightarrow> [] | Some i \<Rightarrow> [i]) @ rest"
    by (auto split: prod.splits sum.splits)
  from Cons.IH [OF r] i f u show ?case
    by (cases img) (simp_all split: prod.splits)
qed

lemma fetch_images_strs:
  assumes "fetch_images srv (map JStr cs) w = (Inr images, w')"
  shows "cs = [] \<and> images = [] \<and> w' = w"
  using assms by (cases cs) (simp_all add: py_get_def)

lemma with_images_attached:
  assumes "with_images srv products d w = (Inr r, w')"
  shows "json_of r = d
       \<and> images_of r =
           attached (fst (fetch_each srv
             (map image_url_of (take 3 (case products of JArr ps \<Rightarrow> ps | _ \<Rightarrow> []))) w))
       \<and> w' = snd (fetch_each srv
             (map image_url_of (take 3 (case products of JArr ps \<Rightarrow> ps | _ \<Rightarrow> []))) w)"
proof -
  from assms obtain top images where t: "ebind (py_slice3 products) py_iter = Inr top"
    and f: "fetch_images srv top w = (Inr images, w')"
    and r: "r = (if images \<noteq> [] then WithImages images d else Plain d)"
    unfolding with_images_def by (auto split: sum.splits prod.splits if_splits)
  from r have j: "json_of r = d" and i: "images_of r = images"
    by (auto simp: json_of_def images_of_def)
  show ?thesis
  proof (cases products)
    case (JArr ps)
    with t have "top = take 3 ps"
      by (simp add: py_slice3_def py_iter_def)
    with fetch_images_attached [OF f] j i JArr show ?thesis by simp
  next
    case (JStr s)
    with t have "top = map JStr (utf8_chars (concat (take 3 (utf8_chars s))))"
      by (simp add: py_slice3_def py_iter_def)
    with fetch_images_strs f have "images = []" and "w' = w" by blast+
    with j i JStr show ?thesis by simp
  qed (use t in \<open>simp_all add: py_slice3_def\<close>)
qed

lemma products_read:
  assumes "ebind (py_item d ''data'') (\<lambda>inner. py_get inner ''products'' (JArr [])) = Inr products"
  shows "(case products of JArr ps \<Rightarrow> ps | _ \<Rightarrow> []) = products_of d"
proof -
  from assms obtain inner where i: "py_item d ''data'' = Inr inner"
    and p: "py_get inner ''products'' (JArr []) = Inr products"
    by (elim ebindE) blast
  from p obtain ikvs where inner: "inner = JObj ikvs"
    by (cases inner) (simp_all add: py_get_def)
  with p have "products = dget ikvs ''products'' (JArr [])" by simp
  with i inner show ?thesis
    by (cases "map_of ikvs ''products''") (simp_all add: products_of_def dget_def)
qed

text \<open>What a listing tool returns: the payload, and the images of its first three products.\<close>

lemma listing_result:
  assumes "listing srv rq show_images w = (Inr r, w')"
  shows "\<exists>d w1. send_json srv rq w = (Inr d, w1)
           \<and> json_of r = d
           \<and> images_of r = (if show_images \<and> reports_success d then top_images srv d w1 else [])"
proof -
  from assms obtain d w1 where sj: "send_json srv rq w = (Inr d, w1)"
    unfolding listing_def by (auto split: prod.splits sum.splits)
  show ?thesis
  proof (cases "show_images \<and> reports_success d")
    case False
    with assms sj have "r = Plain d"
      unfolding listing_def reports_success_def
      by (auto split: sum.splits if_splits)
    with False sj show ?thesis
      by (auto simp: json_of_def images_of_def)
  next
    case True
    with assms sj obtain products where
      p: "ebind (py_item d ''data'') (\<lambda>inner. py_get inner ''products'' (JArr [])) = Inr products"
      and wi: "with_images srv products d w1 = (Inr r, w')"
      unfolding listing_def reports_success_def
      by (auto split: sum.splits if_splits)
    from with_images_attached [OF wi] products_read [OF p] True sj show ?thesis
      by (simp add: top_images_def)
  qed
qed

lemma search_reshape_read:
  assumes "search_reshape d = Inr (products, d')"
  shows "ebind (py_item d ''data'') (\<lambda>inner. py_get inner ''products'' (JArr [])) = Inr products"
  using assms unfolding search_reshape_def
  by (elim ebindE) auto

lemma search_products_result:
  assumes "search_products srv query page limit show_images w = (Inr r, w')"
  shows "\<exists>d w1. send_json srv (search_request query page limit) w = (Inr d, w1)
           \<and> search_products srv query page limit False w = (Inr (Plain (json_of r)), w1)
           \<and> images_of r = (if show_images \<and> reports_success d then top_images srv d w1 else [])"
proof -
  from assms obtain d w1 ok where sj: "send_json srv (search_request query page limit) w = (Inr d, w1)"
    and ok: "py_get d ''success'' JNull = Inr ok"
    unfolding search_products_def by (auto split: prod.splits sum.splits)
  show ?thesis
  proof (cases "truthy ok")
    case False
    with assms sj ok have "r = Plain d"
      unfolding search_products_def by simp
    with False sj ok show ?thesis
      unfolding search_products_def
      by (simp add: json_of_def images_of_def reports_success_def)
  next
    case True
    with assms sj ok obtain products d' where re: "search_reshape d = Inr (products, d')"
      and rest: "(if show_images then with_images srv products d' w1 else (Inr (Plain d'), w1))
                   = (Inr r, w')"
      unfolding search_products_def by (auto split: sum.splits)
    have plain: "search_products srv query page limit False w = (Inr (Plain d'), w1)"
      using True sj ok re unfolding search_products_def by simp
    show ?thesis
    proof (cases show_images)
      case False
      with rest have "r = Plain d'" by simp
      with False plain sj show ?thesis
        by (simp add: json_of_def images_of_def)
    next
      case si: True
      with rest have wi: "with_images srv products d' w1 = (Inr r, w')" by simp
      from with_images_attached [OF wi] products_read [OF search_reshape_read [OF re]]
        plain sj si True ok show ?thesis
        by (simp add: top_images_def reports_success_def)
    qed
  qed
qed

lemma product_image_url_read:
  assumes "product_image_url d = Inr image_url"
  shows "image_url = image_url_of (product_of d)"
proof -
  from assms obtain inner product where i: "py_item d ''data'' = Inr inner"
    and p: "py_item inner ''product'' = Inr product"
    and u: "py_get product ''image'' JNull = Inr image_url"
    unfolding product_image_url_def by (elim ebindE) blast
  from u obtain kvs where "product = JObj kvs"
    by (cases product) (simp_all add: py_get_def)
  with i p u show ?thesis
    by (simp add: product_of_def image_url_of_def dget_def)
qed

lemma get_product_details_result:
  assumes "get_product_details srv product_id show_image w = (Inr r, w')"
  shows "\<exists>d w1. send_json srv (product_request product_id) w = (Inr d, w1)
           \<and> json_of r = d
           \<and> images_of r = (if show_image \<and> reports_success d then product_image srv d w1 else [])"
proof -
  from assms obtain d w1 where sj: "send_json srv (product_request product_id) w = (Inr d, w1)"
    unfolding get_product_details_def by (auto split: prod.splits sum.splits)
  show ?thesis
  proof (cases "show_image \<and> reports_success d")
    case False
    with assms sj have "r = Plain d"
      unfolding get_product_details_def reports_success_def
      by (auto split: sum.splits if_splits)
    with False sj show ?thesis
      by (auto simp: json_of_def images_of_def)
  next
    case True
    with assms sj obtain image_url img where u: "product_image_url d = Inr image_url"
      and f: "fetch_image_as_content srv image_url w1 = (img, w')"
      and r: "r = (case img of Some i \<Rightarrow> WithImages [i] d | None \<Rightarrow> Plain d)"
      unfolding get_product_details_def reports_success_def
      by (auto split: sum.splits if_splits prod.splits option.splits)
    from r f product_image_url_read [OF u] True sj show ?thesis
      by (cases img) (simp_all add: json_of_def images_of_def product_image_def)
  qed
qed

lemma show_product_image_result:
  assumes "show_product_image srv product_id w = (Inr res, w')"
  shows "\<exists>d w1. send_json srv (product_request product_id) w = (Inr d, w1)
           \<and> res = (if reports_success d
                    then (case product_image srv d w1 of
                            i # rest \<Rightarrow> ImageAlone i
                          | [] \<Rightarrow> ErrorDict (JObj
                                    [(''error'', JStr ''Could not load product image''),
                                     (''image_url'', image_url_of (product_of d))]))
                    else ErrorDict (JObj [(''error'', JStr ''Product not found'')]))"
proof -
  from assms obtain d w1 ok where sj: "send_json srv (product_request product_id) w = (Inr d, w1)"
    and ok: "py_get d ''success'' JNull = Inr ok"
    unfolding show_product_image_def by (auto split: prod.splits sum.splits)
  show ?thesis
  proof (cases "truthy ok")
    case False
    with assms sj ok show ?thesis
      unfolding show_product_image_def by (simp add: reports_success_def)
  next
    case True
    with assms sj ok obtain image_url img where u: "product_image_url d = Inr image_url"
      and f: "fetch_image_as_content srv image_url w1 = (img, w')"
      and r: "res = (case img of Some i \<Rightarrow> ImageAlone i
                     | None \<Rightarrow> ErrorDict (JObj
                                    [(''error'', JStr ''Could not load product image''),
                                     (''image_url'', image_url)]))"
      unfolding show_product_image_def
      by (auto split: sum.splits prod.splits option.splits)
    from r f product_image_url_read [OF u] True sj ok show ?thesis
      by (cases img) (simp_all add: product_image_def reports_success_def)
  qed
qed

lemma add_to_cart_proposal_image:
  assumes "add_to_cart srv repr fcomma auth_token product_id quantity False w = (Inr r, w')"
  shows "\<exists>d w1. send_json srv (product_request product_id) w = (Inr d, w1)
           \<and> images_of r = (if reports_success d then product_image srv d w1 else [])"
proof -
  from assms obtain d w1 ok where sj: "send_json srv (product_request product_id) w = (Inr d, w1)"
    and ok: "py_get d ''success'' JNull = Inr ok"
    unfolding add_to_cart_def by (auto split: prod.splits sum.splits)
  show ?thesis
  proof (cases "truthy ok")
    case False
    with assms sj ok show ?thesis
      unfolding add_to_cart_def by (auto simp: reports_success_def images_of_def)
  next
    case True
    with assms sj ok obtain product discount image_url img p where
      pin: "proposal_inputs d = Inr (product, discount, image_url)"
      and f: "fetch_image_as_content srv image_url w1 = (img, w')"
      and r: "r = (case img of Some i \<Rightarrow> WithImages [i] p | None \<Rightarrow> Plain p)"
      unfolding add_to_cart_def
      by (auto split: sum.splits prod.splits option.splits)
    from pin have "product_image_url d = Inr image_url"
      unfolding proposal_inputs_def product_image_url_def
      by (auto elim!: ebindE)
    from r f product_image_url_read [OF this] True sj ok show ?thesis
      by (cases img) (simp_all add: images_of_def product_image_def reports_success_def)
  qed
qed

text \<open>A listing tool returns whatever the image fetches give, when the payload is well formed.\<close>

lemma listing_total:
  assumes "send_json srv rq w = (Inr (JObj kvs), w1)"
    and "reports_success (JObj kvs) \<longrightarrow>
           py_path (JObj kvs) [''data'', ''products''] = Inr (JArr ps)
           \<and> (\<forall>p\<in>set (take 3 ps). \<exists>pk. p = JObj pk)"
  shows "\<exists>r w'. listing srv rq show_images w = (Inr r, w') \<and> json_of r = JObj kvs"
proof (cases "show_images \<and> reports_success (JObj kvs)")
  case False
  with assms(1) show ?thesis
    unfolding listing_def reports_success_def
    by (auto simp: json_of_def)
next
  case True
  with assms(2) have pp: "py_path (JObj kvs) [''data'', ''products''] = Inr (JArr ps)"
    and objs: "\<forall>p\<in>set (take 3 ps). \<exists>pk. p = JObj pk" by blast+
  from pp have rd: "ebind (py_item (JObj kvs) ''data'') (\<lambda>inner. py_get inner ''products'' (JArr []))
                  = Inr (JArr ps)"
    by (auto simp: py_item_def py_get_def dget_def split: option.splits json.splits elim!: ebindE)
  from fetch_images_total [OF objs] obtain images w' where
    "fetch_images srv (take 3 ps) w1 = (Inr images, w')" by blast
  then have "\<exists>r. with_images srv (JArr ps) (JObj kvs) w1 = (Inr r, w') \<and> json_of r = JObj kvs"
    by (simp add: with_images_def py_slice3_def py_iter_def json_of_def)
  with True assms(1) rd show ?thesis
    unfolding listing_def reports_success_def
    by (auto simp del: py_item_JObj)
qed

lemma get_product_details_total:
  assumes "send_json srv (product_request product_id) w = (Inr (JObj kvs), w1)"
    and "reports_success (JObj kvs) \<longrightarrow> py_path (JObj kvs) [''data'', ''product''] = Inr (JObj pk)"
  shows "\<exists>r w'. get_product_details srv product_id show_image w = (Inr r, w')
           \<and> json_of r = JObj kvs"
proof (cases "show_image \<and> reports_success (JObj kvs)")
  case False
  with assms(1) show ?thesis
    unfolding get_product_details_def reports_success_def
    by (auto simp: json_of_def)
next
  case True
  with assms(2) have pp: "py_path (JObj kvs) [''data'', ''product''] = Inr (JObj pk)"
    by blast
  then have u: "product_image_url (JObj kvs) = Inr (dget pk ''image'' JNull)"
    unfolding product_image_url_def
    by (auto simp: py_item_def split: option.splits json.splits elim!: ebindE)
  obtain img w2 where "fetch_image_as_content srv (dget pk ''image'' JNull) w1 = (img, w2)"
    by (cases "fetch_image_as_content srv (dget pk ''image'' JNull) w1")
  with True assms(1) u show ?thesis
    unfolding get_product_details_def reports_success_def
    by (cases img) (auto simp: json_of_def)
qed

lemma add_to_cart_unconfirmed_cases:
  assumes "add_to_cart srv repr fcomma auth_token product_id quantity False w = (Inr r, w')"
  shows "\<exists>d w1 ok. send_json srv (product_request product_id) w = (Inr d, w1)
           \<and> py_get d ''success'' JNull = Inr ok
           \<and> (if truthy ok
               then \<exists>product discount image_url.
                      proposal_inputs d = Inr (product, discount, image_url)
                      \<and> proposal repr fcomma product_id quantity product discount = Inr (json_of r)
               else r = Plain d \<and> w' = w1)"
  using assms unfolding add_to_cart_def
  by (auto split: sum.splits prod.splits option.splits if_splits simp: json_of_def)

text \<open>
  C4, as the code has it. An image fetch gives no image when the payload is larger than
  1 MiB, when the status is not 200, when the request fails, and when the URL is absent, empty
  or no str (then nothing is sent). A payload of at most 1 MiB with status 200 is attached
  with its declared type when that is an image type, and otherwise relabelled
  \<^verbatim>\<open>image/jpeg\<close>: a declared type that is not an image type does not keep it out.

  The image elements of what a tool returns are the images that these fetches gave, in
  order, and nothing else: for \<^verbatim>\<open>search_products\<close>, \<^verbatim>\<open>get_products_by_category\<close>,
  \<^verbatim>\<open>filter_products\<close> and \<^verbatim>\<open>get_featured_products\<close> those of the first three products,
  for \<^verbatim>\<open>get_product_details\<close> and the proposal of \<^verbatim>\<open>add_to_cart\<close> that of the product.
  The structured result is returned unchanged whatever the fetches give: the listing and
  detail tools return the payload of the remote API, \<^verbatim>\<open>search_products\<close> the dict that it
  returns without images, \<^verbatim>\<open>add_to_cart\<close> the proposal computed from the product payload;
  and a well-formed payload is returned for every behaviour of the image host.

  \<^verbatim>\<open>show_product_image\<close> is the exception: it returns the image alone, or a dict that
  reports an error when there is no image or no product, never the product payload.
\<close>

theorem image_attachment_degrades:
  "(\<forall>res w'. send srv (image_request u) w = (Inr res, w') \<longrightarrow> u \<noteq> [] \<longrightarrow>
       1048576 < int (length (content res)) \<longrightarrow>
       fetch_image_as_content srv (JStr u) w = (None, w'))
   \<and> (\<forall>res w'. send srv (image_request u) w = (Inr res, w') \<longrightarrow> u \<noteq> [] \<longrightarrow>
       status_code res = 200 \<longrightarrow> int (length (content res)) \<le> 1048576 \<longrightarrow>
       \<not> startswith (declared_content_type res) ''image/'' \<longrightarrow>
       fetch_image_as_content srv (JStr u) w =
         (Some \<lparr>itype = ''image'', data = b64encode (content res), mimeType = ''image/jpeg''\<rparr>,
          w'))
   \<and> (\<forall>res w'. send srv (image_request u) w = (Inr res, w') \<longrightarrow> u \<noteq> [] \<longrightarrow>
       status_code res = 200 \<longrightarrow> int (length (content res)) \<le> 1048576 \<longrightarrow>
       startswith (declared_content_type res) ''image/'' \<longrightarrow>
       fetch_image_as_content srv (JStr u) w =
         (Some \<lparr>itype = ''image'', data = b64encode (content res),
                mimeType = declared_content_type res\<rparr>, w'))
   \<and> (\<forall>res w'. send srv (image_request u) w = (Inr res, w') \<longrightarrow> u \<noteq> [] \<longrightarrow>
       status_code res \<noteq> 200 \<longrightarrow>
       fetch_image_as_content srv (JStr u) w = (None, w'))
   \<and> (\<forall>e w'. send srv (image_request u) w = (Inl e, w') \<longrightarrow> u \<noteq> [] \<longrightarrow>
       fetch_image_as_content srv (JStr u) w = (None, w'))
   \<and> (\<forall>image_url. (\<forall>s. image_url = JStr s \<longrightarrow> s = []) \<longrightarrow>
       fetch_image_as_content srv image_url w = (None, w))
   \<and> (\<forall>show_images r w'.
       search_products srv query page limit show_images w = (Inr r, w') \<longrightarrow>
       (\<exists>d w1. send_json srv (search_request query page limit) w = (Inr d, w1)
          \<and> search_products srv query page limit False w = (Inr (Plain (json_of r)), w1)
          \<and> images_of r =
              (if show_images \<and> reports_success d then top_images srv d w1 else [])))
   \<and> (\<forall>show_images r w'.
       get_products_by_category srv category_id page limit show_images w = (Inr r, w') \<longrightarrow>
       (\<exists>d w1. send_json srv (category_request category_id page limit) w = (Inr d, w1)
          \<and> json_of r = d
          \<and> images_of r =
              (if show_images \<and> reports_success d then top_images srv d w1 else [])))
   \<and> (\<forall>show_images r w'.
       filter_products srv category min_price max_price dietary brand in_stock sort_by page limit
         show_images w = (Inr r, w') \<longrightarrow>
       (\<exists>d w1. send_json srv
                 (filter_request (filter_params category min_price max_price dietary brand
                    in_stock sort_by page limit)) w = (Inr d, w1)
          \<and> json_of r = d
          \<and> images_of r =
              (if show_images \<and> reports_success d then top_images srv d w1 else [])))
   \<and> (\<forall>show_images r w'.
       get_featured_products srv limit show_images w = (Inr r, w') \<longrightarrow>
       (\<exists>d w1. send_json srv (featured_request limit) w = (Inr d, w1)
          \<and> json_of r = d
          \<and> images_of r =
              (if show_images \<and> reports_success d then top_images srv d w1 else [])))
   \<and> (\<forall>show_image r w'.
       get_product_details srv product_id show_image w = (Inr r, w') \<longrightarrow>
       (\<exists>d w1. send_json srv (product_request product_id) w = (Inr d, w1)
          \<and> json_of r = d
          \<and> images_of r =
              (if show_image \<and> reports_success d then product_image srv d w1 else [])))
   \<and> (\<forall>r w'.
       add_to_cart srv repr fcomma auth_token product_id quantity False w = (Inr r, w') \<longrightarrow>
       (\<exists>d w1. send_json srv (product_request product_id) w = (Inr d, w1)
          \<and> images_of r = (if reports_success d then product_image srv d w1 else [])
          \<and> (if reports_success d
              then \<exists>product discount image_url.
                     proposal_inputs d = Inr (product, discount, image_url)
                     \<and> proposal repr fcomma product_id quantity product discount =
                         Inr (json_of r)
              else json_of r = d)))
   \<and> (\<forall>res w'.
       show_product_image srv product_id w = (Inr res, w') \<longrightarrow>
       (\<exists>d w1. send_json srv (product_request product_id) w = (Inr d, w1)
          \<and> res = (if reports_success d
                   then (case product_image srv d w1 of
                           i # rest \<Rightarrow> ImageAlone i
                         | [] \<Rightarrow> ErrorDict (JObj
                                   [(''error'', JStr ''Could not load product image''),
                                    (''image_url'', image_url_of (product_of d))]))
                   else ErrorDict (JObj [(''error'', JStr ''Product not found'')]))))
   \<and> (\<forall>d' w1 ps. search_products srv query page limit False w = (Inr (Plain d'), w1) \<longrightarrow>
       py_path d' [''data'', ''products''] = Inr (JArr ps) \<longrightarrow>
       (\<exists>r w2. search_products srv query page limit True w = (Inr r, w2) \<and> json_of r = d'))
   \<and> (\<forall>show_images kvs w1 ps.
       send_json srv (category_request category_id page limit) w = (Inr (JObj kvs), w1) \<longrightarrow>
       (reports_success (JObj kvs) \<longrightarrow>
          py_path (JObj kvs) [''data'', ''products''] = Inr (JArr ps)
          \<and> (\<forall>p\<in>set (take 3 ps). \<exists>pk. p = JObj pk)) \<longrightarrow>
       (\<exists>r w'. get_products_by_category srv category_id page limit show_images w = (Inr r, w') \<and> json_of r = JObj kvs))
   \<and> (\<forall>show_images kvs w1 ps.
       send_json srv (filter_request (filter_params category min_price max_price dietary brand
                    in_stock sort_by page limit)) w = (Inr (JObj kvs), w1) \<longrightarrow>
       (reports_success (JObj kvs) \<longrightarrow>
          py_path (JObj kvs) [''data'', ''products''] = Inr (JArr ps)
          \<and> (\<forall>p\<in>set (take 3 ps). \<exists>pk. p = JObj pk)) \<longrightarrow>
       (\<exists>r w'. filter_products srv category min_price max_price dietary brand in_stock sort_by
                 page limit show_images w = (Inr r, w') \<and> json_of r = JObj kvs))
   \<and> (\<forall>show_images kvs w1 ps.
       send_json srv (featured_request limit) w = (Inr (JObj kvs), w1) \<longrightarrow>
       (reports_success (JObj kvs) \<longrightarrow>
          py_path (JObj kvs) [''data'', ''products''] = Inr (JArr ps)
          \<and> (\<forall>p\<in>set (take 3 ps). \<exists>pk. p = JObj pk)) \<longrightarrow>
       (\<exists>r w'. get_featured_products srv limit show_images w = (Inr r, w') \<and> json_of r = JObj kvs))
   \<and> (\<forall>show_image kvs w1 pk.
       send_json srv (product_request product_id) w = (Inr (JObj kvs), w1) \<longrightarrow>
       (reports_success (JObj kvs) \<longrightarrow>
          py_path (JObj kvs) [''data'', ''product''] = Inr (JObj pk)) \<longrightarrow>
       (\<exists>r w'. get_product_details srv product_id show_image w = (Inr r, w')
          \<and> json_of r = JObj kvs))
   \<and> (\<forall>d w1 ok product discount image_url p.
       send_json srv (product_request product_id) w = (Inr d, w1) \<longrightarrow>
       py_get d ''success'' JNull = Inr ok \<longrightarrow> truthy ok \<longrightarrow>
       proposal_inputs d = Inr (product, discount, image_url) \<longrightarrow>
       proposal repr fcomma product_id quantity product discount = Inr p \<longrightarrow>
       (\<exists>r w2. add_to_cart srv repr fcomma auth_token product_id quantity False w = (Inr r, w2)
          \<and> json_of r = p))"
proof (intro conjI allI impI)
  fix res w'
  assume "send srv (image_request u) w = (Inr res, w')" and "u \<noteq> []"
    and "1048576 < int (length (content res))"
  then show "fetch_image_as_content srv (JStr u) w = (None, w')"
    by (simp add: fetch_image_of_response image_of_response_oversized)
next
  fix res w'
  assume "send srv (image_request u) w = (Inr res, w')" and "u \<noteq> []"
    and "status_code res = 200" and "int (length (content res)) \<le> 1048576"
    and "\<not> startswith (declared_content_type res) ''image/''"
  then show "fetch_image_as_content srv (JStr u) w =
         (Some \<lparr>itype = ''image'', data = b64encode (content res), mimeType = ''image/jpeg''\<rparr>,
          w')"
    by (simp add: fetch_image_of_response image_of_response_relabelled)
next
  fix res w'
  assume "send srv (image_request u) w = (Inr res, w')" and "u \<noteq> []"
    and "status_code res = 200" and "int (length (content res)) \<le> 1048576"
    and "startswith (declared_content_type res) ''image/''"
  then show "fetch_image_as_content srv (JStr u) w =
         (Some \<lparr>itype = ''image'', data = b64encode (content res),
                mimeType = declared_content_type res\<rparr>, w')"
    by (simp add: fetch_image_of_response image_of_response_def Let_def)
next
  fix res w'
  assume "send srv (image_request u) w = (Inr res, w')" and "u \<noteq> []"
    and "status_code res \<noteq> 200"
  then show "fetch_image_as_content srv (JStr u) w = (None, w')"
    by (simp add: fetch_image_of_response image_of_response_def)
next
  fix e w'
  assume "send srv (image_request u) w = (Inl e, w')" and "u \<noteq> []"
  then show "fetch_image_as_content srv (JStr u) w = (None, w')"
    by (simp add: fetch_image_as_content_def truthy_def)
next
  fix image_url
  assume "\<forall>s. image_url = JStr s \<longrightarrow> s = []"
  then show "fetch_image_as_content srv image_url w = (None, w)"
    by (cases image_url) (simp_all add: fetch_image_as_content_def truthy_def)
next
  fix show_images r w'
  assume "search_products srv query page limit show_images w = (Inr r, w')"
  then show "\<exists>d w1. send_json srv (search_request query page limit) w = (Inr d, w1)
          \<and> search_products srv query page limit False w = (Inr (Plain (json_of r)), w1)
          \<and> images_of r =
              (if show_images \<and> reports_success d then top_images srv d w1 else [])"
    by (rule search_products_result)
next
  fix show_images r w'
  assume "get_products_by_category srv category_id page limit show_images w = (Inr r, w')"
  then show "\<exists>d w1. send_json srv (category_request category_id page limit) w = (Inr d, w1)
          \<and> json_of r = d
          \<and> images_of r =
              (if show_images \<and> reports_success d then top_images srv d w1 else [])"
    unfolding get_products_by_category_def by (rule listing_result)
next
  fix show_images r w'
  assume "filter_products srv category min_price max_price dietary brand in_stock sort_by page limit
         show_images w = (Inr r, w')"
  then show "\<exists>d w1. send_json srv
                 (filter_request (filter_params category min_price max_price dietary brand
                    in_stock sort_by page limit)) w = (Inr d, w1)
          \<and> json_of r = d
          \<and> images_of r =
              (if show_images \<and> reports_success d then top_images srv d w1 else [])"
    unfolding filter_products_def by (rule listing_result)
next
  fix show_images r w'
  assume "get_featured_products srv limit show_images w = (Inr r, w')"
  then show "\<exists>d w1. send_json srv (featured_request limit) w = (Inr d, w1)
          \<and> json_of r = d
          \<and> images_of r =
              (if show_images \<and> reports_success d then top_images srv d w1 else [])"
    unfolding get_featured_products_def by (rule listing_result)
next
  fix show_image r w'
  assume "get_product_details srv product_id show_image w = (Inr r, w')"
  then show "\<exists>d w1. send_json srv (product_request product_id) w = (Inr d, w1)
          \<and> json_of r = d
          \<and> images_of r =
              (if show_image \<and> reports_success d then product_image srv d w1 else [])"
    by (rule get_product_details_result)
next
  fix r w'
  assume run: "add_to_cart srv repr fcomma auth_token product_id quantity False w = (Inr r, w')"
  from add_to_cart_proposal_image [OF run] obtain d w1 where
    sj: "send_json srv (product_request product_id) w = (Inr d, w1)"
    and im: "images_of r = (if reports_success d then product_image srv d w1 else [])"
    by blast
  from add_to_cart_unconfirmed_cases [OF run] sj obtain ok where
    ok: "py_get d ''success'' JNull = Inr ok"
    and rest: "if truthy ok
               then \<exists>product discount image_url.
                      proposal_inputs d = Inr (product, discount, image_url)
                      \<and> proposal repr fcomma product_id quantity product discount = Inr (json_of r)
               else r = Plain d \<and> w' = w1"
    by auto
  from ok rest have "if reports_success d
              then \<exists>product discount image_url.
                     proposal_inputs d = Inr (product, discount, image_url)
                     \<and> proposal repr fcomma product_id quantity product discount =
                         Inr (json_of r)
              else json_of r = d"
    by (auto simp: reports_success_def json_of_def split: if_splits)
  with sj im show "\<exists>d w1. send_json srv (product_request product_id) w = (Inr d, w1)
          \<and> images_of r = (if reports_success d then product_image srv d w1 else [])
          \<and> (if reports_success d
              then \<exists>product discount image_url.
                     proposal_inputs d = Inr (product, discount, image_url)
                     \<and> proposal repr fcomma product_id quantity product discount =
                         Inr (json_of r)
              else json_of r = d)"
    by blast
next
  fix res w'
  assume "show_product_image srv product_id w = (Inr res, w')"
  then show "\<exists>d w1. send_json srv (product_request product_id) w = (Inr d, w1)
          \<and> res = (if reports_success d
                   then (case product_image srv d w1 of
                           i # rest \<Rightarrow> ImageAlone i
                         | [] \<Rightarrow> ErrorDict (JObj
                                   [(''error'', JStr ''Could not load product image''),
                                    (''image_url'', image_url_of (product_of d))]))
                   else ErrorDict (JObj [(''error'', JStr ''Product not found'')]))"
    by (rule show_product_image_result)
next
  fix d' w1 ps
  assume "search_products srv query page limit False w = (Inr (Plain d'), w1)"
    and "py_path d' [''data'', ''products''] = Inr (JArr ps)"
  then show "\<exists>r w2. search_products srv query page limit True w = (Inr r, w2) \<and> json_of r = d'"
    by (rule search_products_images_total)
next
  fix show_images kvs w1 ps
  assume "send_json srv (category_request category_id page limit) w = (Inr (JObj kvs), w1)"
    and "reports_success (JObj kvs) \<longrightarrow>
          py_path (JObj kvs) [''data'', ''products''] = Inr (JArr ps)
          \<and> (\<forall>p\<in>set (take 3 ps). \<exists>pk. p = JObj pk)"
  then show "\<exists>r w'. get_products_by_category srv category_id page limit show_images w = (Inr r, w') \<and> json_of r = JObj kvs"
    unfolding get_products_by_category_def by (rule listing_total)
next
  fix show_images kvs w1 ps
  assume "send_json srv (filter_request (filter_params category min_price max_price dietary brand
                    in_stock sort_by page limit)) w = (Inr (JObj kvs), w1)"
    and "reports_success (JObj kvs) \<longrightarrow>
          py_path (JObj kvs) [''data'', ''products''] = Inr (JArr ps)
          \<and> (\<forall>p\<in>set (take 3 ps). \<exists>pk. p = JObj pk)"
  then show "\<exists>r w'. filter_products srv category min_price max_price dietary brand in_stock sort_by
                 page limit show_images w = (Inr r, w') \<and> json_of r = JObj kvs"
    unfolding filter_products_def by (rule listing_total)
next
  fix show_images kvs w1 ps
  assume "send_json srv (featured_request limit) w = (Inr (JObj kvs), w1)"
    and "reports_success (JObj kvs) \<longrightarrow>
          py_path (JObj kvs) [''data'', ''products''] = Inr (JArr ps)
          \<and> (\<forall>p\<in>set (take 3 ps). \<exists>pk. p = JObj pk)"
  then show "\<exists>r w'. get_featured_products srv limit show_images w = (Inr r, w') \<and> json_of r = JObj kvs"
    unfolding get_featured_products_def by (rule listing_total)
next
  fix show_image kvs w1 pk
  assume "send_json srv (product_request product_id) w = (Inr (JObj kvs), w1)"
    and "reports_success (JObj kvs) \<longrightarrow>
          py_path (JObj kvs) [''data'', ''product''] = Inr (JObj pk)"
  then show "\<exists>r w'. get_product_details srv product_id show_image w = (Inr r, w')
          \<and> json_of r = JObj kvs"
    by (rule get_product_details_total)
next
  fix d w1 ok product discount image_url p
  assume "send_json srv (product_request product_id) w = (Inr d, w1)"
    and "py_get d ''success'' JNull = Inr ok" and "truthy ok"
    and "proposal_inputs d = Inr (product, discount, image_url)"
    and "proposal repr fcomma product_id quantity product discount = Inr p"
  then show "\<exists>r w2. add_to_cart srv repr fcomma auth_token product_id quantity False w = (Inr r, w2)
          \<and> json_of r = p"
    by (rule add_to_cart_proposal_returned)
qed

lemma catalog_featured_run:
  "\<exists>w'. get_featured_products catalog_server 12 True start =
     (Inr (WithImages [\<lparr>itype = ''image'', data = ''UE5H'', mimeType = ''image/png''\<rparr>] catalog),
      w')
     \<and> map url (sent w') =
          [''http://localhost:5000/api/products/featured'', ''http://img.example/missing.png'',
           ''http://img.example/gone'', ''http://img.example/z.png'']"
proof -
  have "case get_featured_products catalog_server 12 True start of
          (Inr (WithImages images d), w') \<Rightarrow>
            images = [\<lparr>itype = ''image'', data = ''UE5H'', mimeType = ''image/png''\<rparr>]
            \<and> d = catalog
            \<and> map url (sent w') =
                [''http://localhost:5000/api/products/featured'',
                 ''http://img.example/missing.png'',
                 ''http://img.example/gone'', ''http://img.example/z.png'']
        | _ \<Rightarrow> False"
    by code_simp
  then show ?thesis
    by (auto split: prod.splits sum.splits tool_result.splits)
qed

lemma shop_show_images:
  "(\<exists>w'. show_product_image shop_server ''A'' start =
      (Inr (ImageAlone
         \<lparr>itype = ''image'', data = ''PGh0bWw+PC9odG1sPg=='', mimeType = ''image/jpeg''\<rparr>), w'))
   \<and> (\<exists>w'. show_product_image shop_server ''B'' start =
      (Inr (ErrorDict (JObj [(''error'', JStr ''Could not load product image''),
                             (''image_url'', JNull)])), w'))"
proof -
  have "(case show_product_image shop_server ''A'' start of
           (Inr res, w') \<Rightarrow>
             res = ImageAlone
               \<lparr>itype = ''image'', data = ''PGh0bWw+PC9odG1sPg=='', mimeType = ''image/jpeg''\<rparr>
         | _ \<Rightarrow> False)
        \<and> (case show_product_image shop_server ''B'' start of
           (Inr res, w') \<Rightarrow>
             res = ErrorDict (JObj [(''error'', JStr ''Could not load product image''),
                                    (''image_url'', JNull)])
         | _ \<Rightarrow> False)"
    by code_simp
  then show ?thesis
    by (auto split: prod.splits sum.splits)
qed

theorem image_attachment_degrades_witness:
  "send big_server (image_request ''http://img.example/big.png'') start =
     (Inr big_response, \<lparr>remote = 0, sent = [image_request ''http://img.example/big.png'']\<rparr>)
   \<and> 1048576 < int (length (content big_response))
   \<and> fetch_image_as_content big_server (JStr ''http://img.example/big.png'') start =
       (None, \<lparr>remote = 0, sent = [image_request ''http://img.example/big.png'']\<rparr>)
   \<and> (\<exists>r w' w1. get_featured_products catalog_server 12 True start = (Inr r, w')
         \<and> send_json catalog_server (featured_request 12) start = (Inr catalog, w1)
         \<and> json_of r = catalog
         \<and> reports_success catalog
         \<and> images_of r = top_images catalog_server catalog w1
         \<and> images_of r = [\<lparr>itype = ''image'', data = ''UE5H'', mimeType = ''image/png''\<rparr>])
   \<and> (\<exists>res w' d w1. show_product_image shop_server ''B'' start = (Inr res, w')
         \<and> send_json shop_server (product_request ''B'') start = (Inr d, w1)
         \<and> reports_success d
         \<and> product_image shop_server d w1 = []
         \<and> res = ErrorDict (JObj [(''error'', JStr ''Could not load product image''),
                                  (''image_url'', JNull)]))"
proof -
  have big: "1048576 < int (length (content big_response))"
    by (simp add: big_response_def length_big_payload)
  have nonempty: "''http://img.example/big.png'' \<noteq> []"
    by simp
  have none: "fetch_image_as_content big_server (JStr ''http://img.example/big.png'') start =
       (None, \<lparr>remote = 0, sent = [image_request ''http://img.example/big.png'']\<rparr>)"
    by (rule image_attachment_degrades
          [where srv = big_server and u = "''http://img.example/big.png''" and w = start,
            THEN conjunct1, rule_format, OF send_big_server nonempty big])
  from catalog_featured_run obtain w' where
    run: "get_featured_products catalog_server 12 True start =
     (Inr (WithImages [\<lparr>itype = ''image'', data = ''UE5H'', mimeType = ''image/png''\<rparr>] catalog),
      w')"
    by blast
  let ?r = "WithImages [\<lparr>itype = ''image'', data = ''UE5H'', mimeType = ''image/png''\<rparr>] catalog"
  have j: "json_of ?r = catalog"
    and i: "images_of ?r = [\<lparr>itype = ''image'', data = ''UE5H'', mimeType = ''image/png''\<rparr>]"
    by (simp_all add: json_of_def images_of_def)
  have ok: "reports_success catalog"
    by (simp add: reports_success_def catalog_def dget_def truthy_def)
  from image_attachment_degrades
          [where srv = catalog_server and w = start and limit = 12,
            THEN conjunct2, THEN conjunct2, THEN conjunct2, THEN conjunct2, THEN conjunct2,
            THEN conjunct2, THEN conjunct2, THEN conjunct2, THEN conjunct2, THEN conjunct1,
            rule_format, OF run]
  obtain d w1 where sj: "send_json catalog_server (featured_request 12) start = (Inr d, w1)"
    and jd: "json_of ?r = d"
    and im: "images_of ?r = (if True \<and> reports_success d then top_images catalog_server d w1 else [])"
    by blast
  from jd j have d: "d = catalog" by simp
  from im d ok have im': "images_of ?r = top_images catalog_server catalog w1"
    by simp
  from shop_show_images obtain w2 where
    run2: "show_product_image shop_server ''B'' start =
      (Inr (ErrorDict (JObj [(''error'', JStr ''Could not load product image''),
                             (''image_url'', JNull)])), w2)"
    by blast
  from image_attachment_degrades
          [where srv = shop_server and w = start and product_id = "''B''",
            THEN conjunct2, THEN conjunct2, THEN conjunct2, THEN conjunct2, THEN conjunct2,
            THEN conjunct2, THEN conjunct2, THEN conjunct2, THEN conjunct2, THEN conjunct2,
            THEN conjunct2, THEN conjunct2, THEN conjunct1, rule_format, OF run2]
  obtain d2 w3 where sj2: "send_json shop_server (product_request ''B'') start = (Inr d2, w3)"
    and res: "ErrorDict (JObj [(''error'', JStr ''Could not load product image''),
                             (''image_url'', JNull)]) =
              (if reports_success d2
                   then (case product_image shop_server d2 w3 of
                           i # rest \<Rightarrow> ImageAlone i
                         | [] \<Rightarrow> ErrorDict (JObj
                                   [(''error'', JStr ''Could not load product image''),
                                    (''image_url'', image_url_of (product_of d2))]))
                   else ErrorDict (JObj [(''error'', JStr ''Product not found'')]))"
    by blast
  from res have ok2: "reports_success d2"
    by (auto split: if_splits)
  with res have none2: "product_image shop_server d2 w3 = []"
    by (auto split: list.splits)
  from send_big_server big none run sj d j ok im' i run2 sj2 ok2 none2 show ?thesis
    by blast
qed

text \<open>
  C4 as stated fails: a page of 13 bytes served with status 200 and the declared type
  \<^verbatim>\<open>text/html\<close> is returned as an image of type \<^verbatim>\<open>image/jpeg\<close>.
\<close>

theorem non_image_type_is_attached:
  "declared_content_type html_response = ''text/html''
   \<and> \<not> startswith (declared_content_type html_response) ''image/''
   \<and> fst (fetch_image_as_content html_server (JStr ''http://img.example/page'') start) =
       Some \<lparr>itype = ''image'', data = ''PGh0bWw+PC9odG1sPg=='', mimeType = ''image/jpeg''\<rparr>"
  by code_simp

subsection \<open>The confirmation gate\<close>

lemma only_gets_refl: "only_gets srv w w"
  by (simp add: only_gets_def new_requests_def)

lemma only_gets_trans:
  assumes "only_gets srv w w1" and "only_gets srv w1 w2"
  shows "only_gets srv w w2"
proof -
  from assms(1) obtain n1 where s1: "sent w1 = sent w @ n1" and m1: "filter mutating n1 = []"
    unfolding only_gets_def new_requests_def
    by (metis append_take_drop_id)
  from assms(2) obtain n2 where s2: "sent w2 = sent w1 @ n2" and m2: "filter mutating n2 = []"
    unfolding only_gets_def new_requests_def
    by (metis append_take_drop_id)
  from s1 s2 m1 m2 assms show ?thesis
    by (simp add: only_gets_def new_requests_def)
qed

lemma send_sent:
  assumes "send srv rq w = (r, w')"
  shows "sent w' = sent w @ [rq]" and "remote w' = fst (srv (remote w) rq)"
  using assms by (auto simp: send_def split: prod.splits)

lemma send_get_only_gets:
  assumes "send srv rq w = (r, w')" and "rmethod rq = GET"
  shows "only_gets srv w w'"
  using send_sent [OF assms(1)] assms(2)
  by (simp add: only_gets_def new_requests_def mutating_def gets_are_reads_def)

lemma send_json_sent:
  assumes "send_json srv rq w = (r, w')"
  shows "sent w' = sent w @ [rq]" and "remote w' = fst (srv (remote w) rq)"
  using assms unfolding send_json_def
  by (auto split: prod.splits sum.splits dest: send_sent)

lemma send_json_get_only_gets:
  assumes "send_json srv rq w = (r, w')" and "rmethod rq = GET"
  shows "only_gets srv w w'"
  using send_json_sent [OF assms(1)] assms(2)
  by (simp add: only_gets_def new_requests_def mutating_def gets_are_reads_def)

lemma fetch_image_only_gets:
  assumes "fetch_image_as_content srv image_url w = (img, w')"
  shows "only_gets srv w w'"
  using assms unfolding fetch_image_as_content_def
  by (auto split: if_splits json.splits prod.splits sum.splits
      intro: only_gets_refl send_get_only_gets simp: image_request_def)

lemma recommendation_only_gets:
  assumes "get_recommendation_from_history srv repr auth_token product_id name w = (r, w')"
  shows "only_gets srv w w'"
proof -
  have g1: "rmethod (orders_request auth_token) = GET"
    by (simp add: orders_request_def)
  have g2: "rmethod (product_request u) = GET" for u
    by (simp add: product_request_def)
  from assms show ?thesis
    unfolding get_recommendation_from_history_def recommendation_body_def
    by (auto split: prod.splits sum.splits option.splits
        intro: send_json_get_only_gets [OF _ g1]
          only_gets_trans [OF send_json_get_only_gets [OF _ g1] send_json_get_only_gets [OF _ g2]])
qed

lemma only_gets_sent:
  assumes "only_gets srv w w'"
  obtains new where "sent w' = sent w @ new" and "filter mutating new = []"
  using assms unfolding only_gets_def new_requests_def
  by (metis append_take_drop_id)

lemma add_to_cart_unconfirmed_only_gets:
  assumes "add_to_cart srv repr fcomma auth_token product_id quantity False w = (res, w')"
  shows "only_gets srv w w'"
proof -
  obtain r0 w1 where sj: "send_json srv (product_request product_id) w = (r0, w1)"
    by (cases "send_json srv (product_request product_id) w")
  have g: "rmethod (product_request product_id) = GET"
    by (simp add: product_request_def)
  note first = send_json_get_only_gets [OF sj g]
  show ?thesis
  proof (cases "w' = w1")
    case True
    with first show ?thesis by simp
  next
    case False
    with assms sj obtain image_url img where "fetch_image_as_content srv image_url w1 = (img, w')"
      unfolding add_to_cart_def
      by (auto split: sum.splits prod.splits if_splits option.splits)
    from only_gets_trans [OF first fetch_image_only_gets [OF this]] show ?thesis .
  qed
qed

lemma add_to_cart_confirmed_requests:
  assumes "add_to_cart srv repr fcomma auth_token product_id quantity True w = (res, w')"
  shows "take (length (sent w)) (sent w') = sent w
       \<and> filter mutating (new_requests w w') = [add_item_request auth_token product_id quantity]"
proof -
  obtain r0 w1 where sj: "send_json srv (product_request product_id) w = (r0, w1)"
    by (cases "send_json srv (product_request product_id) w")
  obtain r1 w2 where post:
    "send_json srv (add_item_request auth_token product_id quantity) w1 = (r1, w2)"
    by (cases "send_json srv (add_item_request auth_token product_id quantity) w1")
  have s2: "sent w2 = sent w @ [product_request product_id,
                                  add_item_request auth_token product_id quantity]"
    using send_json_sent(1) [OF sj] send_json_sent(1) [OF post] by simp
  have mp: "\<not> mutating (product_request product_id)"
    and ma: "mutating (add_item_request auth_token product_id quantity)"
    by (simp_all add: mutating_def product_request_def add_item_request_def)
  have "\<exists>new. sent w' = sent w2 @ new \<and> filter mutating new = []"
  proof (cases "w' = w2")
    case True
    then show ?thesis by simp
  next
    case False
    with assms sj post obtain name rec where
      "get_recommendation_from_history srv repr auth_token product_id name w2 = (rec, w')"
      unfolding add_to_cart_def
      by (auto simp: Let_def split: sum.splits prod.splits if_splits json.splits)
    from recommendation_only_gets [OF this] show ?thesis
      by (auto elim: only_gets_sent)
  qed
  then obtain new where "sent w' = sent w2 @ new" and "filter mutating new = []"
    by blast
  with s2 mp ma show ?thesis
    by (simp add: new_requests_def)
qed

lemma proposal_shape:
  assumes "proposal repr fcomma product_id quantity product discount = Inr p"
  shows "\<exists>head. p = JObj
           [(''awaiting_confirmation'', JBool True),
            (''message'', JStr (head @ confirmation_question quantity)),
            (''product_id'', JStr product_id),
            (''product'', product)]"
proof -
  from assms obtain message where m: "proposal_message repr fcomma product discount quantity = Inr message"
    and p: "p = JObj
           [(''awaiting_confirmation'', JBool True),
            (''message'', JStr message),
            (''product_id'', JStr product_id),
            (''product'', product)]"
    unfolding proposal_def by (elim ebindE) auto
  from m obtain name unit price mrp rating reviews mins where
    "message = ''**'' @ py_str repr name @ ''** ('' @ py_str repr unit @
            '')'' @ [CHR 0x0A, CHR 0x0A, CHR 0xC3, CHR 0xB0, CHR 0xC5, CHR 0xB8, CHR 0xE2, CHR 0x80, CHR 0x99, CHR 0xC2, CHR 0xB0] @ '' Price: '' @ [CHR 0xC3, CHR 0xA2, CHR 0xE2, CHR 0x80, CHR 0x9A, CHR 0xC2, CHR 0xB9] @ py_str repr price @
            '' (MRP: '' @ [CHR 0xC3, CHR 0xA2, CHR 0xE2, CHR 0x80, CHR 0x9A, CHR 0xC2, CHR 0xB9] @ py_str repr mrp @ '', '' @ str_int discount @
            ''% off)'' @ [CHR 0x0A, CHR 0xC3, CHR 0xA2, CHR 0xC2, CHR 0xAD] @ '' Rating: '' @ py_str repr rating @ ''/5 ('' @ reviews @
            '' reviews)'' @ [CHR 0x0A, CHR 0xC3, CHR 0xB0, CHR 0xC5, CHR 0xB8, CHR 0xC5, CHR 0xA1, CHR 0xC5, CHR 0xA1] @ '' Delivery: ~'' @ py_str repr mins @
            '' minutes'' @ [CHR 0x0A, CHR 0x0A] @ ''Shall I add '' @ str_int quantity @
            '' item(s) to your cart? (Say '' @ [CHR 0x27] @ ''Yes'' @ [CHR 0x27] @ '' to confirm)''"
    unfolding proposal_message_def by (elim ebindE) (simp only: sum.inject, blast)
  then have "message = (''**'' @ py_str repr name @ ''** ('' @ py_str repr unit @
            '')'' @ [CHR 0x0A, CHR 0x0A, CHR 0xC3, CHR 0xB0, CHR 0xC5, CHR 0xB8, CHR 0xE2, CHR 0x80, CHR 0x99, CHR 0xC2, CHR 0xB0] @ '' Price: '' @ [CHR 0xC3, CHR 0xA2, CHR 0xE2, CHR 0x80, CHR 0x9A, CHR 0xC2, CHR 0xB9] @ py_str repr price @
            '' (MRP: '' @ [CHR 0xC3, CHR 0xA2, CHR 0xE2, CHR 0x80, CHR 0x9A, CHR 0xC2, CHR 0xB9] @ py_str repr mrp @ '', '' @ str_int discount @
            ''% off)'' @ [CHR 0x0A, CHR 0xC3, CHR 0xA2, CHR 0xC2, CHR 0xAD] @ '' Rating: '' @ py_str repr rating @ ''/5 ('' @ reviews @
            '' reviews)'' @ [CHR 0x0A, CHR 0xC3, CHR 0xB0, CHR 0xC5, CHR 0xB8, CHR 0xC5, CHR 0xA1, CHR 0xC5, CHR 0xA1] @ '' Delivery: ~'' @ py_str repr mins @
            '' minutes'' @ [CHR 0x0A, CHR 0x0A]) @ confirmation_question quantity"
    by (simp add: confirmation_question_def)
  with p show ?thesis by blast
qed

text \<open>
  C3, as the code has it. A call of \<^verbatim>\<open>add_to_cart\<close> with \<^verbatim>\<open>confirmed\<close> unset sends GET
  requests only, so no POST, PUT or DELETE, and on a remote whose GET requests are reads it
  leaves the remote state as it was. What it returns depends on the product lookup: when the
  lookup reports success, the dict returned is the proposal and nothing else (the flag
  \<^verbatim>\<open>awaiting_confirmation\<close>, a message that ends with the question
  \<^verbatim>\<open>Shall I add {quantity} item(s) to your cart? (Say 'Yes' to confirm)\<close>, the product id and
  the product as fetched); when the lookup reports no success, the payload of the lookup is
  returned as it came, and no proposal. A call with \<^verbatim>\<open>confirmed\<close> set sends exactly one
  request that is not a GET: the POST that adds the item. The statements on requests hold
  whether the call returns or raises.
\<close>

theorem add_to_cart_confirmation_gate:
  "(\<forall>res w'. add_to_cart srv repr fcomma auth_token product_id quantity False w = (res, w') \<longrightarrow>
       take (length (sent w)) (sent w') = sent w
       \<and> filter mutating (new_requests w w') = []
       \<and> (gets_are_reads srv \<longrightarrow> remote w' = remote w))
   \<and> (\<forall>r w'.
       add_to_cart srv repr fcomma auth_token product_id quantity False w = (Inr r, w') \<longrightarrow>
       (\<exists>d w1 ok. send_json srv (product_request product_id) w = (Inr d, w1)
          \<and> py_get d ''success'' JNull = Inr ok
          \<and> (if truthy ok
              then \<exists>product head.
                     py_path d [''data'', ''product''] = Inr product
                     \<and> json_of r = JObj
                          [(''awaiting_confirmation'', JBool True),
                           (''message'', JStr (head @ confirmation_question quantity)),
                           (''product_id'', JStr product_id),
                           (''product'', product)]
              else r = Plain d \<and> w' = w1)))
   \<and> (\<forall>res w'. add_to_cart srv repr fcomma auth_token product_id quantity True w = (res, w') \<longrightarrow>
       take (length (sent w)) (sent w') = sent w
       \<and> filter mutating (new_requests w w') =
           [add_item_request auth_token product_id quantity])"
proof (intro conjI allI impI)
  fix res w'
  assume run: "add_to_cart srv repr fcomma auth_token product_id quantity False w = (res, w')"
  note og = add_to_cart_unconfirmed_only_gets [OF run]
  from og show "take (length (sent w)) (sent w') = sent w"
    by (simp add: only_gets_def)
  from og show "filter mutating (new_requests w w') = []"
    by (simp add: only_gets_def)
  assume "gets_are_reads srv"
  with og show "remote w' = remote w"
    by (simp add: only_gets_def)
next
  fix r w'
  assume run: "add_to_cart srv repr fcomma auth_token product_id quantity False w = (Inr r, w')"
  from add_to_cart_unconfirmed_cases [OF run] obtain d w1 ok where
    sj: "send_json srv (product_request product_id) w = (Inr d, w1)"
    and ok: "py_get d ''success'' JNull = Inr ok"
    and rest: "if truthy ok
               then \<exists>product discount image_url.
                      proposal_inputs d = Inr (product, discount, image_url)
                      \<and> proposal repr fcomma product_id quantity product discount = Inr (json_of r)
               else r = Plain d \<and> w' = w1"
    by blast
  have "if truthy ok
        then \<exists>product head.
               py_path d [''data'', ''product''] = Inr product
               \<and> json_of r = JObj
                    [(''awaiting_confirmation'', JBool True),
                     (''message'', JStr (head @ confirmation_question quantity)),
                     (''product_id'', JStr product_id),
                     (''product'', product)]
        else r = Plain d \<and> w' = w1"
  proof (cases "truthy ok")
    case False
    with rest show ?thesis by simp
  next
    case True
    with rest obtain product discount image_url where
      pin: "proposal_inputs d = Inr (product, discount, image_url)"
      and p: "proposal repr fcomma product_id quantity product discount = Inr (json_of r)"
      by auto
    from pin have "py_path d [''data'', ''product''] = Inr product"
      unfolding proposal_inputs_def by (auto elim!: ebindE)
    with proposal_shape [OF p] True show ?thesis
      by auto
  qed
  with sj ok show "\<exists>d w1 ok. send_json srv (product_request product_id) w = (Inr d, w1)
          \<and> py_get d ''success'' JNull = Inr ok
          \<and> (if truthy ok
              then \<exists>product head.
                     py_path d [''data'', ''product''] = Inr product
                     \<and> json_of r = JObj
                          [(''awaiting_confirmation'', JBool True),
                           (''message'', JStr (head @ confirmation_question quantity)),
                           (''product_id'', JStr product_id),
                           (''product'', product)]
              else r = Plain d \<and> w' = w1)"
    by blast
next
  fix res w'
  assume run: "add_to_cart srv repr fcomma auth_token product_id quantity True w = (res, w')"
  note c = add_to_cart_confirmed_requests [OF run]
  from c show "take (length (sent w)) (sent w') = sent w"
    by blast
  from c show "filter mutating (new_requests w w') =
           [add_item_request auth_token product_id quantity]"
    by blast
qed

lemma gets_are_reads_scripted: "gets_are_reads (scripted table)"
  by (simp add: gets_are_reads_def scripted_def)

lemma shop_unconfirmed_run:
  "\<exists>img w'. add_to_cart shop_server no_repr no_fcomma None ''A'' 2 False start =
      (Inr (WithImages [img]
         (JObj [(''awaiting_confirmation'', JBool True),
                (''message'', JStr bread_message),
                (''product_id'', JStr ''A''),
                (''product'', JObj product_A)])), w')
     \<and> length (new_requests start w') = 2"
proof -
  have "case add_to_cart shop_server no_repr no_fcomma None ''A'' 2 False start of
          (Inr (WithImages [img] p), w') \<Rightarrow>
             p = JObj [(''awaiting_confirmation'', JBool True),
                (''message'', JStr bread_message),
                (''product_id'', JStr ''A''),
                (''product'', JObj product_A)]
             \<and> length (new_requests start w') = 2
        | _ \<Rightarrow> False"
    by code_simp
  then show ?thesis
    by (auto split: prod.splits sum.splits tool_result.splits list.splits)
qed

lemma shop_confirmed_run:
  "\<exists>r w'. add_to_cart shop_server no_repr no_fcomma None ''A'' 2 True start = (Inr r, w')
     \<and> length (new_requests start w') = 4 \<and> remote w' = 1"
proof -
  have "case add_to_cart shop_server no_repr no_fcomma None ''A'' 2 True start of
          (Inr r, w') \<Rightarrow> length (new_requests start w') = 4 \<and> remote w' = 1
        | (Inl e, w') \<Rightarrow> False"
    by code_simp
  then show ?thesis
    by (auto split: prod.splits sum.splits)
qed

theorem add_to_cart_confirmation_gate_witness:
  "gets_are_reads shop_server
   \<and> (\<exists>r w'. add_to_cart shop_server no_repr no_fcomma None ''A'' 2 False start = (Inr r, w')
         \<and> length (new_requests start w') = 2
         \<and> filter mutating (new_requests start w') = []
         \<and> remote w' = remote start
         \<and> json_of r = JObj [(''awaiting_confirmation'', JBool True),
                              (''message'', JStr bread_message),
                              (''product_id'', JStr ''A''),
                              (''product'', JObj product_A)]
         \<and> (\<exists>head. bread_message = head @ confirmation_question 2))
   \<and> (\<exists>r w'. add_to_cart shop_server no_repr no_fcomma None ''A'' 2 True start = (Inr r, w')
         \<and> length (new_requests start w') = 4
         \<and> filter mutating (new_requests start w') = [add_item_request None ''A'' 2]
         \<and> remote w' = 1)"
proof -
  have safe: "gets_are_reads shop_server"
    unfolding shop_server_def by (rule gets_are_reads_scripted)
  from shop_unconfirmed_run obtain img w' where
    run: "add_to_cart shop_server no_repr no_fcomma None ''A'' 2 False start =
      (Inr (WithImages [img]
         (JObj [(''awaiting_confirmation'', JBool True),
                (''message'', JStr bread_message),
                (''product_id'', JStr ''A''),
                (''product'', JObj product_A)])), w')"
    and two: "length (new_requests start w') = 2"
    by blast
  let ?r = "WithImages [img]
         (JObj [(''awaiting_confirmation'', JBool True),
                (''message'', JStr bread_message),
                (''product_id'', JStr ''A''),
                (''product'', JObj product_A)])"
  have j: "json_of ?r = JObj [(''awaiting_confirmation'', JBool True),
                              (''message'', JStr bread_message),
                              (''product_id'', JStr ''A''),
                              (''product'', JObj product_A)]"
    by (simp add: json_of_def)
  note gate = add_to_cart_confirmation_gate
    [where srv = shop_server and repr = no_repr and fcomma = no_fcomma and auth_token = None
       and product_id = "''A''" and quantity = 2 and w = start]
  from gate [THEN conjunct1, rule_format, OF run] safe
  have a: "filter mutating (new_requests start w') = []" and b: "remote w' = remote start"
    by blast+
  from gate [THEN conjunct2, THEN conjunct1, rule_format, OF run] obtain d w1 ok where
    sj: "send_json shop_server (product_request ''A'') start = (Inr d, w1)"
    and ok: "py_get d ''success'' JNull = Inr ok"
    and rest: "if truthy ok
              then \<exists>product head.
                     py_path d [''data'', ''product''] = Inr product
                     \<and> json_of ?r = JObj
                          [(''awaiting_confirmation'', JBool True),
                           (''message'', JStr (head @ confirmation_question 2)),
                           (''product_id'', JStr ''A''),
                           (''product'', product)]
              else ?r = Plain d \<and> w' = w1"
    by blast
  have "truthy ok"
  proof (rule ccontr)
    assume "\<not> truthy ok"
    with rest show False by simp
  qed
  with rest j have c: "\<exists>head. bread_message = head @ confirmation_question 2"
    by auto
  from shop_confirmed_run obtain r2 w2 where
    run2: "add_to_cart shop_server no_repr no_fcomma None ''A'' 2 True start = (Inr r2, w2)"
    and four: "length (new_requests start w2) = 4" and one: "remote w2 = 1"
    by blast
  from gate [THEN conjunct2, THEN conjunct2, rule_format, OF run2]
  have e: "filter mutating (new_requests start w2) = [add_item_request None ''A'' 2]"
    by blast
  from safe run two a b j c run2 four e one show ?thesis
    by blast
qed

text \<open>
  C3 as stated fails in its last part: when the lookup of the product reports no success,
  the unconfirmed call returns the payload of the lookup, which is no proposal. Nothing was
  changed on the remote side.
\<close>

theorem unconfirmed_add_without_proposal:
  "\<exists>w'. add_to_cart no_lookup_server no_repr no_fcomma None ''A'' 2 False start =
            (Inr (Plain not_found), w')
     \<and> py_item not_found ''awaiting_confirmation'' = Inl KeyError
     \<and> py_item not_found ''message'' = Inr (JStr ''Product not found'')
     \<and> filter mutating (sent w') = []
     \<and> remote w' = remote start"
proof -
  have "case add_to_cart no_lookup_server no_repr no_fcomma None ''A'' 2 False start of
          (Inr (Plain res), w') \<Rightarrow>
            res = not_found \<and>
            py_item not_found ''awaiting_confirmation'' = Inl KeyError \<and>
            py_item not_found ''message'' = Inr (JStr ''Product not found'') \<and>
            filter mutating (sent w') = [] \<and> remote w' = remote start
        | _ \<Rightarrow> False"
    by code_simp
  then show ?thesis
    by (auto split: prod.splits sum.splits tool_result.splits)
qed

subsection \<open>The confirmed branch of add_to_cart\<close>

lemma attach_recommendation_flag:
  "(py_item (attach_recommendation kvs recommendation) ''has_recommendation'' = Inr (JBool True)
      \<and> (\<exists>r. recommendation = Some r
            \<and> py_item (attach_recommendation kvs recommendation) ''recommendation'' = Inr r))
   \<or> py_item (attach_recommendation kvs recommendation) ''has_recommendation'' = Inr (JBool False)"
  by (cases recommendation) (simp_all add: attach_recommendation_def update_conv')

lemma attach_recommendation_success:
  "py_item (attach_recommendation kvs recommendation) ''success'' = py_item (JObj kvs) ''success''"
  by (cases recommendation) (simp_all add: attach_recommendation_def update_conv')

lemma add_to_cart_confirmed_result:
  assumes "send_json srv (product_request product_id) w = (r0, w1)"
    and "send_json srv (add_item_request auth_token product_id quantity) w1 = (Inr (JObj kvs), w2)"
    and "truthy (dget kvs ''success'' JNull)"
  shows "add_to_cart srv repr fcomma auth_token product_id quantity True w =
           (if truthy (product_name_of r0) then
              (Inr (Plain (attach_recommendation kvs
                 (fst (get_recommendation_from_history srv repr auth_token product_id
                         (product_name_of r0) w2)))),
               snd (get_recommendation_from_history srv repr auth_token product_id
                      (product_name_of r0) w2))
            else (Inr (Plain (JObj kvs)), w2))"
  using assms unfolding add_to_cart_def
  by (simp add: Let_def split: prod.splits)

text \<open>
  C6, as the code has it. After a confirmed call whose POST reports success, the response
  carries \<^verbatim>\<open>has_recommendation\<close>: true together with the recommendation, or false. This
  needs the name that the product lookup before the POST gave (\<^verbatim>\<open>"this item"\<close> when the
  lookup raised) to be truthy, because the code runs the deriver under
  \<^verbatim>\<open>if result.get("success") and product_name\<close>; otherwise the remote result is returned
  as it came.
\<close>

theorem confirmed_add_carries_flag:
  assumes "send_json srv (product_request product_id) w = (r0, w1)"
    and "send_json srv (add_item_request auth_token product_id quantity) w1 = (Inr (JObj kvs), w2)"
    and "truthy (dget kvs ''success'' JNull)"
  shows "(truthy (product_name_of r0) \<longrightarrow>
           (\<exists>res w3. add_to_cart srv repr fcomma auth_token product_id quantity True w =
                        (Inr (Plain res), w3)
              \<and> ((py_item res ''has_recommendation'' = Inr (JBool True)
                    \<and> (\<exists>r. py_item res ''recommendation'' = Inr r))
                  \<or> py_item res ''has_recommendation'' = Inr (JBool False))))
       \<and> (\<not> truthy (product_name_of r0) \<longrightarrow>
           add_to_cart srv repr fcomma auth_token product_id quantity True w =
             (Inr (Plain (JObj kvs)), w2))"
proof (intro conjI impI)
  assume name: "truthy (product_name_of r0)"
  let ?rec = "fst (get_recommendation_from_history srv repr auth_token product_id
                     (product_name_of r0) w2)"
  from add_to_cart_confirmed_result [OF assms] name
  have run: "add_to_cart srv repr fcomma auth_token product_id quantity True w =
           (Inr (Plain (attach_recommendation kvs ?rec)),
            snd (get_recommendation_from_history srv repr auth_token product_id
                   (product_name_of r0) w2))"
    by simp
  from attach_recommendation_flag [of kvs ?rec]
  have "(py_item (attach_recommendation kvs ?rec) ''has_recommendation'' = Inr (JBool True)
           \<and> (\<exists>r. py_item (attach_recommendation kvs ?rec) ''recommendation'' = Inr r))
        \<or> py_item (attach_recommendation kvs ?rec) ''has_recommendation'' = Inr (JBool False)"
    by blast
  with run show "\<exists>res w3. add_to_cart srv repr fcomma auth_token product_id quantity True w =
                        (Inr (Plain res), w3)
              \<and> ((py_item res ''has_recommendation'' = Inr (JBool True)
                    \<and> (\<exists>r. py_item res ''recommendation'' = Inr r))
                  \<or> py_item res ''has_recommendation'' = Inr (JBool False))"
    by blast
next
  assume "\<not> truthy (product_name_of r0)"
  with add_to_cart_confirmed_result [OF assms]
  show "add_to_cart srv repr fcomma auth_token product_id quantity True w =
          (Inr (Plain (JObj kvs)), w2)"
    by simp
qed

lemma shop_confirmed_requests:
  "\<exists>r0 w1 kvs w2.
     send_json shop_server (product_request ''A'') start = (r0, w1)
     \<and> send_json shop_server (add_item_request None ''A'' 2) w1 = (Inr (JObj kvs), w2)
     \<and> truthy (dget kvs ''success'' JNull)
     \<and> product_name_of r0 = JStr ''Bread''"
proof -
  have "case send_json shop_server (product_request ''A'') start of
          (r0, w1) \<Rightarrow>
            product_name_of r0 = JStr ''Bread'' \<and>
            (case send_json shop_server (add_item_request None ''A'' 2) w1 of
               (Inr (JObj kvs), w2) \<Rightarrow> truthy (dget kvs ''success'' JNull)
             | _ \<Rightarrow> False)"
    by code_simp
  then show ?thesis
    by (auto split: prod.splits sum.splits json.splits)
qed

theorem confirmed_add_carries_flag_witness:
  "\<exists>r0 w1 kvs w2 res w3.
     send_json shop_server (product_request ''A'') start = (r0, w1)
     \<and> send_json shop_server (add_item_request None ''A'' 2) w1 = (Inr (JObj kvs), w2)
     \<and> truthy (dget kvs ''success'' JNull)
     \<and> truthy (product_name_of r0)
     \<and> add_to_cart shop_server no_repr no_fcomma None ''A'' 2 True start = (Inr (Plain res), w3)
     \<and> py_item res ''has_recommendation'' = Inr (JBool True)
     \<and> py_path res [''recommendation'', ''product'', ''id''] = Inr (JStr ''B'')"
proof -
  from shop_confirmed_requests obtain r0 w1 kvs w2 where
    a: "send_json shop_server (product_request ''A'') start = (r0, w1)"
    and b: "send_json shop_server (add_item_request None ''A'' 2) w1 = (Inr (JObj kvs), w2)"
    and c: "truthy (dget kvs ''success'' JNull)"
    and n: "product_name_of r0 = JStr ''Bread''"
    by blast
  from n have t: "truthy (product_name_of r0)"
    by (simp add: truthy_def)
  from confirmed_add_carries_flag [OF a b c, of no_repr no_fcomma] t obtain res w3 where
    run: "add_to_cart shop_server no_repr no_fcomma None ''A'' 2 True start = (Inr (Plain res), w3)"
    by blast
  have "case add_to_cart shop_server no_repr no_fcomma None ''A'' 2 True start of
          (Inr (Plain res), w3) \<Rightarrow>
            py_item res ''has_recommendation'' = Inr (JBool True) \<and>
            py_path res [''recommendation'', ''product'', ''id''] = Inr (JStr ''B'')
        | _ \<Rightarrow> False"
    by code_simp
  with run have "py_item res ''has_recommendation'' = Inr (JBool True)"
    and "py_path res [''recommendation'', ''product'', ''id''] = Inr (JStr ''B'')"
    by simp_all
  with a b c t run show ?thesis
    by blast
qed

text \<open>
  C6 as stated fails: when the lookup of the product reports no success and the POST
  succeeds, the response has neither \<^verbatim>\<open>recommendation\<close> nor \<^verbatim>\<open>has_recommendation\<close>.
\<close>

theorem confirmed_add_without_flag:
  "\<exists>res w'. add_to_cart no_lookup_server no_repr no_fcomma None ''A'' 2 True start =
               (Inr (Plain res), w')
     \<and> filter mutating (sent w') = [add_item_request None ''A'' 2]
     \<and> py_item res ''success'' = Inr (JBool True)
     \<and> py_item res ''has_recommendation'' = Inl KeyError
     \<and> py_item res ''recommendation'' = Inl KeyError"
proof -
  have "case add_to_cart no_lookup_server no_repr no_fcomma None ''A'' 2 True start of
          (Inr (Plain res), w') \<Rightarrow>
            filter mutating (sent w') = [add_item_request None ''A'' 2] \<and>
            py_item res ''success'' = Inr (JBool True) \<and>
            py_item res ''has_recommendation'' = Inl KeyError \<and>
            py_item res ''recommendation'' = Inl KeyError
        | _ \<Rightarrow> False"
    by code_simp
  then show ?thesis
    by (auto split: prod.splits sum.splits tool_result.splits)
qed

text \<open>
  C8. A failure while the deriver runs gives no recommendation and no exception: a request
  for the order history that fails in transport or whose body is not JSON, a history
  payload on which the scan raises, a refresh request that fails or whose body is not JSON,
  a refresh payload on which the reshaping raises. And a confirmed \<^verbatim>\<open>add_to_cart\<close> whose
  POST answers with a truthy \<^verbatim>\<open>success\<close> returns a dict with that same \<^verbatim>\<open>success\<close>,
  whatever the deriver does.
\<close>

theorem recommendation_failures_are_silent:
  "(\<forall>e w1. send_json srv (orders_request auth_token) w = (Inl e, w1) \<longrightarrow>
       get_recommendation_from_history srv repr auth_token product_id name w = (None, w1))
   \<and> (\<forall>d w1 e. send_json srv (orders_request auth_token) w = (Inr d, w1) \<longrightarrow>
       select_top product_id d = Inl e \<longrightarrow>
       get_recommendation_from_history srv repr auth_token product_id name w = (None, w1))
   \<and> (\<forall>d w1 k snap e w2. send_json srv (orders_request auth_token) w = (Inr d, w1) \<longrightarrow>
       select_top product_id d = Inr (Some (k, snap)) \<longrightarrow>
       send_json srv (product_request (py_str repr k)) w1 = (Inl e, w2) \<longrightarrow>
       get_recommendation_from_history srv repr auth_token product_id name w = (None, w2))
   \<and> (\<forall>d w1 k snap product_data e w2.
       send_json srv (orders_request auth_token) w = (Inr d, w1) \<longrightarrow>
       select_top product_id d = Inr (Some (k, snap)) \<longrightarrow>
       send_json srv (product_request (py_str repr k)) w1 = (Inr product_data, w2) \<longrightarrow>
       recommendation_of repr name k snap product_data = Inl e \<longrightarrow>
       get_recommendation_from_history srv repr auth_token product_id name w = (None, w2))
   \<and> (\<forall>r0 w1 kvs w2.
       send_json srv (product_request product_id) w = (r0, w1) \<longrightarrow>
       send_json srv (add_item_request auth_token product_id quantity) w1 =
         (Inr (JObj kvs), w2) \<longrightarrow>
       truthy (dget kvs ''success'' JNull) \<longrightarrow>
       (\<exists>res w3. add_to_cart srv repr fcomma auth_token product_id quantity True w =
                    (Inr (Plain res), w3)
          \<and> py_item res ''success'' = py_item (JObj kvs) ''success''))"
proof (intro conjI allI impI)
  fix e w1
  assume "send_json srv (orders_request auth_token) w = (Inl e, w1)"
  then show "get_recommendation_from_history srv repr auth_token product_id name w = (None, w1)"
    by (simp add: get_recommendation_from_history_def recommendation_body_def)
next
  fix d w1 e
  assume "send_json srv (orders_request auth_token) w = (Inr d, w1)"
    and "select_top product_id d = Inl e"
  then show "get_recommendation_from_history srv repr auth_token product_id name w = (None, w1)"
    by (simp add: get_recommendation_from_history_def recommendation_body_def)
next
  fix d w1 k snap e w2
  assume "send_json srv (orders_request auth_token) w = (Inr d, w1)"
    and "select_top product_id d = Inr (Some (k, snap))"
    and "send_json srv (product_request (py_str repr k)) w1 = (Inl e, w2)"
  then show "get_recommendation_from_history srv repr auth_token product_id name w = (None, w2)"
    by (simp add: get_recommendation_from_history_def recommendation_body_def)
next
  fix d w1 k snap product_data e w2
  assume "send_json srv (orders_request auth_token) w = (Inr d, w1)"
    and "select_top product_id d = Inr (Some (k, snap))"
    and "send_json srv (product_request (py_str repr k)) w1 = (Inr product_data, w2)"
    and "recommendation_of repr name k snap product_data = Inl e"
  then show "get_recommendation_from_history srv repr auth_token product_id name w = (None, w2)"
    by (simp add: get_recommendation_from_history_def recommendation_body_def)
next
  fix r0 w1 kvs w2
  assume a: "send_json srv (product_request product_id) w = (r0, w1)"
    and b: "send_json srv (add_item_request auth_token product_id quantity) w1 =
              (Inr (JObj kvs), w2)"
    and c: "truthy (dget kvs ''success'' JNull)"
  show "\<exists>res w3. add_to_cart srv repr fcomma auth_token product_id quantity True w =
                    (Inr (Plain res), w3)
          \<and> py_item res ''success'' = py_item (JObj kvs) ''success''"
  proof (cases "truthy (product_name_of r0)")
    case True
    with add_to_cart_confirmed_result [OF a b c] show ?thesis
      by (simp add: attach_recommendation_success)
  next
    case False
    with add_to_cart_confirmed_result [OF a b c] show ?thesis
      by simp
  qed
qed

lemma broken_history_requests:
  "\<exists>e w1 r0 w1' kvs w2.
     send_json broken_history_server (orders_request None) start = (Inl e, w1)
     \<and> send_json broken_history_server (product_request ''A'') start = (r0, w1')
     \<and> send_json broken_history_server (add_item_request None ''A'' 2) w1' =
          (Inr (JObj kvs), w2)
     \<and> truthy (dget kvs ''success'' JNull)
     \<and> py_item (JObj kvs) ''success'' = Inr (JBool True)"
proof -
  have "(case send_json broken_history_server (orders_request None) start of
           (Inl e, w1) \<Rightarrow> e = JSONDecodeError
         | (Inr d, w1) \<Rightarrow> False)
        \<and> (case send_json broken_history_server (product_request ''A'') start of
             (r0, w1') \<Rightarrow>
               (case send_json broken_history_server (add_item_request None ''A'' 2) w1' of
                  (Inr (JObj kvs), w2) \<Rightarrow>
                    truthy (dget kvs ''success'' JNull) \<and>
                    py_item (JObj kvs) ''success'' = Inr (JBool True)
                | _ \<Rightarrow> False))"
    by code_simp
  then show ?thesis
    by (auto split: prod.splits sum.splits json.splits)
qed

theorem recommendation_failures_are_silent_witness:
  "\<exists>e w1 r0 w1' kvs w2 res w3.
     send_json broken_history_server (orders_request None) start = (Inl e, w1)
     \<and> get_recommendation_from_history broken_history_server no_repr None ''A''
          (JStr ''Bread'') start = (None, w1)
     \<and> send_json broken_history_server (product_request ''A'') start = (r0, w1')
     \<and> send_json broken_history_server (add_item_request None ''A'' 2) w1' =
          (Inr (JObj kvs), w2)
     \<and> truthy (dget kvs ''success'' JNull)
     \<and> add_to_cart broken_history_server no_repr no_fcomma None ''A'' 2 True start =
          (Inr (Plain res), w3)
     \<and> py_item res ''success'' = Inr (JBool True)"
proof -
  from broken_history_requests obtain e w1 r0 w1' kvs w2 where
    o: "send_json broken_history_server (orders_request None) start = (Inl e, w1)"
    and a: "send_json broken_history_server (product_request ''A'') start = (r0, w1')"
    and b: "send_json broken_history_server (add_item_request None ''A'' 2) w1' =
              (Inr (JObj kvs), w2)"
    and c: "truthy (dget kvs ''success'' JNull)"
    and s: "py_item (JObj kvs) ''success'' = Inr (JBool True)"
    by blast
  note silent = recommendation_failures_are_silent
    [where srv = broken_history_server and repr = no_repr and fcomma = no_fcomma
       and auth_token = None and product_id = "''A''" and quantity = 2 and w = start
       and name = "JStr ''Bread''"]
  from silent [THEN conjunct1, rule_format, OF o]
  have none: "get_recommendation_from_history broken_history_server no_repr None ''A''
          (JStr ''Bread'') start = (None, w1)" .
  from silent [THEN conjunct2, THEN conjunct2, THEN conjunct2, THEN conjunct2, rule_format,
      OF a b c]
  obtain res w3 where
    "add_to_cart broken_history_server no_repr no_fcomma None ''A'' 2 True start =
       (Inr (Plain res), w3)"
    and "py_item res ''success'' = py_item (JObj kvs) ''success''"
    by blast
  with o none a b c s show ?thesis
    by (metis (no_types))
qed

subsection \<open>The scan of the order history\<close>

lemma record_item_step:
  assumes "record_item added_product_id item cp = Inr cp'"
  shows "cp' = (if py_eq (item_id item) (JStr added_product_id) then cp else step cp (entry item))"
proof -
  from assms obtain k where k: "item_or item ''productId'' ''_id'' = Inr k"
    and rest: "(if py_eq k (JStr added_product_id) then Inr cp
       else if \<not> hashable k then Inl TypeError
       else if \<not> has_key k cp then
         ebind (item_or item ''name'' ''name'') (\<lambda>name.
         ebind (item_or item ''price'' ''price'') (\<lambda>price.
         ebind (item_or item ''image'' ''image'') (\<lambda>image.
         ebind (item_or item ''unit'' ''unit'') (\<lambda>unit.
           Inr (cp @ [(k,
                  \<lparr>cp_count = 0 + 1, cp_name = name, cp_price = price,
                   cp_image = image, cp_unit = unit\<rparr>)])))))
       else Inr (bump k cp)) = Inr cp'"
    unfolding record_item_def by (elim ebindE) blast
  from k have id: "item_id item = k"
    by (simp add: item_id_def)
  show ?thesis
  proof (cases "py_eq k (JStr added_product_id)")
    case True
    with rest id show ?thesis by simp
  next
    case False
    show ?thesis
    proof (cases "has_key k cp")
      case True
      with rest False id show ?thesis
        by (auto simp: step_def entry_def split: if_splits)
    next
      case nk: False
      with rest False have "ebind (item_or item ''name'' ''name'') (\<lambda>name.
         ebind (item_or item ''price'' ''price'') (\<lambda>price.
         ebind (item_or item ''image'' ''image'') (\<lambda>image.
         ebind (item_or item ''unit'' ''unit'') (\<lambda>unit.
           Inr (cp @ [(k,
                  \<lparr>cp_count = 0 + 1, cp_name = name, cp_price = price,
                   cp_image = image, cp_unit = unit\<rparr>)]))))) = Inr cp'"
        by (simp split: if_splits)
      then have "cp' = cp @ [entry item]"
        by (elim ebindE) (simp add: entry_def item_attr_def id)
      with nk False id show ?thesis
        by (simp add: step_def entry_def)
    qed
  qed
qed

lemma foldE_record_item:
  assumes "foldE (record_item added_product_id) items cp = Inr cp'"
  shows "cp' = foldl step cp
           (map entry (filter (\<lambda>item. \<not> py_eq (item_id item) (JStr added_product_id)) items))"
  using assms
proof (induction items arbitrary: cp)
  case Nil
  then show ?case by simp
next
  case (Cons item items)
  from Cons.prems obtain cp1 where r: "record_item added_product_id item cp = Inr cp1"
    and f: "foldE (record_item added_product_id) items cp1 = Inr cp'"
    by (auto split: sum.splits)
  from Cons.IH [OF f] record_item_step [OF r] show ?case
    by simp
qed

lemma scan_order_step:
  assumes "scan_order added_product_id order cp = Inr cp'"
  shows "cp' = foldl step cp
           (map entry (filter (\<lambda>item. \<not> py_eq (item_id item) (JStr added_product_id))
              (if retained added_product_id order then order_items order else [])))"
proof -
  from assms obtain items its has where i: "py_get order ''items'' (JArr []) = Inr items"
    and it: "py_iter items = Inr its"
    and h: "order_has_product added_product_id its = Inr has"
    and rest: "(if has then foldE (record_item added_product_id) its cp else Inr cp) = Inr cp'"
    unfolding scan_order_def by (elim ebindE) blast
  from i it have oi: "order_items order = its"
    by (simp add: order_items_def)
  with h have re: "retained added_product_id order = has"
    by (simp add: retained_def)
  show ?thesis
  proof (cases has)
    case True
    with rest have "foldE (record_item added_product_id) its cp = Inr cp'" by simp
    from foldE_record_item [OF this] True oi re show ?thesis by simp
  next
    case False
    with rest re show ?thesis by simp
  qed
qed

lemma foldE_scan_order:
  assumes "foldE (scan_order added_product_id) orders cp = Inr cp'"
  shows "cp' = foldl step cp (map entry (co_items added_product_id orders))"
  using assms
proof (induction orders arbitrary: cp)
  case Nil
  then show ?case by (simp add: co_items_def)
next
  case (Cons order orders)
  from Cons.prems obtain cp1 where s: "scan_order added_product_id order cp = Inr cp1"
    and f: "foldE (scan_order added_product_id) orders cp1 = Inr cp'"
    by (auto split: sum.splits)
  from Cons.IH [OF f] scan_order_step [OF s] show ?case
    by (simp add: co_items_def)
qed

subsection \<open>The table of co-purchased products\<close>

lemma py_eq_plain:
  assumes "plain_key k"
  shows "py_eq k' k = (k' = k)"
  using assms by (cases k; cases k') (simp_all add: plain_key_def as_num_def)

lemma py_eq_JStr: "py_eq k (JStr s) = (k = JStr s)"
  by (rule py_eq_plain) (simp add: plain_key_def)

lemma py_same_plain:
  assumes "plain_key k"
  shows "py_same k' k = (k' = k)"
  using assms py_eq_plain [OF assms, of k'] by (auto simp: plain_key_def py_same.simps)

lemma has_key_plain:
  assumes "plain_key k"
  shows "has_key k cp = (k \<in> set (map fst cp))"
  by (induction cp) (auto simp: py_same_plain [OF assms])

lemma map_fst_bump: "map fst (bump k cp) = map fst cp"
  by (induction cp) auto

lemma bump_entry:
  assumes "plain_key k" and "distinct (map fst cp)" and "(k', s') \<in> set (bump k cp)"
  shows "\<exists>s. (k', s) \<in> set cp \<and>
           s' = (if k' = k then s\<lparr>cp_count := cp_count s + 1\<rparr> else s)"
  using assms(2,3)
proof (induction cp)
  case Nil
  then show ?case by simp
next
  case (Cons a cp)
  obtain ka sa where a: "a = (ka, sa)" by (cases a)
  show ?case
  proof (cases "ka = k")
    case True
    with Cons.prems a have "(k', s') = (k, sa\<lparr>cp_count := cp_count sa + 1\<rparr>) \<or> (k', s') \<in> set cp"
      by (simp add: py_same_plain [OF assms(1)])
    moreover from Cons.prems(1) a True have "k \<notin> set (map fst cp)" by simp
    ultimately show ?thesis using a True by force
  next
    case False
    with Cons.prems a have "(k', s') = (ka, sa) \<or> (k', s') \<in> set (bump k cp)"
      by (simp add: py_same_plain [OF assms(1)])
    then show ?thesis
    proof
      assume "(k', s') = (ka, sa)"
      with a False show ?thesis by auto
    next
      assume "(k', s') \<in> set (bump k cp)"
      with Cons.IH Cons.prems(1) obtain s where "(k', s) \<in> set cp"
        and "s' = (if k' = k then s\<lparr>cp_count := cp_count s + 1\<rparr> else s)"
        by auto
      then show ?thesis by auto
    qed
  qed
qed

lemma first_pos_append_in:
  assumes "k \<in> set ks"
  shows "first_pos k (ks @ ls) = first_pos k ks"
  using assms unfolding first_pos_def
  by (induction ks) auto

lemma first_pos_less:
  assumes "k \<in> set ks"
  shows "first_pos k ks < length ks"
  using assms unfolding first_pos_def
  by (induction ks) auto

lemma first_pos_new:
  assumes "k \<notin> set ks"
  shows "first_pos k (ks @ [k]) = length ks"
  using assms unfolding first_pos_def
  by (induction ks) auto

lemma find_append_found:
  assumes "find P xs = Some x"
  shows "find P (xs @ ys) = Some x"
  using assms by (induction xs) (auto split: if_splits)

lemma find_append_new:
  assumes "\<forall>x\<in>set xs. \<not> P x" and "P y"
  shows "find P (xs @ [y]) = Some y"
  using assms by (induction xs) auto

text \<open>
  The table after the entries \<open>es\<close>, for identifiers that are strings or absent: one row per
  identifier, the rows in the order in which the identifiers were first met, each with the
  number of entries of its identifier and the attributes of the first of them.
\<close>

lemma tally_invariant:
  assumes "\<forall>e\<in>set es. plain_key (fst e)" and "\<forall>e\<in>set es. cp_count (snd e) = 1"
  shows "distinct (map fst (foldl step [] es))
       \<and> set (map fst (foldl step [] es)) = set (map fst es)
       \<and> (\<forall>(k, s)\<in>set (foldl step [] es).
             cp_count s = count_list (map fst es) k
             \<and> (\<exists>s0. find (\<lambda>e. fst e = k) es = Some (k, s0) \<and> s = s0\<lparr>cp_count := cp_count s\<rparr>))
       \<and> sorted_wrt (\<lambda>a b. first_pos a (map fst es) < first_pos b (map fst es))
            (map fst (foldl step [] es))"
  using assms
proof (induction es rule: rev_induct)
  case Nil
  then show ?case by simp
next
  case (snoc e es)
  let ?cp = "foldl step [] es"
  let ?ids = "map fst es"
  obtain k s1 where e: "e = (k, s1)" by (cases e)
  from snoc.prems e have pk: "plain_key k" and c1: "cp_count s1 = 1" by auto
  from snoc.prems have "\<forall>e\<in>set es. plain_key (fst e)" and "\<forall>e\<in>set es. cp_count (snd e) = 1"
    by auto
  with snoc.IH have d: "distinct (map fst ?cp)"
    and ks: "set (map fst ?cp) = set ?ids"
    and rows: "\<forall>(k, s)\<in>set ?cp.
             cp_count s = count_list ?ids k
             \<and> (\<exists>s0. find (\<lambda>e. fst e = k) es = Some (k, s0) \<and> s = s0\<lparr>cp_count := cp_count s\<rparr>)"
    and ord: "sorted_wrt (\<lambda>a b. first_pos a ?ids < first_pos b ?ids) (map fst ?cp)"
    by blast+
  have ids': "map fst (es @ [e]) = ?ids @ [k]"
    by (simp add: e)
  show ?case
  proof (cases "k \<in> set ?ids")
    case True
    with ks pk have hk: "has_key k ?cp"
      by (simp add: has_key_plain)
    then have st: "foldl step [] (es @ [e]) = bump k ?cp"
      by (simp add: step_def e)
    have a: "distinct (map fst (bump k ?cp))"
      using d by (simp add: map_fst_bump)
    have b: "set (map fst (bump k ?cp)) = set (?ids @ [k])"
      using ks True by (auto simp: map_fst_bump)
    have c: "cp_count s' = count_list (?ids @ [k]) k'
             \<and> (\<exists>s0. find (\<lambda>e. fst e = k') (es @ [e]) = Some (k', s0)
                    \<and> s' = s0\<lparr>cp_count := cp_count s'\<rparr>)"
      if "(k', s') \<in> set (bump k ?cp)" for k' s'
    proof -
      from bump_entry [OF pk d that] obtain s where s: "(k', s) \<in> set ?cp"
        and s': "s' = (if k' = k then s\<lparr>cp_count := cp_count s + 1\<rparr> else s)"
        by blast
      from rows s obtain s0 where n: "cp_count s = count_list ?ids k'"
        and f: "find (\<lambda>e. fst e = k') es = Some (k', s0)"
        and s0: "s = s0\<lparr>cp_count := cp_count s\<rparr>"
        by auto
      from s' n have "cp_count s' = count_list (?ids @ [k]) k'"
        by auto
      moreover from s0 s' have "s' = s0\<lparr>cp_count := cp_count s'\<rparr>"
        by (cases s0; cases s) auto
      ultimately show ?thesis
        using find_append_found [OF f] by blast
    qed
    have o: "sorted_wrt (\<lambda>a b. first_pos a (?ids @ [k]) < first_pos b (?ids @ [k]))
               (map fst (bump k ?cp))"
      unfolding map_fst_bump
      using ord ks by (rule_tac sorted_wrt_mono_rel [rotated]) (auto simp: first_pos_append_in)
    from a b c o show ?thesis
      unfolding st ids' by blast
  next
    case False
    with ks pk have hk: "\<not> has_key k ?cp"
      by (simp add: has_key_plain)
    then have st: "foldl step [] (es @ [e]) = ?cp @ [(k, s1)]"
      by (simp add: step_def e)
    have a: "distinct (map fst (?cp @ [(k, s1)]))"
      using d ks False by simp
    have b: "set (map fst (?cp @ [(k, s1)])) = set (?ids @ [k])"
      using ks by simp
    have c: "cp_count s' = count_list (?ids @ [k]) k'
             \<and> (\<exists>s0. find (\<lambda>e. fst e = k') (es @ [e]) = Some (k', s0)
                    \<and> s' = s0\<lparr>cp_count := cp_count s'\<rparr>)"
      if "(k', s') \<in> set (?cp @ [(k, s1)])" for k' s'
    proof (cases "(k', s') \<in> set ?cp")
      case True
      with rows obtain s0 where n: "cp_count s' = count_list ?ids k'"
        and f: "find (\<lambda>e. fst e = k') es = Some (k', s0)"
        and s0: "s' = s0\<lparr>cp_count := cp_count s'\<rparr>"
        by auto
      from True ks have "k' \<in> set ?ids"
        by force
      with False have "k' \<noteq> k" by auto
      with n have "cp_count s' = count_list (?ids @ [k]) k'"
        by simp
      with s0 find_append_found [OF f] show ?thesis by blast
    next
      case nin: False
      with that have eq: "k' = k" "s' = s1" by auto
      from False have "count_list ?ids k = 0"
        by (simp add: count_list_0_iff)
      with c1 eq have "cp_count s' = count_list (?ids @ [k]) k'"
        by simp
      moreover from False have "find (\<lambda>e. fst e = k) (es @ [e]) = Some e"
        by (intro find_append_new) (auto simp: e)
      ultimately show ?thesis
        using eq e by auto
    qed
    have o: "sorted_wrt (\<lambda>a b. first_pos a (?ids @ [k]) < first_pos b (?ids @ [k]))
               (map fst (?cp @ [(k, s1)]))"
    proof -
      have "sorted_wrt (\<lambda>a b. first_pos a (?ids @ [k]) < first_pos b (?ids @ [k])) (map fst ?cp)"
        using ord ks by (rule_tac sorted_wrt_mono_rel [rotated]) (auto simp: first_pos_append_in)
      moreover have "first_pos x (?ids @ [k]) < first_pos k (?ids @ [k])"
        if "x \<in> set (map fst ?cp)" for x
      proof -
        from that ks have x: "x \<in> set ?ids" by simp
        from first_pos_less [OF x] have "first_pos x ?ids < length ?ids" .
        with x False show ?thesis
          by (simp add: first_pos_new first_pos_append_in)
      qed
      ultimately show ?thesis
        by (simp add: sorted_wrt_append)
    qed
    from a b c o show ?thesis
      unfolding st ids' by blast
  qed
qed

subsection \<open>The selection\<close>

lemma hd_insort_key:
  "hd (insort_key f x ys) = (if ys = [] then x else if f x \<le> f (hd ys) then x else hd ys)"
  by (cases ys) auto

text \<open>
  The head of a stable sort: an element with the least key, and among those the one that
  comes first in the list (\<open>R\<close> is any relation that the list is sorted by).
\<close>

lemma hd_sort_key:
  fixes f :: "'a \<Rightarrow> 'b::linorder"
  assumes "xs \<noteq> []" and "sorted_wrt R xs"
  shows "hd (sort_key f xs) \<in> set xs
       \<and> (\<forall>x\<in>set xs. f (hd (sort_key f xs)) < f x
             \<or> (f (hd (sort_key f xs)) = f x \<and> (x = hd (sort_key f xs) \<or> R (hd (sort_key f xs)) x)))"
  using assms
proof (induction xs)
  case Nil
  then show ?case by simp
next
  case (Cons x xs)
  show ?case
  proof (cases "xs = []")
    case True
    then show ?thesis by simp
  next
    case False
    let ?m = "hd (sort_key f xs)"
    from Cons.prems have sw: "sorted_wrt R xs" and first: "\<forall>y\<in>set xs. R x y"
      by simp_all
    from Cons.IH [OF False sw] have m: "?m \<in> set xs"
      and least: "\<forall>y\<in>set xs. f ?m < f y \<or> (f ?m = f y \<and> (y = ?m \<or> R ?m y))"
      by blast+
    from False have ne: "sort_key f xs \<noteq> []"
      by (metis length_0_conv length_sort)
    have hd: "hd (sort_key f (x # xs)) = (if f x \<le> f ?m then x else ?m)"
      using ne by (simp add: hd_insort_key)
    show ?thesis
    proof (cases "f x \<le> f ?m")
      case True
      with hd have h: "hd (sort_key f (x # xs)) = x" by simp
      have "f x < f y \<or> (f x = f y \<and> (y = x \<or> R x y))" if "y \<in> set (x # xs)" for y
      proof (cases "y = x")
        case True
        then show ?thesis by simp
      next
        case False
        with that have y: "y \<in> set xs" by simp
        with least have "f ?m \<le> f y" by auto
        with True have "f x \<le> f y" by simp
        with first y show ?thesis by auto
      qed
      with h show ?thesis by simp
    next
      case False
      with hd have h: "hd (sort_key f (x # xs)) = ?m" by simp
      have "f ?m < f y \<or> (f ?m = f y \<and> (y = ?m \<or> R ?m y))" if "y \<in> set (x # xs)" for y
      proof (cases "y = x")
        case True
        with False show ?thesis by (simp add: not_le)
      next
        case False
        with that least show ?thesis by simp
      qed
      with h m show ?thesis by simp
    qed
  qed
qed

lemma fst_set_bump: "fst ` set (bump k cp) = fst ` set cp"
  using map_fst_bump [of k cp] by (metis set_map)

lemma step_keys: "set (map fst (step cp e)) \<subseteq> set (map fst cp) \<union> {fst e}"
  by (cases "has_key (fst e) cp") (auto simp: step_def fst_set_bump)

lemma foldl_step_keys: "set (map fst (foldl step cp es)) \<subseteq> set (map fst cp) \<union> set (map fst es)"
proof (induction es arbitrary: cp)
  case Nil
  then show ?case by simp
next
  case (Cons e es)
  from Cons.IH [of "step cp e"] step_keys [of cp e] show ?case
    by auto
qed

text \<open>What \<open>select_top\<close> returns is the head of the sorted table of the history's orders.\<close>

lemma select_top_Some:
  assumes "select_top added_product_id d = Inr (Some (k, snap))"
  obtains cp where
    "cp = foldl step [] (map entry (co_items added_product_id (history_orders d)))"
    and "cp \<noteq> []" and "(k, snap) = hd (sorted_products cp)"
proof -
  from assms obtain ok where ok: "py_get d ''success'' JNull = Inr ok"
    and r1: "(if \<not> truthy ok then Inr None
       else
         ebind (py_item d ''data'') (\<lambda>inner.
         ebind (py_get inner ''orders'' (JArr [])) (\<lambda>orders.
           if \<not> truthy orders then Inr None
           else
             ebind (py_iter orders) (\<lambda>os.
             ebind (foldE (scan_order added_product_id) os []) (\<lambda>cp.
               if cp = [] then Inr None
               else (case sorted_products cp of
                       [] \<Rightarrow> Inl IndexError
                     | x # rest \<Rightarrow> Inr (Some x))))))) = Inr (Some (k, snap))"
    unfolding select_top_def by (elim ebindE) blast
  from r1 obtain inner orders where i: "py_item d ''data'' = Inr inner"
    and o: "py_get inner ''orders'' (JArr []) = Inr orders"
    and r2: "(if \<not> truthy orders then Inr None
           else
             ebind (py_iter orders) (\<lambda>os.
             ebind (foldE (scan_order added_product_id) os []) (\<lambda>cp.
               if cp = [] then Inr None
               else (case sorted_products cp of
                       [] \<Rightarrow> Inl IndexError
                     | x # rest \<Rightarrow> Inr (Some x))))) = Inr (Some (k, snap))"
    by (cases "truthy ok") (auto elim!: ebindE)
  from r2 obtain os cp where it: "py_iter orders = Inr os"
    and f: "foldE (scan_order added_product_id) os [] = Inr cp"
    and r3: "(if cp = [] then Inr None
               else (case sorted_products cp of
                       [] \<Rightarrow> Inl IndexError
                     | x # rest \<Rightarrow> Inr (Some x))) = Inr (Some (k, snap))"
    by (cases "truthy orders") (auto elim!: ebindE)
  from i o it have h: "history_orders d = os"
    by (simp add: history_orders_def)
  from r3 have ne: "cp \<noteq> []" and hd: "(k, snap) = hd (sorted_products cp)"
    by (auto split: if_splits list.splits)
  from foldE_scan_order [OF f] h ne hd that show thesis
    by simp
qed

subsection \<open>The recommendation\<close>

lemma hd_sorted_products:
  assumes "cp \<noteq> []"
  shows "hd (sorted_products cp) \<in> set cp"
proof -
  from assms have "sorted_products cp \<noteq> []"
    unfolding sorted_products_def by (metis length_0_conv length_sort)
  then have "hd (sorted_products cp) \<in> set (sorted_products cp)"
    by (rule hd_in_set)
  then show ?thesis
    by (simp add: sorted_products_def)
qed

lemma select_top_key_differs:
  assumes "select_top added_product_id d = Inr (Some (k, snap))"
  shows "\<not> py_eq k (JStr added_product_id)"
proof -
  from assms obtain cp where
    cp: "cp = foldl step [] (map entry (co_items added_product_id (history_orders d)))"
    and ne: "cp \<noteq> []" and hd: "(k, snap) = hd (sorted_products cp)"
    by (rule select_top_Some)
  from hd_sorted_products [OF ne] hd have "(k, snap) \<in> set cp" by simp
  then have "k \<in> set (map fst cp)" by force
  with foldl_step_keys [of "[]" "map entry (co_items added_product_id (history_orders d))"] cp
  have "k \<in> set (map fst (map entry (co_items added_product_id (history_orders d))))"
    by auto
  then obtain item where "item \<in> set (co_items added_product_id (history_orders d))"
    and "k = item_id item"
    by (auto simp: entry_def)
  then show ?thesis
    by (simp add: co_items_def)
qed

text \<open>The two shapes of a recommendation: refreshed from the catalog, or from the table.\<close>

lemma recommendation_of_cases:
  assumes "recommendation_of repr nm tid td product_data = Inr r"
  obtains (refreshed) ok kvs d in_stock where
      "py_get product_data ''success'' JNull = Inr ok" and "truthy ok"
      and "py_path product_data [''data'', ''product''] = Inr (JObj kvs)"
      and "discount_get (JObj kvs) = Inr d"
      and "r = JObj
             [(''type'', JStr ''frequently_bought_together''),
              (''message'', JStr (teaser repr nm)),
              (''product'', JObj
                 [(''id'', tid),
                  (''name'', dget kvs ''name'' JNull),
                  (''price'', dget kvs ''price'' JNull),
                  (''mrp'', dget kvs ''mrp'' JNull),
                  (''discount_percent'', JInt d),
                  (''unit'', dget kvs ''unit'' JNull),
                  (''image'', dget kvs ''image'' JNull),
                  (''in_stock'', JBool in_stock),
                  (''estimated_delivery_mins'', dget kvs ''estimatedDeliveryMins'' (JInt 15))]),
              (''times_bought_together'', JInt (int (cp_count td))),
              (''prompt'', JStr (prompt_for repr (dget kvs ''name'' JNull)
                                  (dget kvs ''price'' JNull)))]"
  | (cached) ok where
      "py_get product_data ''success'' JNull = Inr ok" and "\<not> truthy ok"
      and "r = JObj
             [(''type'', JStr ''frequently_bought_together''),
              (''message'', JStr (teaser repr nm)),
              (''product'', JObj
                 [(''id'', tid),
                  (''name'', cp_name td),
                  (''price'', cp_price td),
                  (''unit'', cp_unit td),
                  (''image'', cp_image td)]),
              (''times_bought_together'', JInt (int (cp_count td))),
              (''prompt'', JStr (prompt_for repr (cp_name td) (cp_price td)))]"
proof -
  from assms obtain ok where ok: "py_get product_data ''success'' JNull = Inr ok"
    unfolding recommendation_of_def by (elim ebindE) blast
  show thesis
  proof (cases "truthy ok")
    case False
    with assms ok have "r = JObj
             [(''type'', JStr ''frequently_bought_together''),
              (''message'', JStr (teaser repr nm)),
              (''product'', JObj
                 [(''id'', tid),
                  (''name'', cp_name td),
                  (''price'', cp_price td),
                  (''unit'', cp_unit td),
                  (''image'', cp_image td)]),
              (''times_bought_together'', JInt (int (cp_count td))),
              (''prompt'', JStr (prompt_for repr (cp_name td) (cp_price td)))]"
      unfolding recommendation_of_def by simp
    with ok False show thesis by (rule cached)
  next
    case True
    with assms ok obtain inner product d where
      i: "py_item product_data ''data'' = Inr inner" and p: "py_item inner ''product'' = Inr product"
      and d: "discount_get product = Inr d"
      and rest: "(case product of
             JObj kvs \<Rightarrow>
               ebind (py_gt (dget kvs ''stock'' (JInt 0)) (JInt 0)) (\<lambda>in_stock.
                 Inr (JObj
                   [(''type'', JStr ''frequently_bought_together''),
                    (''message'', JStr (teaser repr nm)),
                    (''product'', JObj
                       [(''id'', tid),
                        (''name'', dget kvs ''name'' JNull),
                        (''price'', dget kvs ''price'' JNull),
                        (''mrp'', dget kvs ''mrp'' JNull),
                        (''discount_percent'', JInt d),
                        (''unit'', dget kvs ''unit'' JNull),
                        (''image'', dget kvs ''image'' JNull),
                        (''in_stock'', JBool in_stock),
                        (''estimated_delivery_mins'',
                           dget kvs ''estimatedDeliveryMins'' (JInt 15))]),
                    (''times_bought_together'', JInt (int (cp_count td))),
                    (''prompt'', JStr (prompt_for repr (dget kvs ''name'' JNull)
                                        (dget kvs ''price'' JNull)))]))
           | _ \<Rightarrow> Inl AttributeError) = Inr r"
      unfolding recommendation_of_def by (elim ebindE) (simp, elim ebindE, blast)
    from rest obtain kvs where kvs: "product = JObj kvs"
      by (cases product) simp_all
    with rest obtain in_stock where "r = JObj
             [(''type'', JStr ''frequently_bought_together''),
              (''message'', JStr (teaser repr nm)),
              (''product'', JObj
                 [(''id'', tid),
                  (''name'', dget kvs ''name'' JNull),
                  (''price'', dget kvs ''price'' JNull),
                  (''mrp'', dget kvs ''mrp'' JNull),
                  (''discount_percent'', JInt d),
                  (''unit'', dget kvs ''unit'' JNull),
                  (''image'', dget kvs ''image'' JNull),
                  (''in_stock'', JBool in_stock),
                  (''estimated_delivery_mins'', dget kvs ''estimatedDeliveryMins'' (JInt 15))]),
              (''times_bought_together'', JInt (int (cp_count td))),
              (''prompt'', JStr (prompt_for repr (dget kvs ''name'' JNull)
                                  (dget kvs ''price'' JNull)))]"
      by (auto elim!: ebindE)
    moreover from i p kvs have "py_path product_data [''data'', ''product''] = Inr (JObj kvs)"
      by simp
    ultimately show thesis
      using ok True d kvs by (intro refreshed) auto
  qed
qed

lemma recommendation_of_id:
  assumes "recommendation_of repr nm tid td product_data = Inr r"
  shows "py_path r [''product'', ''id''] = Inr tid
       \<and> py_item r ''times_bought_together'' = Inr (JInt (int (cp_count td)))"
  using assms by (cases rule: recommendation_of_cases) simp_all

lemma get_recommendation_Some:
  assumes "get_recommendation_from_history srv repr auth_token added_product_id nm w = (Some r, w')"
  obtains d w1 k snap product_data where
    "send_json srv (orders_request auth_token) w = (Inr d, w1)"
    and "select_top added_product_id d = Inr (Some (k, snap))"
    and "send_json srv (product_request (py_str repr k)) w1 = (Inr product_data, w')"
    and "recommendation_of repr nm k snap product_data = Inr r"
  using assms
  unfolding get_recommendation_from_history_def recommendation_body_def
  by (auto split: prod.splits sum.splits option.splits)

text \<open>
  C5. A recommendation that the deriver returns names a product whose identifier is not
  the identifier of the product just added: the scan skips every line item whose
  identifier equals it.
\<close>

theorem recommendation_differs_from_added:
  assumes "get_recommendation_from_history srv repr auth_token added_product_id nm w = (Some r, w')"
  shows "\<exists>k. py_path r [''product'', ''id''] = Inr k
           \<and> k \<noteq> JStr added_product_id
           \<and> \<not> py_eq k (JStr added_product_id)"
proof -
  from assms obtain d w1 k snap product_data where
    top: "select_top added_product_id d = Inr (Some (k, snap))"
    and rec: "recommendation_of repr nm k snap product_data = Inr r"
    by (rule get_recommendation_Some)
  from select_top_key_differs [OF top] have "\<not> py_eq k (JStr added_product_id)" .
  moreover from this have "k \<noteq> JStr added_product_id"
    by (simp add: py_eq_JStr)
  moreover from recommendation_of_id [OF rec] have "py_path r [''product'', ''id''] = Inr k"
    by blast
  ultimately show ?thesis by blast
qed

theorem recommendation_differs_from_added_witness:
  "\<exists>r w'. get_recommendation_from_history shop_server no_repr None ''A'' (JStr ''Bread'') start =
             (Some r, w')
     \<and> py_path r [''product'', ''id''] = Inr (JStr ''B'')
     \<and> JStr ''B'' \<noteq> JStr ''A''"
proof -
  have "case get_recommendation_from_history shop_server no_repr None ''A'' (JStr ''Bread'') start of
          (Some r, w') \<Rightarrow> py_path r [''product'', ''id''] = Inr (JStr ''B'')
        | (None, w') \<Rightarrow> False"
    by code_simp
  then obtain r w' where
    run: "get_recommendation_from_history shop_server no_repr None ''A'' (JStr ''Bread'') start =
            (Some r, w')"
    and b: "py_path r [''product'', ''id''] = Inr (JStr ''B'')"
    by (auto split: prod.splits option.splits)
  from recommendation_differs_from_added [OF run] b have "JStr ''B'' \<noteq> JStr ''A''"
    by auto
  with run b show ?thesis by blast
qed

end
